(* ===== verification/Prelude.thy ===== *)
theory Prelude
  imports Main "HOL-Library.Sublist" "HOL-Library.Multiset"
begin

text \<open>
  Shared vocabulary of the TaskFlow development: the names of the model's types, the
  collections of rewrite rules the component theories extend, and the few functions of
  the Go standard library that the handlers call (\<open>strings.Split\<close> with a one-character
  separator, \<open>strconv.Itoa\<close> on the non-negative placeholder counters, and ASCII case
  folding as PostgreSQL's \<open>ILIKE\<close> uses it), each with the lemmas the components share.
\<close>

named_theorems handler_simps "unfolding rules of the HTTP handlers"
named_theorems sql_simps "rules that evaluate the SQL statements of the storage model"

type_synonym uid = int
type_synonym timestamp = int
type_synonym http_status = nat

section \<open>\<open>strings.Split\<close> with a one-character separator\<close>

text \<open>
  Go's \<open>strings.Split(s, sep)\<close> for a one-character \<open>sep\<close>: the pieces between
  separators, in order, empty pieces included; \<open>strings.Split("", sep)\<close> is \<open>[""]\<close>.
\<close>

fun go_split :: "char \<Rightarrow> string \<Rightarrow> string list" where
  "go_split d [] = [[]]"
| "go_split d (c # cs) =
     (if c = d then [] # go_split d cs
      else (case go_split d cs of [] \<Rightarrow> [[c]] | w # ws \<Rightarrow> (c # w) # ws))"

fun go_join :: "char \<Rightarrow> string list \<Rightarrow> string" where
  "go_join d [] = []"
| "go_join d [w] = w"
| "go_join d (w # v # ws) = w @ d # go_join d (v # ws)"

lemma go_split_not_Nil [simp]: "go_split d s \<noteq> []"
  by (induction s) (auto split: list.split)

lemma go_split_no_sep [simp]: "d \<notin> set w \<Longrightarrow> go_split d w = [w]"
  by (induction w) auto

lemma go_split_append_sep [simp]:
  "d \<notin> set w \<Longrightarrow> go_split d (w @ d # s) = w # go_split d s"
  by (induction w) auto

lemma go_split_pieces: "w \<in> set (go_split d s) \<Longrightarrow> d \<notin> set w"
proof (induction s arbitrary: w)
  case Nil
  then show ?case by simp
next
  case (Cons c cs)
  then show ?case
    by (cases "go_split d cs") (auto split: if_splits)
qed

lemma go_join_split [simp]: "go_join d (go_split d s) = s"
proof (induction s)
  case Nil
  then show ?case by simp
next
  case (Cons c cs)
  then show ?case
    by (cases "go_split d cs"; cases "tl (go_split d cs)") (auto split: if_splits)
qed

lemma length_go_split: "length (go_split d s) = Suc (count_list s d)"
proof (induction s)
  case Nil
  then show ?case by simp
next
  case (Cons c cs)
  then show ?case by (cases "go_split d cs") auto
qed

text \<open>Splitting yields exactly two pieces \<open>[a, b]\<close> iff the string is \<open>a\<close>, one
  separator, \<open>b\<close>, with no other separator.\<close>

lemma go_split_eq_two:
  "go_split d s = [a, b] \<longleftrightarrow> s = a @ d # b \<and> d \<notin> set a \<and> d \<notin> set b"
proof
  assume split: "go_split d s = [a, b]"
  then have "s = go_join d [a, b]" by (metis go_join_split)
  moreover have "d \<notin> set a" "d \<notin> set b"
    using go_split_pieces [of _ d s] split by auto
  ultimately show "s = a @ d # b \<and> d \<notin> set a \<and> d \<notin> set b" by simp
next
  assume "s = a @ d # b \<and> d \<notin> set a \<and> d \<notin> set b"
  then show "go_split d s = [a, b]" by simp
qed

section \<open>\<open>strconv.Itoa\<close> on non-negative numbers\<close>

definition digit_char :: "nat \<Rightarrow> char" where
  "digit_char n = char_of (48 + n)"

fun go_itoa :: "nat \<Rightarrow> string" where
  "go_itoa n = (if n < 10 then [digit_char n] else go_itoa (n div 10) @ [digit_char (n mod 10)])"

declare go_itoa.simps [simp del]

text \<open>Reading decimal digits back, as PostgreSQL's integer input and the inverse of
  \<open>go_itoa\<close> do.\<close>

definition digit_val :: "char \<Rightarrow> nat" where
  "digit_val c = of_char c - 48"

definition is_digit :: "char \<Rightarrow> bool" where
  "is_digit c \<longleftrightarrow> 48 \<le> (of_char c :: nat) \<and> (of_char c :: nat) \<le> 57"

definition digits_val :: "string \<Rightarrow> nat" where
  "digits_val s = foldl (\<lambda>a c. 10 * a + digit_val c) 0 s"

lemma digit_val_digit_char [simp]: "n < 10 \<Longrightarrow> digit_val (digit_char n) = n"
  by (simp add: digit_val_def digit_char_def)

lemma is_digit_digit_char [simp]: "n < 10 \<Longrightarrow> is_digit (digit_char n)"
  by (simp add: is_digit_def digit_char_def)

lemma go_itoa_digits: "c \<in> set (go_itoa n) \<Longrightarrow> is_digit c"
proof (induction n rule: go_itoa.induct)
  case (1 n)
  then show ?case
    by (subst (asm) go_itoa.simps) (auto split: if_splits)
qed

lemma digit_char_simps [simp]:
  "digit_char 0 = CHR ''0''" "digit_char 1 = CHR ''1''" "digit_char 2 = CHR ''2''"
  "digit_char 3 = CHR ''3''" "digit_char 4 = CHR ''4''" "digit_char 5 = CHR ''5''"
  "digit_char 6 = CHR ''6''" "digit_char 7 = CHR ''7''" "digit_char 8 = CHR ''8''"
  "digit_char 9 = CHR ''9''" "digit_char (Suc 0) = CHR ''1''"
  by code_simp+

lemma go_itoa_small: "n < 10 \<Longrightarrow> go_itoa n = [digit_char n]"
  by (simp add: go_itoa.simps)

lemma go_itoa_not_Nil [simp]: "go_itoa n \<noteq> []"
  by (subst go_itoa.simps) simp

lemma digits_val_snoc [simp]: "digits_val (s @ [c]) = 10 * digits_val s + digit_val c"
  by (simp add: digits_val_def)

lemma digits_val_go_itoa [simp]: "digits_val (go_itoa n) = n"
proof (induction n rule: go_itoa.induct)
  case (1 n)
  show ?case
  proof (cases "n < 10")
    case True
    then show ?thesis by (subst go_itoa.simps) (simp add: digits_val_def)
  next
    case False
    with "1.IH" show ?thesis by (subst go_itoa.simps) simp
  qed
qed

lemma go_itoa_inj [simp]: "go_itoa m = go_itoa n \<longleftrightarrow> m = n"
  by (metis digits_val_go_itoa)

section \<open>ASCII case folding\<close>

definition lower_char :: "char \<Rightarrow> char" where
  "lower_char c = (if 65 \<le> (of_char c :: nat) \<and> (of_char c :: nat) \<le> 90
     then char_of (of_char c + (32::nat)) else c)"

abbreviation lower :: "string \<Rightarrow> string" where
  "lower s \<equiv> map lower_char s"

text \<open>Characters that are not upper-case letters are their own lower case; in
  particular the pattern characters of \<open>LIKE\<close>.\<close>

lemma lower_char_id: "\<not> (65 \<le> (of_char c :: nat) \<and> (of_char c :: nat) \<le> 90) \<Longrightarrow> lower_char c = c"
  unfolding lower_char_def by auto

lemma lower_char_pattern [simp]:
  "lower_char CHR ''%'' = CHR ''%''" "lower_char CHR ''_'' = CHR ''_''"
  "lower_char CHR 0x5C = CHR 0x5C"
  by (simp_all add: lower_char_def)

section \<open>Options and sums\<close>

lemma case_option_eq_Some_iff:
  "(case x of None \<Rightarrow> None | Some v \<Rightarrow> f v) = Some y \<longleftrightarrow> (\<exists>v. x = Some v \<and> f v = Some y)"
  by (cases x) auto

section \<open>Lists\<close>

lemma filter_key_unique:
  assumes "distinct (map k xs)" and "x \<in> set xs"
  shows "filter (\<lambda>v. k v = k x) xs = [x]"
  using assms
proof (induction xs)
  case (Cons y ys)
  have ky: "k y \<notin> k ` set ys" using Cons.prems(1) by simp
  show ?case
  proof (cases "y = x")
    case True
    with ky have "\<forall>v \<in> set ys. k v \<noteq> k x" by (auto simp: image_iff)
    with True show ?thesis by (simp add: filter_empty_conv)
  next
    case False
    with Cons.prems have "x \<in> set ys" by simp
    with ky have "k y \<noteq> k x" by auto
    with Cons False show ?thesis by simp
  qed
qed simp

lemma filter_Cons_mem: "filter P xs = y # ys \<Longrightarrow> y \<in> set xs"
  by (metis filter_is_subset list.set_intros(1) subsetD)

lemma filter_Cons_sat: "filter P xs = y # ys \<Longrightarrow> P y"
  by (metis filter_eq_ConsD)

end
