(* ===== verification/Models.thy ===== *)
theory Models
  imports Prelude
begin

text \<open>
  The data model of \<open>src/internal/models\<close>: the \<open>Priority\<close> and \<open>Category\<close>
  enumerations as datatypes with the string values Go gives them, the \<open>Task\<close> and
  \<open>User\<close> rows as records, the request structs of the handlers with their
  \<open>binding\<close> tags as validation functions, and the response envelope that
  \<open>utils.ErrorResponse\<close>/\<open>utils.SuccessResponse\<close> write (that file is not part of the
  sources, so the envelope is modelled from the spec: a status, a message, a payload).
  Times are Unix seconds (\<open>timestamp = int\<close>); a nullable column or a pointer field is
  an \<open>option\<close>.
\<close>

section \<open>Enumerations (\<open>models/task.go\<close>)\<close>

datatype priority = PriorityHigh | PriorityMedium | PriorityLow

datatype category = CategoryPersonal | CategoryWork | CategoryUrgent

primrec priority_value :: "priority \<Rightarrow> string" where
  "priority_value PriorityHigh = ''high''"
| "priority_value PriorityMedium = ''medium''"
| "priority_value PriorityLow = ''low''"

primrec category_value :: "category \<Rightarrow> string" where
  "category_value CategoryPersonal = ''personal''"
| "category_value CategoryWork = ''work''"
| "category_value CategoryUrgent = ''urgent''"

text \<open>The validator tags \<open>oneof=high medium low\<close> and \<open>oneof=personal work urgent\<close>:
  a string is accepted iff it is one of the enumeration's values.\<close>

definition parse_priority :: "string \<Rightarrow> priority option" where
  "parse_priority s =
     (if s = ''high'' then Some PriorityHigh
      else if s = ''medium'' then Some PriorityMedium
      else if s = ''low'' then Some PriorityLow else None)"

definition parse_category :: "string \<Rightarrow> category option" where
  "parse_category s =
     (if s = ''personal'' then Some CategoryPersonal
      else if s = ''work'' then Some CategoryWork
      else if s = ''urgent'' then Some CategoryUrgent else None)"

section \<open>Rows (\<open>models/task.go\<close>, \<open>models/user.go\<close>)\<close>

record task =
  task_id :: int
  task_user_id :: uid
  title :: string
  description :: string
  priority :: priority
  category :: category
  is_completed :: bool
  due_date :: "timestamp option"
  created_at :: timestamp
  updated_at :: timestamp

record user =
  user_id :: uid
  user_name :: string
  email :: string
  password :: string
  user_created_at :: timestamp
  user_updated_at :: timestamp

record task_stats =
  total :: nat
  completed :: nat
  pending :: nat
  high_priority :: nat
  overdue :: nat

section \<open>Requests and their \<open>binding\<close> tags\<close>

text \<open>\<open>CreateTaskRequest\<close>: an omitted string field is \<open>""\<close>, an omitted or null
  \<open>due_date\<close> is \<open>None\<close>.\<close>

record create_task_request =
  ctr_title :: string
  ctr_description :: string
  ctr_priority :: string
  ctr_category :: string
  ctr_due_date :: "timestamp option"

text \<open>\<open>UpdateTaskRequest\<close>: every field is a pointer, \<open>None\<close> when the key is absent
  or \<open>null\<close> (\<open>encoding/json\<close> leaves a pointer nil for both).\<close>

record update_task_request =
  utr_title :: "string option"
  utr_description :: "string option"
  utr_priority :: "string option"
  utr_category :: "string option"
  utr_is_completed :: "bool option"
  utr_due_date :: "timestamp option"

record register_request =
  rr_name :: string
  rr_email :: string
  rr_password :: string

record login_request =
  lr_email :: string
  lr_password :: string

text \<open>\<open>binding:"required"\<close> on a string rejects \<open>""\<close>; \<open>omitempty,oneof=\<dots>\<close>
  accepts \<open>""\<close> and the listed values.\<close>

definition valid_create_task_request :: "create_task_request \<Rightarrow> bool" where
  "valid_create_task_request r \<longleftrightarrow>
     ctr_title r \<noteq> [] \<and>
     (ctr_priority r = [] \<or> parse_priority (ctr_priority r) \<noteq> None) \<and>
     (ctr_category r = [] \<or> parse_category (ctr_category r) \<noteq> None)"

text \<open>On a pointer field \<open>omitempty\<close> skips a nil pointer only; a non-nil pointer's
  target must be one of the values.\<close>

definition valid_update_task_request :: "update_task_request \<Rightarrow> bool" where
  "valid_update_task_request r \<longleftrightarrow>
     (case utr_priority r of None \<Rightarrow> True | Some p \<Rightarrow> parse_priority p \<noteq> None) \<and>
     (case utr_category r of None \<Rightarrow> True | Some c \<Rightarrow> parse_category c \<noteq> None)"

section \<open>Responses\<close>

text \<open>\<open>LoginResponse\<close>: the token and the user.\<close>

record login_response =
  lresp_token :: string
  lresp_user :: user

datatype payload =
    NoData
  | TaskData task
  | TaskListData "task list"
  | StatsData task_stats
  | UserData user
  | LoginData login_response

text \<open>\<open>ErrorResponse(c, code, message)\<close> and \<open>SuccessResponse(c, code, message, data)\<close>;
  \<open>Recovered\<close> is the bare status 500 that gin's recovery middleware writes when a
  handler panics.\<close>

datatype response =
    ErrorResponse http_status string
  | SuccessResponse http_status string payload
  | Recovered

fun status_of :: "response \<Rightarrow> http_status" where
  "status_of (ErrorResponse s _) = s"
| "status_of (SuccessResponse s _ _) = s"
| "status_of Recovered = 500"

section \<open>Lemmas\<close>

lemma parse_priority_value [simp]: "parse_priority (priority_value p) = Some p"
  by (cases p) (simp_all add: parse_priority_def)

lemma parse_priority_Some: "parse_priority s = Some p \<longleftrightarrow> s = priority_value p"
  by (cases p) (auto simp: parse_priority_def split: if_splits)

lemma parse_category_value [simp]: "parse_category (category_value c) = Some c"
  by (cases c) (simp_all add: parse_category_def)

lemma parse_category_Some: "parse_category s = Some c \<longleftrightarrow> s = category_value c"
  by (cases c) (auto simp: parse_category_def split: if_splits)

lemma priority_value_inj [simp]: "priority_value p = priority_value q \<longleftrightarrow> p = q"
  by (metis option.inject parse_priority_value)

lemma category_value_inj [simp]: "category_value c = category_value d \<longleftrightarrow> c = d"
  by (metis option.inject parse_category_value)

end
