(* ===== verification/Database.thy ===== *)
theory Database
  imports Models
begin

text \<open>
  The storage collaborator: the PostgreSQL database that every handler reaches through
  \<open>database/sql\<close>. The schema is not part of the sources, so this theory is modelled
  from the spec and the columns the handlers read and write: a \<open>users\<close> and a
  \<open>tasks\<close> table, each with a \<open>SERIAL\<close> key (the sequence's next value is kept in
  the state), a unique \<open>email\<close>, and a flag \<open>db_up\<close> that says whether statements
  reach the server (when it is false every statement fails, the \<open>err != nil\<close> branch
  of the handlers). Each statement is one atomic step on the state, as PostgreSQL runs a
  statement outside a transaction. \<open>QueryRow(...).Scan\<close> has three outcomes,
  \<open>ErrNoRows\<close>, a row, or another error: the datatype \<open>qrow\<close>.
  A path parameter bound to an integer column is converted by the server: text that is
  not an \<open>int4\<close> literal makes the statement fail (\<open>pg_int4\<close>).
\<close>

record db =
  users :: "user list"
  tasks :: "task list"
  user_seq :: int
  task_seq :: int
  db_up :: bool

datatype 'a qrow = ErrNoRows | RowOk 'a | QueryError

section \<open>PostgreSQL's integer input\<close>

definition pg_space :: "char \<Rightarrow> bool" where
  "pg_space c \<longleftrightarrow> c \<in> {CHR '' '', CHR 0x09, CHR 0x0A, CHR 0x0B, CHR 0x0C, CHR 0x0D}"

definition pg_trim :: "string \<Rightarrow> string" where
  "pg_trim s = rev (dropWhile pg_space (rev (dropWhile pg_space s)))"

definition pg_sign :: "string \<Rightarrow> bool \<times> string" where
  "pg_sign t = (case t of
       [] \<Rightarrow> (False, [])
     | c # r \<Rightarrow> (if c = CHR ''-'' then (True, r) else if c = CHR ''+'' then (False, r) else (False, t)))"

text \<open>\<open>int4in\<close>: optional white space, an optional sign, one or more decimal digits,
  optional white space, and a value in the 32-bit range; anything else is an error.\<close>

definition pg_int4 :: "string \<Rightarrow> int option" where
  "pg_int4 s =
     (let (neg, ds) = pg_sign (pg_trim s);
          v = int (digits_val ds);
          n = (if neg then - v else v)
      in if ds \<noteq> [] \<and> list_all is_digit ds \<and> - (2 ^ 31) \<le> n \<and> n < 2 ^ 31 then Some n else None)"

section \<open>Statements\<close>

definition sql_select_tasks :: "db \<Rightarrow> (task \<Rightarrow> bool) \<Rightarrow> task list option" where
  "sql_select_tasks d P = (if db_up d then Some (filter P (tasks d)) else None)"

definition sql_count_tasks :: "db \<Rightarrow> (task \<Rightarrow> bool) \<Rightarrow> nat option" where
  "sql_count_tasks d P = (if db_up d then Some (length (filter P (tasks d))) else None)"

text \<open>\<open>UPDATE \<dots> WHERE P RETURNING \<dots>\<close>: the matching rows are rewritten in place,
  the others are kept; the result is the new state and the rewritten rows.\<close>

definition sql_update_tasks ::
  "db \<Rightarrow> (task \<Rightarrow> bool) \<Rightarrow> (task \<Rightarrow> task) \<Rightarrow> (db \<times> task list) option" where
  "sql_update_tasks d P f =
     (if db_up d
      then Some (d\<lparr>tasks := map (\<lambda>t. if P t then f t else t) (tasks d)\<rparr>, map f (filter P (tasks d)))
      else None)"

text \<open>\<open>DELETE \<dots> WHERE P\<close> and \<open>RowsAffected\<close>.\<close>

definition sql_delete_tasks :: "db \<Rightarrow> (task \<Rightarrow> bool) \<Rightarrow> (db \<times> nat) option" where
  "sql_delete_tasks d P =
     (if db_up d
      then Some (d\<lparr>tasks := filter (\<lambda>t. \<not> P t) (tasks d)\<rparr>, length (filter P (tasks d)))
      else None)"

text \<open>\<open>INSERT \<dots> RETURNING \<dots>\<close> with the \<open>SERIAL\<close> key: the row is built from the
  sequence's next value.\<close>

definition sql_insert_task :: "db \<Rightarrow> (int \<Rightarrow> task) \<Rightarrow> (db \<times> task) option" where
  "sql_insert_task d mk =
     (if db_up d
      then Some (d\<lparr>tasks := tasks d @ [mk (task_seq d)], task_seq := task_seq d + 1\<rparr>, mk (task_seq d))
      else None)"

definition sql_select_users :: "db \<Rightarrow> (user \<Rightarrow> bool) \<Rightarrow> user list option" where
  "sql_select_users d P = (if db_up d then Some (filter P (users d)) else None)"

text \<open>The unique index on \<open>email\<close> makes an insert of a taken address fail.\<close>

definition sql_insert_user :: "db \<Rightarrow> (int \<Rightarrow> user) \<Rightarrow> (db \<times> user) option" where
  "sql_insert_user d mk =
     (if db_up d \<and> email (mk (user_seq d)) \<notin> email ` set (users d)
      then Some (d\<lparr>users := users d @ [mk (user_seq d)], user_seq := user_seq d + 1\<rparr>, mk (user_seq d))
      else None)"

text \<open>\<open>SELECT EXISTS(SELECT 1 FROM users WHERE ...)\<close>.\<close>

definition sql_exists_users :: "db \<Rightarrow> (user \<Rightarrow> bool) \<Rightarrow> bool option" where
  "sql_exists_users d P = (if db_up d then Some (\<exists>u \<in> set (users d). P u) else None)"

text \<open>A Go \<open>int\<close> bound to a parameter compared with an \<open>int4\<close> column: PostgreSQL reads
  the value as an \<open>int4\<close>, and a value outside its range makes the statement fail.\<close>

definition int4_range :: "int \<Rightarrow> bool" where
  "int4_range i \<longleftrightarrow> - (2 ^ 31) \<le> i \<and> i < 2 ^ 31"

text \<open>\<open>QueryRow(...).Scan\<close> over the rows a statement returns.\<close>

definition query_row :: "'a list option \<Rightarrow> 'a qrow" where
  "query_row r = (case r of None \<Rightarrow> QueryError | Some [] \<Rightarrow> ErrNoRows | Some (x # _) \<Rightarrow> RowOk x)"

section \<open>Well-formed tables\<close>

text \<open>Keys are distinct and below their sequence, e-mail addresses are distinct.\<close>

definition db_wf :: "db \<Rightarrow> bool" where
  "db_wf d \<longleftrightarrow>
     distinct (map task_id (tasks d)) \<and> (\<forall>t \<in> set (tasks d). task_id t < task_seq d) \<and>
     distinct (map user_id (users d)) \<and> (\<forall>u \<in> set (users d). user_id u < user_seq d) \<and>
     distinct (map email (users d))"

text \<open>The rows of users other than \<open>u\<close>: what an owner-scoped request must leave alone.\<close>

definition others_tasks :: "uid \<Rightarrow> db \<Rightarrow> task list" where
  "others_tasks u d = filter (\<lambda>t. task_user_id t \<noteq> u) (tasks d)"

declare sql_select_tasks_def [sql_simps] sql_count_tasks_def [sql_simps]
  sql_update_tasks_def [sql_simps] sql_delete_tasks_def [sql_simps]
  sql_insert_task_def [sql_simps] sql_select_users_def [sql_simps]
  sql_insert_user_def [sql_simps] query_row_def [sql_simps] sql_exists_users_def [sql_simps]

section \<open>Lemmas\<close>

lemma dropWhile_no_match: "\<forall>c \<in> set s. \<not> P c \<Longrightarrow> dropWhile P s = s"
  by (cases s) auto

lemma pg_trim_digits [simp]: "list_all is_digit s \<Longrightarrow> pg_trim s = s"
proof -
  assume "list_all is_digit s"
  then have none: "\<forall>c \<in> set s. \<not> pg_space c"
    by (auto simp: list_all_iff is_digit_def pg_space_def)
  then have "dropWhile pg_space (rev s) = rev s"
    by (simp add: dropWhile_no_match)
  with none show ?thesis
    by (simp add: pg_trim_def dropWhile_no_match)
qed

lemma pg_sign_digits [simp]: "s \<noteq> [] \<Longrightarrow> list_all is_digit s \<Longrightarrow> pg_sign s = (False, s)"
  by (cases s) (auto simp: pg_sign_def is_digit_def)

lemma list_all_is_digit_go_itoa [simp]: "list_all is_digit (go_itoa n)"
  by (simp add: list_all_iff go_itoa_digits)

text \<open>A key printed in decimal (as the JSON of a task shows it) is read back by the
  server as that key.\<close>

lemma pg_int4_go_itoa:
  assumes "0 \<le> i" and "i < 2 ^ 31"
  shows "pg_int4 (go_itoa (nat i)) = Some i"
  using assms by (simp add: pg_int4_def)

lemma filter_update_others:
  assumes "\<And>t. P t \<Longrightarrow> task_user_id t = u" and "\<And>t. task_user_id (f t) = task_user_id t"
  shows "filter (\<lambda>t. task_user_id t \<noteq> u) (map (\<lambda>t. if P t then f t else t) ts) =
         filter (\<lambda>t. task_user_id t \<noteq> u) ts"
  using assms by (induction ts) auto

lemma filter_delete_others:
  assumes "\<And>t. P t \<Longrightarrow> task_user_id t = u"
  shows "filter (\<lambda>t. task_user_id t \<noteq> u) (filter (\<lambda>t. \<not> P t) ts) =
         filter (\<lambda>t. task_user_id t \<noteq> u) ts"
  using assms by (induction ts) auto

lemma sql_update_tasks_others:
  assumes "sql_update_tasks d P f = Some (d', rs)"
    and "\<And>t. P t \<Longrightarrow> task_user_id t = u" and "\<And>t. task_user_id (f t) = task_user_id t"
  shows "others_tasks u d' = others_tasks u d"
  using assms filter_update_others [of P u f "tasks d"]
  by (auto simp: sql_update_tasks_def others_tasks_def split: if_splits)

lemma sql_delete_tasks_others:
  assumes "sql_delete_tasks d P = Some (d', n)" and "\<And>t. P t \<Longrightarrow> task_user_id t = u"
  shows "others_tasks u d' = others_tasks u d"
  using assms filter_delete_others [of P u "tasks d"]
  by (auto simp: sql_delete_tasks_def others_tasks_def split: if_splits)

lemma map_task_id_update:
  "(\<And>t. task_id (f t) = task_id t) \<Longrightarrow>
   map task_id (map (\<lambda>t. if P t then f t else t) ts) = map task_id ts"
  by (induction ts) auto

lemma sql_update_tasks_wf:
  assumes "db_wf d" and "sql_update_tasks d P f = Some (d', rs)"
    and "\<And>t. task_id (f t) = task_id t"
  shows "db_wf d'"
proof -
  let ?ts = "map (\<lambda>t. if P t then f t else t) (tasks d)"
  have ids: "map task_id ?ts = map task_id (tasks d)"
    using assms(3) by (rule map_task_id_update)
  have "\<forall>x \<in> set (map task_id (tasks d)). x < task_seq d"
    using assms(1) by (simp add: db_wf_def)
  then have "\<forall>x \<in> set (map task_id ?ts). x < task_seq d"
    by (simp only: ids)
  then have "\<forall>t \<in> set ?ts. task_id t < task_seq d"
    by auto
  moreover have "d' = d\<lparr>tasks := ?ts\<rparr>"
    using assms(2) by (simp add: sql_update_tasks_def split: if_splits)
  ultimately show ?thesis
    using assms(1) by (simp add: db_wf_def ids del: map_map)
qed

lemma sql_delete_tasks_wf:
  assumes "db_wf d" and "sql_delete_tasks d P = Some (d', n)"
  shows "db_wf d'"
  using assms by (auto simp: db_wf_def sql_delete_tasks_def distinct_map_filter split: if_splits)

lemma sql_insert_task_wf:
  assumes "db_wf d" and "sql_insert_task d mk = Some (d', t)"
    and "task_id (mk (task_seq d)) = task_seq d"
  shows "db_wf d'"
  using assms by (fastforce simp: db_wf_def sql_insert_task_def split: if_splits)

lemma sql_insert_user_wf:
  assumes "db_wf d" and "sql_insert_user d mk = Some (d', u)"
    and "user_id (mk (user_seq d)) = user_seq d"
  shows "db_wf d'"
  using assms by (fastforce simp: db_wf_def sql_insert_user_def split: if_splits)

text \<open>In well-formed tables a key selects at most one row.\<close>

lemma filter_key_at_most_one_list:
  "distinct (map task_id ts) \<Longrightarrow> length (filter (\<lambda>t. task_id t = i \<and> Q t) ts) \<le> 1"
proof (induction ts)
  case Nil
  then show ?case by simp
next
  case (Cons t ts)
  then have "task_id t \<notin> task_id ` set ts" by simp
  then have "\<forall>x \<in> set ts. task_id x \<noteq> task_id t" by (auto simp: image_iff)
  then have "task_id t = i \<Longrightarrow> filter (\<lambda>t. task_id t = i \<and> Q t) ts = []"
    by (simp add: filter_empty_conv)
  with Cons show ?case by auto
qed

lemma filter_key_at_most_one:
  "db_wf d \<Longrightarrow> length (filter (\<lambda>t. task_id t = i \<and> Q t) (tasks d)) \<le> 1"
  unfolding db_wf_def by (blast intro: filter_key_at_most_one_list)

end
