(* ===== verification/Sql.thy ===== *)
theory Sql
  imports Database
begin

text \<open>
  How the server reads the two statements that the handlers assemble at run time
  (\<open>GetTasks\<close> and \<open>UpdateTask\<close> in \<open>task_handler.go\<close>). PostgreSQL is not part of the
  sources, so this theory is modelled from its documented behaviour, restricted to the
  statement shapes the handlers can produce:
  \<^item> an abstract syntax for each shape (\<open>select_stmt\<close>, \<open>update_stmt\<close>), whose
    fragments carry the placeholder numbers \<open>$n\<close> they use;
  \<^item> the text of a statement (\<open>render_select\<close>) and the server's parser for it
    (\<open>parse_select\<close>), with the round trip \<open>parse (render s) = Some s\<close>;
  \<^item> execution with the bound parameters (\<open>exec_select\<close>): the statement is refused
    when its placeholders are not exactly \<open>$1 \<dots> $n\<close> for \<open>n\<close> arguments (an unused
    or missing parameter is an error in PostgreSQL), or when an argument has the wrong
    type for its column;
  \<^item> \<open>LIKE\<close> and \<open>ILIKE\<close> with PostgreSQL's wildcards \<open>%\<close>, \<open>_\<close> and its default
    escape character backslash.
\<close>

datatype sql_arg = ArgInt int | ArgText string | ArgBool bool | ArgTime timestamp

section \<open>\<open>LIKE\<close> and \<open>ILIKE\<close>\<close>

text \<open>\<open>%\<close> matches any sequence, \<open>_\<close> any one character, a backslash makes the next
  pattern character literal. A pattern ending in a lone backslash is an error in
  PostgreSQL; the handlers never build one (their patterns end in \<open>%\<close>), and here it
  matches nothing.\<close>

fun like_match :: "string \<Rightarrow> string \<Rightarrow> bool" where
  "like_match [] t = (t = [])"
| "like_match (c # p) t =
     (if c = CHR ''%'' then like_match p t \<or> (case t of [] \<Rightarrow> False | _ # t' \<Rightarrow> like_match (c # p) t')
      else (case t of
              [] \<Rightarrow> False
            | x # t' \<Rightarrow>
                (if c = CHR ''_'' then like_match p t'
                 else if c = CHR 0x5C then (case p of [] \<Rightarrow> False | e # p' \<Rightarrow> x = e \<and> like_match p' t')
                 else x = c \<and> like_match p t')))"

definition ilike :: "string \<Rightarrow> string \<Rightarrow> bool" where
  "ilike p t = like_match (lower p) (lower t)"

section \<open>Reading statement text\<close>

definition strip_prefix :: "string \<Rightarrow> string \<Rightarrow> string option" where
  "strip_prefix p s = (if prefix p s then Some (drop (length p) s) else None)"

definition read_num :: "string \<Rightarrow> (nat \<times> string) option" where
  "read_num s =
     (let ds = takeWhile is_digit s in if ds = [] then None else Some (digits_val ds, dropWhile is_digit s))"

text \<open>A keyword text followed by a placeholder \<open>$n\<close>.\<close>

definition read_param :: "string \<Rightarrow> string \<Rightarrow> (nat \<times> string) option" where
  "read_param lit s = (case strip_prefix (lit @ ''$'') s of None \<Rightarrow> None | Some r \<Rightarrow> read_num r)"

definition param_text :: "string \<Rightarrow> nat \<Rightarrow> string" where
  "param_text lit n = lit @ ''$'' @ go_itoa n"

section \<open>The listing statement\<close>

datatype sel_frag =
    PriorityEq nat
  | CategoryEq nat
  | CompletedEq nat
  | TitleOrDescILike nat nat

record select_stmt =
  sel_owner :: nat
  sel_frags :: "sel_frag list"

definition task_columns :: string where
  "task_columns = ''id, user_id, title, description, priority, category, is_completed, due_date, created_at, updated_at''"

text \<open>The head of the statement, as the Go raw string writes it: a line break and three
  tabs and two spaces before \<open>FROM\<close>.\<close>

definition select_head :: string where
  "select_head = ''SELECT '' @ task_columns @ '' '' @ [CHR 0x0A, CHR 0x09, CHR 0x09, CHR 0x09] @
     ''  FROM tasks WHERE user_id = ''"

definition order_desc :: string where
  "order_desc = '' ORDER BY created_at DESC''"

fun render_sel_frag :: "sel_frag \<Rightarrow> string" where
  "render_sel_frag (PriorityEq n) = param_text '' AND priority = '' n"
| "render_sel_frag (CategoryEq n) = param_text '' AND category = '' n"
| "render_sel_frag (CompletedEq n) = param_text '' AND is_completed = '' n"
| "render_sel_frag (TitleOrDescILike n m) =
     param_text '' AND (title ILIKE '' n @ param_text '' OR description ILIKE '' m @ '')''"

definition render_select :: "select_stmt \<Rightarrow> string" where
  "render_select st =
     param_text select_head (sel_owner st) @ concat (map render_sel_frag (sel_frags st)) @ order_desc"

lemma strip_prefix_length: "strip_prefix p s = Some r \<Longrightarrow> length r = length s - length p"
  by (auto simp: strip_prefix_def split: if_splits)

lemma strip_prefix_shorter: "strip_prefix p s = Some r \<Longrightarrow> p \<noteq> [] \<Longrightarrow> length r < length s"
  by (auto simp: strip_prefix_def prefix_def split: if_splits)

lemma read_num_shorter: "read_num s = Some (n, r) \<Longrightarrow> length r < length s"
proof -
  assume "read_num s = Some (n, r)"
  then have ne: "takeWhile is_digit s \<noteq> []" and r: "r = dropWhile is_digit s"
    by (auto simp: read_num_def Let_def split: if_splits)
  have "length s = length (takeWhile is_digit s) + length (dropWhile is_digit s)"
    by (metis length_append takeWhile_dropWhile_id)
  with ne r show ?thesis by simp
qed

lemma read_param_shorter: "read_param lit s = Some (n, r) \<Longrightarrow> length r < length s"
  by (auto simp: read_param_def split: option.splits
      dest!: read_num_shorter strip_prefix_length)

text \<open>The fragments after the owner's placeholder, up to the \<open>ORDER BY\<close> clause.\<close>

function parse_sel_frags :: "string \<Rightarrow> sel_frag list option" where
  "parse_sel_frags s =
     (if s = order_desc then Some []
      else case read_param '' AND priority = '' s of
        Some (n, r) \<Rightarrow> map_option (Cons (PriorityEq n)) (parse_sel_frags r)
      | None \<Rightarrow> (case read_param '' AND category = '' s of
        Some (n, r) \<Rightarrow> map_option (Cons (CategoryEq n)) (parse_sel_frags r)
      | None \<Rightarrow> (case read_param '' AND is_completed = '' s of
        Some (n, r) \<Rightarrow> map_option (Cons (CompletedEq n)) (parse_sel_frags r)
      | None \<Rightarrow> (case read_param '' AND (title ILIKE '' s of
        Some (n, r) \<Rightarrow> (case read_param '' OR description ILIKE '' r of
          Some (m, r') \<Rightarrow> (case strip_prefix '')'' r' of
            Some r'' \<Rightarrow> map_option (Cons (TitleOrDescILike n m)) (parse_sel_frags r'')
          | None \<Rightarrow> None)
        | None \<Rightarrow> None)
      | None \<Rightarrow> None))))"
  by pat_completeness auto
termination
  by (relation "measure length")
    (auto dest!: read_param_shorter strip_prefix_shorter [OF _ list.discI] intro: less_trans)

declare parse_sel_frags.simps [simp del]

definition parse_select :: "string \<Rightarrow> select_stmt option" where
  "parse_select q =
     (case read_param select_head q of
        None \<Rightarrow> None
      | Some (n, r) \<Rightarrow> map_option (\<lambda>fs. \<lparr>sel_owner = n, sel_frags = fs\<rparr>) (parse_sel_frags r))"

section \<open>Round trip of the listing statement\<close>

lemma not_is_digit_space [simp]: "\<not> is_digit CHR '' ''" "\<not> is_digit CHR '')''" "\<not> is_digit CHR '',''"
  by (simp_all add: is_digit_def)

text \<open>A number followed by text that does not start with a digit reads back.\<close>

definition num_end :: "string \<Rightarrow> bool" where
  "num_end r \<longleftrightarrow> r = [] \<or> \<not> is_digit (hd r)"

lemma num_end_Cons [simp]: "num_end (c # r) \<longleftrightarrow> \<not> is_digit c"
  by (simp add: num_end_def)

lemma read_num_go_itoa:
  assumes "num_end rest"
  shows "read_num (go_itoa n @ rest) = Some (n, rest)"
proof -
  have all: "\<forall>c \<in> set (go_itoa n). is_digit c" by (simp add: go_itoa_digits)
  have "takeWhile is_digit rest = []" and "dropWhile is_digit rest = rest"
    using assms by (cases rest; simp add: num_end_def)+
  with all show ?thesis
    by (simp add: read_num_def takeWhile_append2 dropWhile_append2)
qed

lemma read_param_text [simp]:
  "num_end rest \<Longrightarrow> read_param lit (param_text lit n @ rest) = Some (n, rest)"
  by (simp add: read_param_def strip_prefix_def param_text_def read_num_go_itoa)

lemma read_param_other:
  "\<not> prefix (lit @ ''$'') s \<Longrightarrow> read_param lit s = None"
  by (simp add: read_param_def strip_prefix_def)

lemma render_sel_frags_space:
  "\<exists>r. concat (map render_sel_frag fs) @ order_desc = CHR '' '' # r"
  by (cases fs rule: list.exhaust; cases "hd fs")
    (simp_all add: order_desc_def param_text_def)

lemma render_sel_frag_not_order [simp]:
  "render_sel_frag f @ CHR '' '' # r \<noteq> order_desc"
  by (cases f) (simp_all add: order_desc_def param_text_def)

lemma read_param_other_text:
  assumes "\<not> prefix (lit @ ''$'') (lit' @ ''$'')" and "\<not> prefix (lit' @ ''$'') (lit @ ''$'')"
  shows "read_param lit (param_text lit' n @ r) = None"
proof (rule read_param_other, rule notI)
  assume "prefix (lit @ ''$'') (param_text lit' n @ r)"
  moreover have "prefix (lit' @ ''$'') (param_text lit' n @ r)"
    by (simp add: param_text_def)
  ultimately show False
    using assms prefix_same_cases by blast
qed

lemma num_end_param_text [simp]:
  "lit \<noteq> [] \<Longrightarrow> num_end (param_text lit n @ r) \<longleftrightarrow> \<not> is_digit (hd lit)"
  by (cases lit) (simp_all add: param_text_def)

lemma parse_sel_frags_step:
  assumes "parse_sel_frags (CHR '' '' # r) = Some fs"
  shows "parse_sel_frags (render_sel_frag f @ CHR '' '' # r) = Some (f # fs)"
proof -
  have desc: "read_param '' OR description ILIKE '' (param_text '' OR description ILIKE '' m @ '')'' @ CHR '' '' # r) =
        Some (m, '')'' @ CHR '' '' # r)" for m
    using read_param_text [of "'')'' @ CHR '' '' # r"] by simp
  show ?thesis
    apply (subst parse_sel_frags.simps)
    apply (simp only: render_sel_frag_not_order if_False)
    apply (cases f)
       apply (simp_all add: read_param_other_text assms desc strip_prefix_def)
    done
qed

lemma parse_sel_frags_render:
  "parse_sel_frags (concat (map render_sel_frag fs) @ order_desc) = Some fs"
proof (induction fs)
  case Nil
  then show ?case by (subst parse_sel_frags.simps) simp
next
  case (Cons f fs)
  obtain r where r: "concat (map render_sel_frag fs) @ order_desc = CHR '' '' # r"
    using render_sel_frags_space by blast
  with Cons.IH have "parse_sel_frags (CHR '' '' # r) = Some fs" by simp
  then have "parse_sel_frags (render_sel_frag f @ CHR '' '' # r) = Some (f # fs)"
    by (rule parse_sel_frags_step)
  with r show ?case by simp
qed

theorem parse_render_select: "parse_select (render_select st) = Some st"
proof -
  obtain r where r: "concat (map render_sel_frag (sel_frags st)) @ order_desc = CHR '' '' # r"
    using render_sel_frags_space by blast
  then have "parse_sel_frags (CHR '' '' # r) = Some (sel_frags st)"
    using parse_sel_frags_render by metis
  with r show ?thesis
    by (simp add: parse_select_def render_select_def)
qed

section \<open>Executing the listing statement\<close>

text \<open>\<open>$n\<close> names the \<open>n\<close>-th argument, counting from 1.\<close>

definition arg_at :: "sql_arg list \<Rightarrow> nat \<Rightarrow> sql_arg option" where
  "arg_at args n = (if 0 < n \<and> n \<le> length args then Some (args ! (n - 1)) else None)"

text \<open>The server derives the number of parameters from the text and infers the type of
  each; \<open>lib/pq\<close> refuses a call whose argument count differs, and the server refuses a
  parameter it cannot type because no placeholder uses it. A statement runs iff its
  placeholders are exactly \<open>$1 \<dots> $n\<close> for its \<open>n\<close> arguments.\<close>

definition params_match :: "nat list \<Rightarrow> sql_arg list \<Rightarrow> bool" where
  "params_match ps args \<longleftrightarrow> set ps = set [1..<Suc (length args)]"

fun sel_frag_params :: "sel_frag \<Rightarrow> nat list" where
  "sel_frag_params (PriorityEq n) = [n]"
| "sel_frag_params (CategoryEq n) = [n]"
| "sel_frag_params (CompletedEq n) = [n]"
| "sel_frag_params (TitleOrDescILike n m) = [n, m]"

definition select_params :: "select_stmt \<Rightarrow> nat list" where
  "select_params st = sel_owner st # concat (map sel_frag_params (sel_frags st))"

text \<open>The row predicate of one fragment under the bound arguments; \<open>None\<close> when the
  argument is missing or of a type the column cannot be compared with.\<close>

fun sel_frag_pred :: "sql_arg list \<Rightarrow> sel_frag \<Rightarrow> (task \<Rightarrow> bool) option" where
  "sel_frag_pred args (PriorityEq n) =
     (case arg_at args n of Some (ArgText p) \<Rightarrow> Some (\<lambda>t. priority_value (priority t) = p) | _ \<Rightarrow> None)"
| "sel_frag_pred args (CategoryEq n) =
     (case arg_at args n of Some (ArgText c) \<Rightarrow> Some (\<lambda>t. category_value (category t) = c) | _ \<Rightarrow> None)"
| "sel_frag_pred args (CompletedEq n) =
     (case arg_at args n of Some (ArgBool b) \<Rightarrow> Some (\<lambda>t. is_completed t = b) | _ \<Rightarrow> None)"
| "sel_frag_pred args (TitleOrDescILike n m) =
     (case (arg_at args n, arg_at args m) of
        (Some (ArgText p), Some (ArgText p')) \<Rightarrow> Some (\<lambda>t. ilike p (title t) \<or> ilike p' (description t))
      | _ \<Rightarrow> None)"

fun frags_pred :: "sql_arg list \<Rightarrow> sel_frag list \<Rightarrow> (task \<Rightarrow> bool) option" where
  "frags_pred args [] = Some (\<lambda>t. True)"
| "frags_pred args (f # fs) =
     (case sel_frag_pred args f of
        None \<Rightarrow> None
      | Some P \<Rightarrow> map_option (\<lambda>Q t. P t \<and> Q t) (frags_pred args fs))"

definition select_pred :: "sql_arg list \<Rightarrow> select_stmt \<Rightarrow> (task \<Rightarrow> bool) option" where
  "select_pred args st =
     (case arg_at args (sel_owner st) of
        Some (ArgInt u) \<Rightarrow> map_option (\<lambda>Q t. task_user_id t = u \<and> Q t) (frags_pred args (sel_frags st))
      | _ \<Rightarrow> None)"

text \<open>\<open>ORDER BY created_at DESC\<close> fixes the order of rows with different creation times
  only; the server may return rows with equal times in any order. The model returns them
  in table order (a stable sort); the properties about the order use only
  that the result is a permutation of the selected rows sorted by descending \<open>created_at\<close>.\<close>

definition order_created_desc :: "task list \<Rightarrow> task list" where
  "order_created_desc ts = sort_key (\<lambda>t. - created_at t) ts"

definition exec_select :: "db \<Rightarrow> string \<Rightarrow> sql_arg list \<Rightarrow> task list option" where
  "exec_select d q args =
     (case parse_select q of
        None \<Rightarrow> None
      | Some st \<Rightarrow>
          if params_match (select_params st) args
          then (case select_pred args st of
                  None \<Rightarrow> None
                | Some P \<Rightarrow> map_option order_created_desc (sql_select_tasks d P))
          else None)"

section \<open>The update statement\<close>

datatype set_item =
    SetTitle nat
  | SetDescription nat
  | SetPriority nat
  | SetCategory nat
  | SetCompleted nat
  | SetDueDate nat

record update_stmt =
  upd_sets :: "set_item list"
  upd_key :: nat
  upd_owner :: nat

definition update_head :: string where
  "update_head = ''UPDATE tasks SET updated_at = CURRENT_TIMESTAMP''"

definition returning_tail :: string where
  "returning_tail = '' RETURNING '' @ task_columns"

text \<open>The assignment keywords, in the order the handler tries them.\<close>

definition set_item_table :: "(string \<times> (nat \<Rightarrow> set_item)) list" where
  "set_item_table =
     [('', title = '', SetTitle), ('', description = '', SetDescription),
      ('', priority = '', SetPriority), ('', category = '', SetCategory),
      ('', is_completed = '', SetCompleted), ('', due_date = '', SetDueDate)]"

fun set_item_kw :: "set_item \<Rightarrow> string \<times> nat" where
  "set_item_kw (SetTitle n) = ('', title = '', n)"
| "set_item_kw (SetDescription n) = ('', description = '', n)"
| "set_item_kw (SetPriority n) = ('', priority = '', n)"
| "set_item_kw (SetCategory n) = ('', category = '', n)"
| "set_item_kw (SetCompleted n) = ('', is_completed = '', n)"
| "set_item_kw (SetDueDate n) = ('', due_date = '', n)"

definition render_set_item :: "set_item \<Rightarrow> string" where
  "render_set_item x = (case set_item_kw x of (kw, n) \<Rightarrow> param_text kw n)"

definition render_update :: "update_stmt \<Rightarrow> string" where
  "render_update st =
     update_head @ concat (map render_set_item (upd_sets st)) @
     param_text '' WHERE id = '' (upd_key st) @ param_text '' AND user_id = '' (upd_owner st) @
     returning_tail"

fun first_param :: "(string \<times> (nat \<Rightarrow> 'a)) list \<Rightarrow> string \<Rightarrow> ('a \<times> string) option" where
  "first_param [] s = None"
| "first_param ((kw, c) # tbl) s =
     (case read_param kw s of Some (n, r) \<Rightarrow> Some (c n, r) | None \<Rightarrow> first_param tbl s)"

lemma first_param_shorter: "first_param tbl s = Some (x, r) \<Longrightarrow> length r < length s"
  by (induction tbl s rule: first_param.induct)
    (auto split: option.splits dest: read_param_shorter)

function parse_set_items :: "string \<Rightarrow> (set_item list \<times> string) option" where
  "parse_set_items s =
     (if prefix '' WHERE id = $'' s then Some ([], s)
      else case first_param set_item_table s of
        None \<Rightarrow> None
      | Some (x, r) \<Rightarrow> map_option (apfst (Cons x)) (parse_set_items r))"
  by pat_completeness auto
termination
  by (relation "measure length") (auto dest: first_param_shorter)

declare parse_set_items.simps [simp del]

definition parse_update :: "string \<Rightarrow> update_stmt option" where
  "parse_update q =
     (case strip_prefix update_head q of
        None \<Rightarrow> None
      | Some r \<Rightarrow> (case parse_set_items r of
          None \<Rightarrow> None
        | Some (xs, r1) \<Rightarrow> (case read_param '' WHERE id = '' r1 of
            None \<Rightarrow> None
          | Some (k, r2) \<Rightarrow> (case read_param '' AND user_id = '' r2 of
              None \<Rightarrow> None
            | Some (w, r3) \<Rightarrow>
                if r3 = returning_tail then Some \<lparr>upd_sets = xs, upd_key = k, upd_owner = w\<rparr> else None))))"

section \<open>Round trip of the update statement\<close>

lemma first_param_render_set_item:
  "num_end s \<Longrightarrow> first_param set_item_table (render_set_item x @ s) = Some (x, s)"
  by (cases x) (simp_all add: set_item_table_def render_set_item_def read_param_other_text)

lemma render_set_item_not_where [simp]:
  "\<not> prefix '' WHERE id = $'' (render_set_item x @ s)"
  by (cases x) (simp_all add: render_set_item_def param_text_def)

lemma num_end_set_items:
  "num_end (concat (map render_set_item xs) @ param_text '' WHERE id = '' k @ rest)"
  by (cases xs; cases "hd xs") (simp_all add: render_set_item_def)

lemma parse_set_items_render:
  "parse_set_items (concat (map render_set_item xs) @ param_text '' WHERE id = '' k @ rest) =
     Some (xs, param_text '' WHERE id = '' k @ rest)"
proof (induction xs)
  case Nil
  then show ?case
    by (subst parse_set_items.simps) (simp add: param_text_def)
next
  case (Cons x xs)
  then show ?case
    by (subst parse_set_items.simps)
      (simp add: first_param_render_set_item num_end_set_items)
qed

theorem parse_render_update: "parse_update (render_update st) = Some st"
proof -
  have where_: "read_param '' WHERE id = '' (param_text '' WHERE id = '' (upd_key st) @
      param_text '' AND user_id = '' (upd_owner st) @ returning_tail) =
      Some (upd_key st, param_text '' AND user_id = '' (upd_owner st) @ returning_tail)"
    by (simp add: returning_tail_def)
  have owner: "read_param '' AND user_id = '' (param_text '' AND user_id = '' (upd_owner st) @ returning_tail) =
      Some (upd_owner st, returning_tail)"
    by (simp add: returning_tail_def)
  show ?thesis
    by (simp add: parse_update_def render_update_def strip_prefix_def parse_set_items_render
        where_ owner)
qed

section \<open>Executing the update statement\<close>

text \<open>The \<open>priority\<close> and \<open>category\<close> columns only hold the values of their
  enumerations: storing another text fails.\<close>

fun set_item_fun :: "sql_arg list \<Rightarrow> set_item \<Rightarrow> (task \<Rightarrow> task) option" where
  "set_item_fun args (SetTitle n) =
     (case arg_at args n of Some (ArgText v) \<Rightarrow> Some (\<lambda>t. t\<lparr>title := v\<rparr>) | _ \<Rightarrow> None)"
| "set_item_fun args (SetDescription n) =
     (case arg_at args n of Some (ArgText v) \<Rightarrow> Some (\<lambda>t. t\<lparr>description := v\<rparr>) | _ \<Rightarrow> None)"
| "set_item_fun args (SetPriority n) =
     (case arg_at args n of
        Some (ArgText v) \<Rightarrow> map_option (\<lambda>p t. t\<lparr>priority := p\<rparr>) (parse_priority v)
      | _ \<Rightarrow> None)"
| "set_item_fun args (SetCategory n) =
     (case arg_at args n of
        Some (ArgText v) \<Rightarrow> map_option (\<lambda>c t. t\<lparr>category := c\<rparr>) (parse_category v)
      | _ \<Rightarrow> None)"
| "set_item_fun args (SetCompleted n) =
     (case arg_at args n of Some (ArgBool b) \<Rightarrow> Some (\<lambda>t. t\<lparr>is_completed := b\<rparr>) | _ \<Rightarrow> None)"
| "set_item_fun args (SetDueDate n) =
     (case arg_at args n of Some (ArgTime v) \<Rightarrow> Some (\<lambda>t. t\<lparr>due_date := Some v\<rparr>) | _ \<Rightarrow> None)"

text \<open>The assignments of one \<open>SET\<close> list, applied from left to right (they write
  distinct columns, so the order does not matter).\<close>

fun sets_fun :: "sql_arg list \<Rightarrow> set_item list \<Rightarrow> (task \<Rightarrow> task) option" where
  "sets_fun args [] = Some (\<lambda>t. t)"
| "sets_fun args (x # xs) =
     (case set_item_fun args x of
        None \<Rightarrow> None
      | Some g \<Rightarrow> map_option (\<lambda>h t. h (g t)) (sets_fun args xs))"

text \<open>The key parameter compared with the integer column \<open>id\<close>: text is converted
  by \<open>int4\<close> input, an integer must be in range.\<close>

fun key_arg :: "sql_arg option \<Rightarrow> int option" where
  "key_arg (Some (ArgText s)) = pg_int4 s"
| "key_arg (Some (ArgInt i)) = (if - (2 ^ 31) \<le> i \<and> i < 2 ^ 31 then Some i else None)"
| "key_arg _ = None"

definition update_params :: "update_stmt \<Rightarrow> nat list" where
  "update_params st = map (snd \<circ> set_item_kw) (upd_sets st) @ [upd_key st, upd_owner st]"

text \<open>PostgreSQL refuses a \<open>SET\<close> list that assigns a column twice.\<close>

definition exec_update ::
  "db \<Rightarrow> timestamp \<Rightarrow> string \<Rightarrow> sql_arg list \<Rightarrow> (db \<times> task list) option" where
  "exec_update d now q args =
     (case parse_update q of
        None \<Rightarrow> None
      | Some st \<Rightarrow>
          if params_match (update_params st) args \<and> distinct (map (fst \<circ> set_item_kw) (upd_sets st))
          then (case (key_arg (arg_at args (upd_key st)), arg_at args (upd_owner st),
                      sets_fun args (upd_sets st)) of
                  (Some i, Some (ArgInt u), Some g) \<Rightarrow>
                    sql_update_tasks d (\<lambda>t. task_id t = i \<and> task_user_id t = u)
                      (\<lambda>t. g (t\<lparr>updated_at := now\<rparr>))
                | _ \<Rightarrow> None)
          else None)"

end
