(* ===== verification/QueryBuilder.thy ===== *)
theory QueryBuilder
  imports Sql
begin

text \<open>
  The two dynamic statements of \<open>task_handler.go\<close>, as the Go code assembles them:
  a builder state \<open>(query, args, argCount)\<close>, and one \<open>if\<close> block per optional
  criterion or field that increments \<open>argCount\<close>, appends a fragment naming
  \<open>$argCount\<close> and appends the argument (\<open>add_param\<close>). For each builder:
  \<^item> a refinement lemma: the text is the rendering of a statement whose fragments are
    the present criteria numbered from the first free placeholder, and the arguments are
    their values (\<open>get_tasks_query_render\<close>, \<open>update_task_query_render\<close>);
  \<^item> the text depends on which criteria are present, never on their values or on the
    user id (no value is interpolated into the statement);
  \<^item> what the server does with the statement and its arguments, against an abstract
    specification of the operation (\<open>list_tasks_spec\<close>, \<open>apply_update\<close>).
\<close>

record list_params =
  q_priority :: string
  q_category :: string
  q_is_completed :: string
  q_search :: string

type_synonym builder = "string \<times> sql_arg list \<times> nat"

text \<open>One \<open>if\<close> block: \<open>argCount++\<close>, \<open>query += frag(strconv.Itoa(argCount))\<close>,
  \<open>args = append(args, a)\<close>.\<close>

definition add_param :: "(string \<Rightarrow> string) \<Rightarrow> sql_arg \<Rightarrow> builder \<Rightarrow> builder" where
  "add_param frag a b = (case b of (q, args, n) \<Rightarrow> (q @ frag (go_itoa (Suc n)), args @ [a], Suc n))"

section \<open>\<open>GetTasks\<close>: the filter statement\<close>

definition list_filter_priority :: "string \<Rightarrow> builder \<Rightarrow> builder" where
  "list_filter_priority p b =
     (if p \<noteq> [] then add_param (\<lambda>k. '' AND priority = $'' @ k) (ArgText p) b else b)"

definition list_filter_category :: "string \<Rightarrow> builder \<Rightarrow> builder" where
  "list_filter_category c b =
     (if c \<noteq> [] then add_param (\<lambda>k. '' AND category = $'' @ k) (ArgText c) b else b)"

text \<open>\<open>is_completed\<close> is bound as the Go boolean \<open>isCompleted == "true"\<close>.\<close>

definition list_filter_completed :: "string \<Rightarrow> builder \<Rightarrow> builder" where
  "list_filter_completed v b =
     (if v \<noteq> [] then add_param (\<lambda>k. '' AND is_completed = $'' @ k) (ArgBool (v = ''true'')) b else b)"

definition list_filter_search :: "string \<Rightarrow> builder \<Rightarrow> builder" where
  "list_filter_search s b =
     (if s \<noteq> []
      then add_param (\<lambda>k. '' AND (title ILIKE $'' @ k @ '' OR description ILIKE $'' @ k @ '')'')
             (ArgText (''%'' @ s @ ''%'')) b
      else b)"

definition get_tasks_query :: "uid \<Rightarrow> list_params \<Rightarrow> string \<times> sql_arg list" where
  "get_tasks_query u f =
     (case list_filter_search (q_search f)
             (list_filter_completed (q_is_completed f)
               (list_filter_category (q_category f)
                 (list_filter_priority (q_priority f) (select_head @ ''$1'', [ArgInt u], 1)))) of
        (q, args, _) \<Rightarrow> (q @ '' ORDER BY created_at DESC'', args))"

subsection \<open>Specification\<close>

text \<open>A criterion is present iff its query parameter is not empty; a present criterion
  constrains the row, an absent one does not.\<close>

definition matches_filters :: "list_params \<Rightarrow> task \<Rightarrow> bool" where
  "matches_filters f t \<longleftrightarrow>
     (q_priority f = [] \<or> priority_value (priority t) = q_priority f) \<and>
     (q_category f = [] \<or> category_value (category t) = q_category f) \<and>
     (q_is_completed f = [] \<or> is_completed t = (q_is_completed f = ''true'')) \<and>
     (q_search f = [] \<or> ilike (''%'' @ q_search f @ ''%'') (title t) \<or>
                         ilike (''%'' @ q_search f @ ''%'') (description t))"

definition list_tasks_spec :: "db \<Rightarrow> uid \<Rightarrow> list_params \<Rightarrow> task list" where
  "list_tasks_spec d u f = filter (\<lambda>t. task_user_id t = u \<and> matches_filters f t) (tasks d)"

subsection \<open>The criteria as fragments\<close>

datatype criterion = ByPriority string | ByCategory string | ByCompleted bool | BySearch string

definition list_criteria_of :: "list_params \<Rightarrow> criterion list" where
  "list_criteria_of f =
     (if q_priority f \<noteq> [] then [ByPriority (q_priority f)] else []) @
     (if q_category f \<noteq> [] then [ByCategory (q_category f)] else []) @
     (if q_is_completed f \<noteq> [] then [ByCompleted (q_is_completed f = ''true'')] else []) @
     (if q_search f \<noteq> [] then [BySearch (q_search f)] else [])"

fun crit_frag :: "nat \<Rightarrow> criterion \<Rightarrow> sel_frag" where
  "crit_frag k (ByPriority _) = PriorityEq k"
| "crit_frag k (ByCategory _) = CategoryEq k"
| "crit_frag k (ByCompleted _) = CompletedEq k"
| "crit_frag k (BySearch _) = TitleOrDescILike k k"

fun crit_arg :: "criterion \<Rightarrow> sql_arg" where
  "crit_arg (ByPriority p) = ArgText p"
| "crit_arg (ByCategory c) = ArgText c"
| "crit_arg (ByCompleted b) = ArgBool b"
| "crit_arg (BySearch s) = ArgText (''%'' @ s @ ''%'')"

fun crit_holds :: "criterion \<Rightarrow> task \<Rightarrow> bool" where
  "crit_holds (ByPriority p) t = (priority_value (priority t) = p)"
| "crit_holds (ByCategory c) t = (category_value (category t) = c)"
| "crit_holds (ByCompleted b) t = (is_completed t = b)"
| "crit_holds (BySearch s) t =
     (ilike (''%'' @ s @ ''%'') (title t) \<or> ilike (''%'' @ s @ ''%'') (description t))"

fun number_frags :: "nat \<Rightarrow> criterion list \<Rightarrow> sel_frag list" where
  "number_frags k [] = []"
| "number_frags k (c # cs) = crit_frag k c # number_frags (Suc k) cs"

definition list_stmt :: "list_params \<Rightarrow> select_stmt" where
  "list_stmt f = \<lparr>sel_owner = 1, sel_frags = number_frags 2 (list_criteria_of f)\<rparr>"

subsection \<open>Lemmas\<close>

definition add_crit :: "criterion \<Rightarrow> builder \<Rightarrow> builder" where
  "add_crit c b =
     (case b of (q, args, n) \<Rightarrow> (q @ render_sel_frag (crit_frag (Suc n) c), args @ [crit_arg c], Suc n))"

lemma fold_add_crit:
  "fold add_crit cs (q, args, n) =
     (q @ concat (map render_sel_frag (number_frags (Suc n) cs)), args @ map crit_arg cs, n + length cs)"
  by (induction cs arbitrary: q args n) (simp_all add: add_crit_def)

lemma list_filters_fold:
  "list_filter_priority p b = fold add_crit (if p \<noteq> [] then [ByPriority p] else []) b"
  "list_filter_category c b = fold add_crit (if c \<noteq> [] then [ByCategory c] else []) b"
  "list_filter_completed v b =
     fold add_crit (if v \<noteq> [] then [ByCompleted (v = ''true'')] else []) b"
  "list_filter_search s b = fold add_crit (if s \<noteq> [] then [BySearch s] else []) b"
  by (cases b; simp add: list_filter_priority_def list_filter_category_def
      list_filter_completed_def list_filter_search_def add_param_def add_crit_def param_text_def)+

lemma select_head_1: "select_head @ ''$1'' = param_text select_head 1"
  by (simp add: param_text_def go_itoa_small)

text \<open>The refinement of the builder: its text renders \<open>list_stmt f\<close>, its arguments are
  the user id and the values of the present criteria, in the same order.\<close>

theorem get_tasks_query_render:
  "get_tasks_query u f = (render_select (list_stmt f), ArgInt u # map crit_arg (list_criteria_of f))"
proof -
  have "list_filter_search (q_search f) (list_filter_completed (q_is_completed f)
          (list_filter_category (q_category f) (list_filter_priority (q_priority f)
            (select_head @ ''$1'', [ArgInt u], 1)))) =
        fold add_crit (list_criteria_of f) (select_head @ ''$1'', [ArgInt u], 1)"
    by (simp add: list_filters_fold list_criteria_of_def)
  then show ?thesis
    by (simp add: get_tasks_query_def fold_add_crit render_select_def list_stmt_def
        select_head_1 order_desc_def numeral_2_eq_2)
qed

lemma insert_interval_Suc: "insert k {Suc k..<Suc (k + n)} = {k..<Suc (k + n)}"
  by auto

lemma set_number_frags_params:
  "set (concat (map sel_frag_params (number_frags k cs))) = {k..<k + length cs}"
proof (induction cs arbitrary: k)
  case Nil
  then show ?case by simp
next
  case (Cons c cs)
  have "set (concat (map sel_frag_params (number_frags (Suc k) cs))) = {Suc k..<Suc k + length cs}"
    by (rule Cons.IH)
  then show ?case
    by (cases c) (simp_all add: insert_interval_Suc insert_absorb del: set_concat)
qed

lemma insert_one_interval: "insert (1::nat) {2..<2 + n} = {1..<Suc (Suc n)}"
  by auto

lemma list_params_match:
  "params_match (select_params (list_stmt f)) (ArgInt u # map crit_arg (list_criteria_of f))"
proof -
  let ?n = "length (list_criteria_of f)"
  have "set (select_params (list_stmt f)) =
        insert 1 (set (concat (map sel_frag_params (number_frags 2 (list_criteria_of f)))))"
    by (simp add: select_params_def list_stmt_def del: set_concat)
  also have "\<dots> = insert 1 {2..<2 + ?n}"
    by (simp only: set_number_frags_params)
  also have "\<dots> = {1..<Suc (Suc ?n)}"
    by (rule insert_one_interval)
  also have "\<dots> = set [1..<Suc (length (ArgInt u # map crit_arg (list_criteria_of f)))]"
    by (simp only: set_upt length_Cons length_map)
  finally show ?thesis
    by (simp only: params_match_def)
qed

lemma arg_at_append_length [simp]: "arg_at (pre @ a # rest) (Suc (length pre)) = Some a"
  by (simp add: arg_at_def nth_append)

lemma sel_frag_pred_crit:
  "arg_at args k = Some (crit_arg c) \<Longrightarrow> sel_frag_pred args (crit_frag k c) = Some (crit_holds c)"
  by (cases c) auto

lemma frags_pred_number:
  "frags_pred (pre @ map crit_arg cs) (number_frags (Suc (length pre)) cs) =
     Some (\<lambda>t. list_all (\<lambda>c. crit_holds c t) cs)"
proof (induction cs arbitrary: pre)
  case Nil
  then show ?case by simp
next
  case (Cons c cs)
  have "frags_pred ((pre @ [crit_arg c]) @ map crit_arg cs) (number_frags (Suc (length (pre @ [crit_arg c]))) cs) =
        Some (\<lambda>t. list_all (\<lambda>c. crit_holds c t) cs)"
    by (rule Cons.IH)
  moreover have "sel_frag_pred (pre @ map crit_arg (c # cs)) (crit_frag (Suc (length pre)) c) = Some (crit_holds c)"
    by (rule sel_frag_pred_crit) simp
  ultimately show ?case by simp
qed

lemma matches_filters_criteria:
  "matches_filters f t \<longleftrightarrow> list_all (\<lambda>c. crit_holds c t) (list_criteria_of f)"
  by (auto simp: matches_filters_def list_criteria_of_def)

lemma select_pred_list_stmt:
  "select_pred (ArgInt u # map crit_arg (list_criteria_of f)) (list_stmt f) =
     Some (\<lambda>t. task_user_id t = u \<and> matches_filters f t)"
  using frags_pred_number [of "[ArgInt u]" "list_criteria_of f"]
  by (simp add: select_pred_def list_stmt_def arg_at_def matches_filters_criteria numeral_2_eq_2)

subsection \<open>What the listing statement selects\<close>

text \<open>Executed against any table state, the statement built for user \<open>u\<close> and the
  query parameters \<open>f\<close> returns exactly \<open>u\<close>'s tasks that meet every present
  criterion, newest first; it fails only when the database cannot be reached.\<close>

lemma exec_get_tasks_query:
  "exec_select d (fst (get_tasks_query u f)) (snd (get_tasks_query u f)) =
     (if db_up d then Some (order_created_desc (list_tasks_spec d u f)) else None)"
proof -
  have "exec_select d (render_select (list_stmt f)) (ArgInt u # map crit_arg (list_criteria_of f)) =
        map_option order_created_desc
          (sql_select_tasks d (\<lambda>t. task_user_id t = u \<and> matches_filters f t))"
    by (simp only: exec_select_def parse_render_select option.case list_params_match if_True
        select_pred_list_stmt)
  then show ?thesis
    by (simp add: get_tasks_query_render sql_select_tasks_def list_tasks_spec_def)
qed

text \<open>The presence pattern of the criteria; the statement text is a function of it.\<close>

definition list_shape :: "list_params \<Rightarrow> bool list" where
  "list_shape f = [q_priority f \<noteq> [], q_category f \<noteq> [], q_is_completed f \<noteq> [], q_search f \<noteq> []]"

fun crit_kind :: "criterion \<Rightarrow> nat" where
  "crit_kind (ByPriority _) = 0"
| "crit_kind (ByCategory _) = 1"
| "crit_kind (ByCompleted _) = 2"
| "crit_kind (BySearch _) = 3"

lemma crit_frag_kind: "crit_kind c = crit_kind c' \<Longrightarrow> crit_frag k c = crit_frag k c'"
  by (cases c; cases c') simp_all

lemma number_frags_kinds:
  "map crit_kind cs = map crit_kind cs' \<Longrightarrow> number_frags k cs = number_frags k cs'"
proof (induction cs arbitrary: cs' k)
  case Nil
  then show ?case by simp
next
  case (Cons c cs)
  then obtain c' cs'' where "cs' = c' # cs''" by (cases cs') auto
  with Cons show ?case by (auto intro: crit_frag_kind)
qed

lemma list_criteria_kinds:
  "list_shape f = list_shape f' \<Longrightarrow> map crit_kind (list_criteria_of f) = map crit_kind (list_criteria_of f')"
  by (simp add: list_shape_def list_criteria_of_def)

lemma list_stmt_shape:
  assumes "list_shape f = list_shape f'"
  shows "list_stmt f = list_stmt f'"
proof -
  have "map crit_kind (list_criteria_of f) = map crit_kind (list_criteria_of f')"
    using assms by (rule list_criteria_kinds)
  then have "number_frags 2 (list_criteria_of f) = number_frags 2 (list_criteria_of f')"
    by (rule number_frags_kinds)
  then show ?thesis by (simp add: list_stmt_def)
qed

section \<open>\<open>UpdateTask\<close>: the partial update statement\<close>

text \<open>One block per pointer field of \<open>UpdateTaskRequest\<close>: a nil pointer adds nothing.\<close>

definition upd_set_title :: "string option \<Rightarrow> builder \<Rightarrow> builder" where
  "upd_set_title v b = (case v of Some s \<Rightarrow> add_param (\<lambda>k. '', title = $'' @ k) (ArgText s) b | None \<Rightarrow> b)"

definition upd_set_description :: "string option \<Rightarrow> builder \<Rightarrow> builder" where
  "upd_set_description v b =
     (case v of Some s \<Rightarrow> add_param (\<lambda>k. '', description = $'' @ k) (ArgText s) b | None \<Rightarrow> b)"

definition upd_set_priority :: "string option \<Rightarrow> builder \<Rightarrow> builder" where
  "upd_set_priority v b =
     (case v of Some p \<Rightarrow> add_param (\<lambda>k. '', priority = $'' @ k) (ArgText p) b | None \<Rightarrow> b)"

definition upd_set_category :: "string option \<Rightarrow> builder \<Rightarrow> builder" where
  "upd_set_category v b =
     (case v of Some c \<Rightarrow> add_param (\<lambda>k. '', category = $'' @ k) (ArgText c) b | None \<Rightarrow> b)"

definition upd_set_completed :: "bool option \<Rightarrow> builder \<Rightarrow> builder" where
  "upd_set_completed v b =
     (case v of Some x \<Rightarrow> add_param (\<lambda>k. '', is_completed = $'' @ k) (ArgBool x) b | None \<Rightarrow> b)"

definition upd_set_due_date :: "timestamp option \<Rightarrow> builder \<Rightarrow> builder" where
  "upd_set_due_date v b =
     (case v of Some x \<Rightarrow> add_param (\<lambda>k. '', due_date = $'' @ k) (ArgTime x) b | None \<Rightarrow> b)"

definition update_task_query :: "update_task_request \<Rightarrow> string \<Rightarrow> uid \<Rightarrow> string \<times> sql_arg list" where
  "update_task_query r tid u =
     (case add_param (\<lambda>k. '' AND user_id = $'' @ k) (ArgInt u)
             (add_param (\<lambda>k. '' WHERE id = $'' @ k) (ArgText tid)
               (upd_set_due_date (utr_due_date r)
                 (upd_set_completed (utr_is_completed r)
                   (upd_set_category (utr_category r)
                     (upd_set_priority (utr_priority r)
                       (upd_set_description (utr_description r)
                         (upd_set_title (utr_title r) (update_head, [], 0)))))))) of
        (q, args, _) \<Rightarrow> (q @ '' RETURNING id, user_id, title, description, priority, category, is_completed, due_date, created_at, updated_at'', args))"

subsection \<open>Specification\<close>

text \<open>Every field the request carries is overwritten with its value, every other field
  is kept, and \<open>updated_at\<close> becomes the statement's time; \<open>priority\<close> and
  \<open>category\<close> are stored as the enumeration values their text names.\<close>

definition apply_update :: "update_task_request \<Rightarrow> timestamp \<Rightarrow> task \<Rightarrow> task" where
  "apply_update r now t =
     t\<lparr>title := (case utr_title r of None \<Rightarrow> title t | Some v \<Rightarrow> v),
       description := (case utr_description r of None \<Rightarrow> description t | Some v \<Rightarrow> v),
       priority := (case Option.bind (utr_priority r) parse_priority of None \<Rightarrow> priority t | Some p \<Rightarrow> p),
       category := (case Option.bind (utr_category r) parse_category of None \<Rightarrow> category t | Some c \<Rightarrow> c),
       is_completed := (case utr_is_completed r of None \<Rightarrow> is_completed t | Some b \<Rightarrow> b),
       due_date := (case utr_due_date r of None \<Rightarrow> due_date t | Some v \<Rightarrow> Some v),
       updated_at := now\<rparr>"

subsection \<open>The present fields as assignments\<close>

datatype change =
    ChTitle string | ChDescription string | ChPriority string | ChCategory string
  | ChCompleted bool | ChDueDate timestamp

definition changes_of :: "update_task_request \<Rightarrow> change list" where
  "changes_of r =
     (case utr_title r of None \<Rightarrow> [] | Some v \<Rightarrow> [ChTitle v]) @
     (case utr_description r of None \<Rightarrow> [] | Some v \<Rightarrow> [ChDescription v]) @
     (case utr_priority r of None \<Rightarrow> [] | Some v \<Rightarrow> [ChPriority v]) @
     (case utr_category r of None \<Rightarrow> [] | Some v \<Rightarrow> [ChCategory v]) @
     (case utr_is_completed r of None \<Rightarrow> [] | Some v \<Rightarrow> [ChCompleted v]) @
     (case utr_due_date r of None \<Rightarrow> [] | Some v \<Rightarrow> [ChDueDate v])"

fun change_item :: "nat \<Rightarrow> change \<Rightarrow> set_item" where
  "change_item k (ChTitle _) = SetTitle k"
| "change_item k (ChDescription _) = SetDescription k"
| "change_item k (ChPriority _) = SetPriority k"
| "change_item k (ChCategory _) = SetCategory k"
| "change_item k (ChCompleted _) = SetCompleted k"
| "change_item k (ChDueDate _) = SetDueDate k"

fun change_arg :: "change \<Rightarrow> sql_arg" where
  "change_arg (ChTitle v) = ArgText v"
| "change_arg (ChDescription v) = ArgText v"
| "change_arg (ChPriority v) = ArgText v"
| "change_arg (ChCategory v) = ArgText v"
| "change_arg (ChCompleted v) = ArgBool v"
| "change_arg (ChDueDate v) = ArgTime v"

fun apply_change :: "change \<Rightarrow> task \<Rightarrow> task" where
  "apply_change (ChTitle v) t = t\<lparr>title := v\<rparr>"
| "apply_change (ChDescription v) t = t\<lparr>description := v\<rparr>"
| "apply_change (ChPriority v) t = (case parse_priority v of None \<Rightarrow> t | Some p \<Rightarrow> t\<lparr>priority := p\<rparr>)"
| "apply_change (ChCategory v) t = (case parse_category v of None \<Rightarrow> t | Some c \<Rightarrow> t\<lparr>category := c\<rparr>)"
| "apply_change (ChCompleted v) t = t\<lparr>is_completed := v\<rparr>"
| "apply_change (ChDueDate v) t = t\<lparr>due_date := Some v\<rparr>"

fun change_col :: "change \<Rightarrow> string" where
  "change_col (ChTitle _) = '', title = ''"
| "change_col (ChDescription _) = '', description = ''"
| "change_col (ChPriority _) = '', priority = ''"
| "change_col (ChCategory _) = '', category = ''"
| "change_col (ChCompleted _) = '', is_completed = ''"
| "change_col (ChDueDate _) = '', due_date = ''"

fun change_ok :: "change \<Rightarrow> bool" where
  "change_ok (ChPriority v) = (parse_priority v \<noteq> None)"
| "change_ok (ChCategory v) = (parse_category v \<noteq> None)"
| "change_ok _ = True"

fun number_items :: "nat \<Rightarrow> change list \<Rightarrow> set_item list" where
  "number_items k [] = []"
| "number_items k (c # cs) = change_item k c # number_items (Suc k) cs"

definition update_stmt_of :: "update_task_request \<Rightarrow> update_stmt" where
  "update_stmt_of r =
     \<lparr>upd_sets = number_items 1 (changes_of r), upd_key = Suc (length (changes_of r)),
      upd_owner = Suc (Suc (length (changes_of r)))\<rparr>"

subsection \<open>Lemmas\<close>

definition add_change :: "change \<Rightarrow> builder \<Rightarrow> builder" where
  "add_change c b =
     (case b of (q, args, n) \<Rightarrow> (q @ render_set_item (change_item (Suc n) c), args @ [change_arg c], Suc n))"

lemma fold_add_change:
  "fold add_change cs (q, args, n) =
     (q @ concat (map render_set_item (number_items (Suc n) cs)), args @ map change_arg cs, n + length cs)"
  by (induction cs arbitrary: q args n) (simp_all add: add_change_def)

lemma upd_sets_fold:
  "upd_set_title v b = fold add_change (case v of None \<Rightarrow> [] | Some x \<Rightarrow> [ChTitle x]) b"
  "upd_set_description v1 b = fold add_change (case v1 of None \<Rightarrow> [] | Some x \<Rightarrow> [ChDescription x]) b"
  "upd_set_priority v2 b = fold add_change (case v2 of None \<Rightarrow> [] | Some x \<Rightarrow> [ChPriority x]) b"
  "upd_set_category v3 b = fold add_change (case v3 of None \<Rightarrow> [] | Some x \<Rightarrow> [ChCategory x]) b"
  "upd_set_completed v4 b = fold add_change (case v4 of None \<Rightarrow> [] | Some x \<Rightarrow> [ChCompleted x]) b"
  "upd_set_due_date v5 b = fold add_change (case v5 of None \<Rightarrow> [] | Some x \<Rightarrow> [ChDueDate x]) b"
  by (cases b; simp add: upd_set_title_def upd_set_description_def upd_set_priority_def
      upd_set_category_def upd_set_completed_def upd_set_due_date_def add_param_def
      add_change_def render_set_item_def param_text_def split: option.split)+

text \<open>The refinement of the update builder: the text renders \<open>update_stmt_of r\<close>,
  the arguments are the present values, the task id text and the user id.\<close>

theorem update_task_query_render:
  "update_task_query r tid u =
     (render_update (update_stmt_of r), map change_arg (changes_of r) @ [ArgText tid, ArgInt u])"
proof -
  have "upd_set_due_date (utr_due_date r) (upd_set_completed (utr_is_completed r)
          (upd_set_category (utr_category r) (upd_set_priority (utr_priority r)
            (upd_set_description (utr_description r) (upd_set_title (utr_title r) (update_head, [], 0)))))) =
        fold add_change (changes_of r) (update_head, [], 0)"
    by (simp add: upd_sets_fold changes_of_def)
  then show ?thesis
    by (simp add: update_task_query_def fold_add_change add_param_def render_update_def
        update_stmt_of_def param_text_def returning_tail_def task_columns_def)
qed

lemma fold_changes_apply_update:
  "fold apply_change (changes_of r) (t\<lparr>updated_at := now\<rparr>) = apply_update r now t"
  by (simp add: changes_of_def apply_update_def split: option.split)

lemma distinct_change_cols: "distinct (map change_col (changes_of r))"
  by (simp add: changes_of_def split: option.split)

lemma valid_changes_ok:
  "valid_update_task_request r \<Longrightarrow> list_all change_ok (changes_of r)"
  by (auto simp: changes_of_def valid_update_task_request_def split: option.splits)

lemma item_params_number_items:
  "map (snd \<circ> set_item_kw) (number_items k cs) = [k..<k + length cs]"
proof (induction cs arbitrary: k)
  case Nil
  then show ?case by simp
next
  case (Cons c cs)
  then show ?case by (cases c) (simp_all add: upt_rec)
qed

lemma item_cols_number_items:
  "map (fst \<circ> set_item_kw) (number_items k cs) = map change_col cs"
proof (induction cs arbitrary: k)
  case Nil
  then show ?case by simp
next
  case (Cons c cs)
  then show ?case by (cases c) simp_all
qed

lemmas item_kw_number_items = item_params_number_items item_cols_number_items

lemma update_params_match:
  "params_match (update_params (update_stmt_of r)) (map change_arg (changes_of r) @ [ArgText tid, ArgInt u])"
proof -
  let ?n = "length (changes_of r)"
  have "update_params (update_stmt_of r) = [1..<Suc ?n] @ [Suc ?n, Suc (Suc ?n)]"
    by (simp add: update_params_def update_stmt_of_def item_kw_number_items)
  also have "\<dots> = [1..<Suc (Suc (Suc ?n))]"
    by simp
  finally show ?thesis
    by (simp add: params_match_def)
qed

lemma set_item_fun_change:
  "arg_at args k = Some (change_arg c) \<Longrightarrow> change_ok c \<Longrightarrow>
   set_item_fun args (change_item k c) = Some (apply_change c)"
  by (cases c) (auto simp: fun_eq_iff)

lemma sets_fun_number_items:
  "list_all change_ok cs \<Longrightarrow>
   sets_fun (pre @ map change_arg cs @ post) (number_items (Suc (length pre)) cs) =
     Some (fold apply_change cs)"
proof (induction cs arbitrary: pre)
  case Nil
  then show ?case by (simp add: fun_eq_iff)
next
  case (Cons c cs)
  have "sets_fun ((pre @ [change_arg c]) @ map change_arg cs @ post)
          (number_items (Suc (length (pre @ [change_arg c]))) cs) = Some (fold apply_change cs)"
    using Cons.prems by (intro Cons.IH) simp
  moreover have "set_item_fun (pre @ map change_arg (c # cs) @ post) (change_item (Suc (length pre)) c) =
        Some (apply_change c)"
    using Cons.prems by (intro set_item_fun_change) simp_all
  ultimately show ?case by (simp add: fun_eq_iff)
qed

text \<open>Executed against any table state, the statement built from a request that passed
  the binding's validation rewrites exactly the row with the given id owned by the given
  user, as \<open>apply_update\<close> says, and no other row; a task id the server cannot
  read as an \<open>int4\<close> makes it fail.\<close>

lemma exec_update_task_query:
  assumes "valid_update_task_request r"
  shows "exec_update d now (fst (update_task_query r tid u)) (snd (update_task_query r tid u)) =
     (case pg_int4 tid of
        None \<Rightarrow> None
      | Some i \<Rightarrow> sql_update_tasks d (\<lambda>t. task_id t = i \<and> task_user_id t = u) (apply_update r now))"
proof -
  let ?cs = "changes_of r"
  let ?args = "map change_arg ?cs @ [ArgText tid, ArgInt u]"
  have sets: "sets_fun ?args (upd_sets (update_stmt_of r)) = Some (fold apply_change ?cs)"
    using sets_fun_number_items [of ?cs "[]" "[ArgText tid, ArgInt u]"] valid_changes_ok [OF assms]
    by (simp add: update_stmt_of_def)
  have cols: "distinct (map (fst \<circ> set_item_kw) (upd_sets (update_stmt_of r)))"
    by (simp add: update_stmt_of_def item_kw_number_items distinct_change_cols)
  have key: "arg_at ?args (upd_key (update_stmt_of r)) = Some (ArgText tid)"
    and owner: "arg_at ?args (upd_owner (update_stmt_of r)) = Some (ArgInt u)"
    by (simp_all add: update_stmt_of_def arg_at_def nth_append)
  have upd: "(\<lambda>t. fold apply_change ?cs (t\<lparr>updated_at := now\<rparr>)) = apply_update r now"
    by (simp add: fun_eq_iff fold_changes_apply_update)
  show ?thesis
    by (simp add: update_task_query_render exec_update_def parse_render_update update_params_match
        cols key owner sets upd split: option.split)
qed

text \<open>The presence pattern of the request's fields; the statement text is a function of it.\<close>

definition update_shape :: "update_task_request \<Rightarrow> bool list" where
  "update_shape r = [utr_title r \<noteq> None, utr_description r \<noteq> None, utr_priority r \<noteq> None,
     utr_category r \<noteq> None, utr_is_completed r \<noteq> None, utr_due_date r \<noteq> None]"

fun change_kind :: "change \<Rightarrow> nat" where
  "change_kind (ChTitle _) = 0"
| "change_kind (ChDescription _) = 1"
| "change_kind (ChPriority _) = 2"
| "change_kind (ChCategory _) = 3"
| "change_kind (ChCompleted _) = 4"
| "change_kind (ChDueDate _) = 5"

lemma change_item_kind: "change_kind c = change_kind c' \<Longrightarrow> change_item k c = change_item k c'"
  by (cases c; cases c') simp_all

lemma number_items_kinds:
  "map change_kind cs = map change_kind cs' \<Longrightarrow> number_items k cs = number_items k cs'"
proof (induction cs arbitrary: cs' k)
  case Nil
  then show ?case by simp
next
  case (Cons c cs)
  then obtain c' cs'' where "cs' = c' # cs''" by (cases cs') auto
  with Cons show ?case by (auto intro: change_item_kind)
qed

lemma change_kind_opt:
  assumes "\<And>v. change_kind (C v) = k"
  shows "map change_kind (case x of None \<Rightarrow> [] | Some v \<Rightarrow> [C v]) = (if x \<noteq> None then [k] else [])"
  using assms by (cases x) simp_all

lemma change_kinds_of:
  "map change_kind (changes_of r) =
     (if utr_title r \<noteq> None then [0] else []) @ (if utr_description r \<noteq> None then [1] else []) @
     (if utr_priority r \<noteq> None then [2] else []) @ (if utr_category r \<noteq> None then [3] else []) @
     (if utr_is_completed r \<noteq> None then [4] else []) @ (if utr_due_date r \<noteq> None then [5] else [])"
  unfolding changes_of_def map_append
  by (simp only: change_kind_opt change_kind.simps)

lemma update_stmt_shape:
  assumes "update_shape r = update_shape r'"
  shows "update_stmt_of r = update_stmt_of r'"
proof -
  have eqs: "(utr_title r \<noteq> None) = (utr_title r' \<noteq> None)"
    "(utr_description r \<noteq> None) = (utr_description r' \<noteq> None)"
    "(utr_priority r \<noteq> None) = (utr_priority r' \<noteq> None)"
    "(utr_category r \<noteq> None) = (utr_category r' \<noteq> None)"
    "(utr_is_completed r \<noteq> None) = (utr_is_completed r' \<noteq> None)"
    "(utr_due_date r \<noteq> None) = (utr_due_date r' \<noteq> None)"
    using assms by (simp_all only: update_shape_def list.inject)
  have kinds: "map change_kind (changes_of r) = map change_kind (changes_of r')"
    unfolding change_kinds_of eqs ..
  then have "length (changes_of r) = length (changes_of r')"
    by (metis length_map)
  moreover have "number_items 1 (changes_of r) = number_items 1 (changes_of r')"
    using kinds by (rule number_items_kinds)
  ultimately show ?thesis
    by (simp add: update_stmt_of_def)
qed

end
