(* ===== verification/Tasks.thy ===== *)
theory Tasks
  imports QueryBuilder
begin

text \<open>
  The handlers of \<open>src/internal/handlers/task_handler.go\<close>. Each takes the table state,
  the clock (\<open>CURRENT_TIMESTAMP\<close> and \<open>time.Now()\<close>, in seconds), the user id that
  the gate stored in the request context (\<open>c.GetInt("user_id")\<close>) and the request's
  inputs, and returns the new table state with the response; every early \<open>return\<close>
  of the handler is a branch. A request body that does not decode into the request struct
  is \<open>None\<close>; the text of the validator's message (\<open>err.Error()\<close>) is not modelled
  and is \<open>bind_error_message\<close>. The statements run as the database model says; the
  two dynamic ones run through \<open>exec_select\<close> and \<open>exec_update\<close>, i.e. the server
  reads the text the builders produced.
  \<open>GetStats\<close> issues five statements one after another; \<open>get_stats_at\<close> takes the
  state each of them sees, so that a run interleaved with other requests can be stated,
  and \<open>get_stats\<close> is the run on one state.
\<close>

definition bind_error_message :: string where
  "bind_error_message = ''request binding failed''"

section \<open>\<open>CreateTask\<close>\<close>

text \<open>The row the \<open>INSERT\<close> creates: the \<open>SERIAL\<close> id, the columns the statement
  binds, and the defaults \<open>is_completed = false\<close>, \<open>created_at = updated_at = now\<close>.
  Text that is not a value of the enumeration cannot be stored.\<close>

definition insert_task_row ::
  "db \<Rightarrow> timestamp \<Rightarrow> uid \<Rightarrow> create_task_request \<Rightarrow> (db \<times> task) option" where
  "insert_task_row d now u req =
     (case (parse_priority (ctr_priority req), parse_category (ctr_category req)) of
        (Some p, Some c) \<Rightarrow>
          sql_insert_task d (\<lambda>i. \<lparr>task_id = i, task_user_id = u, title = ctr_title req,
             description = ctr_description req, priority = p, category = c, is_completed = False,
             due_date = ctr_due_date req, created_at = now, updated_at = now\<rparr>)
      | _ \<Rightarrow> None)"

definition create_task_defaults :: "create_task_request \<Rightarrow> create_task_request" where
  "create_task_defaults req =
     req\<lparr>ctr_priority := (if ctr_priority req = [] then ''medium'' else ctr_priority req),
         ctr_category := (if ctr_category req = [] then ''personal'' else ctr_category req)\<rparr>"

definition create_task ::
  "db \<Rightarrow> timestamp \<Rightarrow> uid \<Rightarrow> create_task_request option \<Rightarrow> db \<times> response" where
  "create_task d now u body =
     (case body of
        None \<Rightarrow> (d, ErrorResponse 400 bind_error_message)
      | Some req \<Rightarrow>
          if \<not> valid_create_task_request req then (d, ErrorResponse 400 bind_error_message)
          else (case insert_task_row d now u (create_task_defaults req) of
                  None \<Rightarrow> (d, ErrorResponse 500 ''Failed to create task'')
                | Some (d', t) \<Rightarrow> (d', SuccessResponse 201 ''Task created successfully'' (TaskData t))))"

section \<open>\<open>GetTasks\<close>\<close>

text \<open>\<open>rows.Scan\<close> cannot fail on the rows of this schema, so the loop that skips rows
  whose scan fails keeps every row.\<close>

definition get_tasks :: "db \<Rightarrow> uid \<Rightarrow> list_params \<Rightarrow> response" where
  "get_tasks d u f =
     (case get_tasks_query u f of
        (q, args) \<Rightarrow>
          (case exec_select d q args of
             None \<Rightarrow> ErrorResponse 500 ''Failed to fetch tasks''
           | Some ts \<Rightarrow> SuccessResponse 200 ''Tasks retrieved successfully'' (TaskListData ts)))"

section \<open>Statements on one task\<close>

text \<open>The id path parameter is bound as text; the server converts it, and text that is
  not an \<open>int4\<close> makes the statement fail like an unreachable server does.\<close>

definition task_key :: "string \<Rightarrow> uid \<Rightarrow> (task \<Rightarrow> bool) option" where
  "task_key tid u = map_option (\<lambda>i t. task_id t = i \<and> task_user_id t = u) (pg_int4 tid)"

definition get_task :: "db \<Rightarrow> uid \<Rightarrow> string \<Rightarrow> response" where
  "get_task d u tid =
     (case query_row (Option.bind (task_key tid u) (sql_select_tasks d)) of
        ErrNoRows \<Rightarrow> ErrorResponse 404 ''Task not found''
      | QueryError \<Rightarrow> ErrorResponse 500 ''Failed to fetch task''
      | RowOk t \<Rightarrow> SuccessResponse 200 ''Task retrieved successfully'' (TaskData t))"

definition update_task ::
  "db \<Rightarrow> timestamp \<Rightarrow> uid \<Rightarrow> string \<Rightarrow> update_task_request option \<Rightarrow> db \<times> response" where
  "update_task d now u tid body =
     (case body of
        None \<Rightarrow> (d, ErrorResponse 400 bind_error_message)
      | Some r \<Rightarrow>
          if \<not> valid_update_task_request r then (d, ErrorResponse 400 bind_error_message)
          else (case update_task_query r tid u of
                  (q, args) \<Rightarrow>
                    (case exec_update d now q args of
                       None \<Rightarrow> (d, ErrorResponse 500 ''Failed to update task'')
                     | Some (d', []) \<Rightarrow> (d', ErrorResponse 404 ''Task not found'')
                     | Some (d', t # _) \<Rightarrow> (d', SuccessResponse 200 ''Task updated successfully'' (TaskData t)))))"

definition delete_task :: "db \<Rightarrow> uid \<Rightarrow> string \<Rightarrow> db \<times> response" where
  "delete_task d u tid =
     (case Option.bind (task_key tid u) (sql_delete_tasks d) of
        None \<Rightarrow> (d, ErrorResponse 500 ''Failed to delete task'')
      | Some (d', n) \<Rightarrow>
          if n = 0 then (d', ErrorResponse 404 ''Task not found'')
          else (d', SuccessResponse 200 ''Task deleted successfully'' NoData))"

text \<open>\<open>SET is_completed = NOT is_completed\<close>: the flip is one statement.\<close>

definition toggle_row :: "timestamp \<Rightarrow> task \<Rightarrow> task" where
  "toggle_row now t = t\<lparr>is_completed := \<not> is_completed t, updated_at := now\<rparr>"

definition toggle_complete :: "db \<Rightarrow> timestamp \<Rightarrow> uid \<Rightarrow> string \<Rightarrow> db \<times> response" where
  "toggle_complete d now u tid =
     (case Option.bind (task_key tid u) (\<lambda>P. sql_update_tasks d P (toggle_row now)) of
        None \<Rightarrow> (d, ErrorResponse 500 ''Failed to toggle task'')
      | Some (d', []) \<Rightarrow> (d', ErrorResponse 404 ''Task not found'')
      | Some (d', t # _) \<Rightarrow> (d', SuccessResponse 200 ''Task toggled successfully'' (TaskData t)))"

section \<open>\<open>GetStats\<close>\<close>

text \<open>A failed \<open>Scan\<close> leaves the field at its zero value: the error is dropped.\<close>

definition count_or_zero :: "nat option \<Rightarrow> nat" where
  "count_or_zero r = (case r of None \<Rightarrow> 0 | Some n \<Rightarrow> n)"

definition overdue_at :: "timestamp \<Rightarrow> task \<Rightarrow> bool" where
  "overdue_at now t \<longleftrightarrow> (case due_date t of None \<Rightarrow> False | Some dd \<Rightarrow> dd < now)"

definition get_stats_at :: "(nat \<Rightarrow> db) \<Rightarrow> uid \<Rightarrow> timestamp \<Rightarrow> response" where
  "get_stats_at ds u now =
     SuccessResponse 200 ''Statistics retrieved successfully'' (StatsData
       \<lparr>total = count_or_zero (sql_count_tasks (ds 0) (\<lambda>t. task_user_id t = u)),
        completed = count_or_zero (sql_count_tasks (ds 1) (\<lambda>t. task_user_id t = u \<and> is_completed t)),
        pending = count_or_zero (sql_count_tasks (ds 2) (\<lambda>t. task_user_id t = u \<and> \<not> is_completed t)),
        high_priority = count_or_zero (sql_count_tasks (ds 3)
          (\<lambda>t. task_user_id t = u \<and> priority_value (priority t) = ''high'')),
        overdue = count_or_zero (sql_count_tasks (ds 4)
          (\<lambda>t. task_user_id t = u \<and> \<not> is_completed t \<and> overdue_at now t))\<rparr>)"

definition get_stats :: "db \<Rightarrow> uid \<Rightarrow> timestamp \<Rightarrow> response" where
  "get_stats d u now = get_stats_at (\<lambda>_. d) u now"

text \<open>A reference for the statistics: one pass over the caller's tasks, each task adding
  to the counts it belongs to.\<close>

definition stats_step :: "timestamp \<Rightarrow> task \<Rightarrow> task_stats \<Rightarrow> task_stats" where
  "stats_step now t s =
     \<lparr>total = total s + 1,
      completed = completed s + (if is_completed t then 1 else 0),
      pending = pending s + (if is_completed t then 0 else 1),
      high_priority = high_priority s + (if priority t = PriorityHigh then 1 else 0),
      overdue = overdue s + (if \<not> is_completed t \<and> overdue_at now t then 1 else 0)\<rparr>"

definition stats_of :: "timestamp \<Rightarrow> task list \<Rightarrow> task_stats" where
  "stats_of now ts =
     foldr (stats_step now) ts \<lparr>total = 0, completed = 0, pending = 0, high_priority = 0, overdue = 0\<rparr>"

section \<open>The task operations\<close>

text \<open>The seven routes of the task group, as one step on the table state.\<close>

datatype task_op =
    OpCreateTask "create_task_request option"
  | OpGetTasks list_params
  | OpGetStats
  | OpGetTask string
  | OpUpdateTask string "update_task_request option"
  | OpDeleteTask string
  | OpToggleComplete string

fun run_task_op :: "db \<Rightarrow> timestamp \<Rightarrow> uid \<Rightarrow> task_op \<Rightarrow> db \<times> response" where
  "run_task_op d now u (OpCreateTask body) = create_task d now u body"
| "run_task_op d now u (OpGetTasks f) = (d, get_tasks d u f)"
| "run_task_op d now u OpGetStats = (d, get_stats d u now)"
| "run_task_op d now u (OpGetTask tid) = (d, get_task d u tid)"
| "run_task_op d now u (OpUpdateTask tid body) = update_task d now u tid body"
| "run_task_op d now u (OpDeleteTask tid) = delete_task d u tid"
| "run_task_op d now u (OpToggleComplete tid) = toggle_complete d now u tid"

text \<open>The tasks a response shows.\<close>

fun resp_tasks :: "response \<Rightarrow> task list" where
  "resp_tasks (SuccessResponse _ _ (TaskData t)) = [t]"
| "resp_tasks (SuccessResponse _ _ (TaskListData ts)) = ts"
| "resp_tasks _ = []"

declare create_task_def [handler_simps] get_tasks_def [handler_simps] get_task_def [handler_simps]
  update_task_def [handler_simps] delete_task_def [handler_simps]
  toggle_complete_def [handler_simps] get_stats_def [handler_simps]

section \<open>Lemmas\<close>

lemma task_key_Some:
  "task_key tid u = Some P \<longleftrightarrow> (\<exists>i. pg_int4 tid = Some i \<and> P = (\<lambda>t. task_id t = i \<and> task_user_id t = u))"
  by (auto simp: task_key_def)

lemma task_key_owner: "task_key tid u = Some P \<Longrightarrow> P t \<Longrightarrow> task_user_id t = u"
  by (auto simp: task_key_Some)

lemma apply_update_keeps [simp]:
  "task_id (apply_update r now t) = task_id t"
  "task_user_id (apply_update r now t) = task_user_id t"
  "created_at (apply_update r now t) = created_at t"
  by (simp_all add: apply_update_def)

lemma toggle_row_keeps [simp]:
  "task_id (toggle_row now t) = task_id t"
  "task_user_id (toggle_row now t) = task_user_id t"
  by (simp_all add: toggle_row_def)

lemma toggle_row_completed [simp]: "is_completed (toggle_row now t) = (\<not> is_completed t)"
  by (simp add: toggle_row_def)

text \<open>For a request that passed validation, \<open>UpdateTask\<close> is the owner-scoped
  \<open>UPDATE\<close> of one row by \<open>apply_update\<close>: the shape of \<open>ToggleComplete\<close>.\<close>

lemma update_task_valid:
  assumes "valid_update_task_request r"
  shows "update_task d now u tid (Some r) =
     (case Option.bind (task_key tid u) (\<lambda>P. sql_update_tasks d P (apply_update r now)) of
        None \<Rightarrow> (d, ErrorResponse 500 ''Failed to update task'')
      | Some (d', []) \<Rightarrow> (d', ErrorResponse 404 ''Task not found'')
      | Some (d', t # _) \<Rightarrow> (d', SuccessResponse 200 ''Task updated successfully'' (TaskData t)))"
  using assms exec_update_task_query [OF assms, of d now tid u]
  by (cases "pg_int4 tid") (simp_all add: update_task_def case_prod_unfold task_key_def)

lemma get_tasks_exec:
  "get_tasks d u f =
     (if db_up d
      then SuccessResponse 200 ''Tasks retrieved successfully'' (TaskListData (order_created_desc (list_tasks_spec d u f)))
      else ErrorResponse 500 ''Failed to fetch tasks'')"
  using exec_get_tasks_query [of d u f]
  by (simp add: get_tasks_def case_prod_unfold)

lemma set_order_created_desc [simp]: "set (order_created_desc ts) = set ts"
  by (simp add: order_created_desc_def)

lemma mset_order_created_desc: "mset (order_created_desc ts) = mset ts"
  by (simp add: order_created_desc_def)

lemma sql_insert_task_others:
  assumes "sql_insert_task d mk = Some (d', t)" and "task_user_id (mk (task_seq d)) = u"
  shows "others_tasks u d' = others_tasks u d"
  using assms by (auto simp: sql_insert_task_def others_tasks_def split: if_splits)

lemma insert_task_row_Some:
  "insert_task_row d now u req = Some (d', t) \<Longrightarrow>
     task_user_id t = u \<and> others_tasks u d' = others_tasks u d \<and> tasks d' = tasks d @ [t] \<and>
     task_id t = task_seq d \<and> task_seq d' = task_seq d + 1 \<and> users d' = users d"
  by (auto simp: insert_task_row_def sql_insert_task_def others_tasks_def split: option.splits if_splits)

lemma insert_task_row_up: "insert_task_row d now u req = Some (d', t) \<Longrightarrow> db_up d \<and> db_up d'"
  by (auto simp: insert_task_row_def sql_insert_task_def split: option.splits if_splits)

lemma create_task_inserted:
  "create_task d now u body = (d', SuccessResponse c m (TaskData t)) \<Longrightarrow>
     \<exists>req. insert_task_row d now u req = Some (d', t)"
  by (auto simp: create_task_def split: option.splits if_splits prod.splits)

lemma sql_update_tasks_rows:
  "sql_update_tasks d P f = Some (d', rs) \<Longrightarrow> rs = map f (filter P (tasks d))"
  by (simp add: sql_update_tasks_def split: if_splits)

lemma sql_update_tasks_none_match:
  assumes "sql_update_tasks d P f = Some (d', rs)" and "rs = []"
  shows "d' = d"
proof -
  have "filter P (tasks d) = []" using assms by (simp add: sql_update_tasks_def split: if_splits)
  then have "\<forall>t \<in> set (tasks d). \<not> P t" by (simp add: filter_empty_conv)
  then have "map (\<lambda>t. if P t then f t else t) (tasks d) = tasks d" by (intro map_idI) auto
  with assms show ?thesis by (simp add: sql_update_tasks_def split: if_splits)
qed

lemma key_iff_row:
  assumes "distinct (map task_id ts)" and "t \<in> set ts" and "P t"
    and key: "\<And>x. P x \<Longrightarrow> task_id x = task_id t" and "x \<in> set ts"
  shows "P x \<longleftrightarrow> x = t"
proof
  assume "P x"
  then have "task_id x = task_id t" by (rule key)
  moreover have "inj_on task_id (set ts)" using assms(1) by (simp add: distinct_map)
  ultimately show "x = t" using assms(2,5) by (simp add: inj_on_eq_iff)
next
  assume "x = t"
  with assms(3) show "P x" by simp
qed

lemma filter_eq_elem: "distinct ts \<Longrightarrow> t \<in> set ts \<Longrightarrow> filter (\<lambda>x. x = t) ts = [t]"
proof (induction ts)
  case Nil
  then show ?case by simp
next
  case (Cons y ys)
  then show ?case by (cases "y = t") (auto simp: filter_empty_conv)
qed

lemma filter_unique_row:
  assumes "distinct (map task_id ts)" and "t \<in> set ts" and "P t"
    and "\<And>x. P x \<Longrightarrow> task_id x = task_id t"
  shows "filter P ts = [t]"
proof -
  have "filter P ts = filter (\<lambda>x. x = t) ts"
    using key_iff_row [of ts t P, OF assms] by (intro filter_cong) simp_all
  also have "\<dots> = [t]"
    using assms(1,2) by (intro filter_eq_elem) (simp_all add: distinct_map)
  finally show ?thesis .
qed

lemma map_unique_row:
  assumes "distinct (map task_id ts)" and "t \<in> set ts" and "P t"
    and "\<And>x. P x \<Longrightarrow> task_id x = task_id t"
  shows "map (\<lambda>x. if P x then f x else x) ts = map (\<lambda>x. if x = t then f x else x) ts"
  using key_iff_row [of ts t P, OF assms] by (intro map_cong) simp_all

lemma owned_row_update:
  assumes "db_wf d" and "db_up d" and "t \<in> set (tasks d)"
    and "task_key tid u = Some P" and "P t"
  shows "sql_update_tasks d P f =
     Some (d\<lparr>tasks := map (\<lambda>x. if x = t then f x else x) (tasks d)\<rparr>, [f t])"
proof -
  have dist: "distinct (map task_id (tasks d))" using assms(1) by (simp add: db_wf_def)
  have key: "\<And>x. P x \<Longrightarrow> task_id x = task_id t"
    using assms(4,5) by (auto simp: task_key_Some)
  show ?thesis
    using filter_unique_row [of "tasks d" t P, OF dist assms(3,5) key]
      map_unique_row [of "tasks d" t P f, OF dist assms(3,5) key] assms(2)
    by (simp add: sql_update_tasks_def)
qed

lemma no_owned_row:
  assumes "task_key tid u = Some P" and "\<forall>t \<in> set (tasks d). task_id t = i \<longrightarrow> task_user_id t \<noteq> u"
    and "pg_int4 tid = Some i"
  shows "filter P (tasks d) = []"
  using assms by (auto simp: task_key_Some filter_empty_conv)

lemma sql_update_no_row:
  assumes "db_up d" and "filter P (tasks d) = []"
  shows "sql_update_tasks d P f = Some (d, [])"
proof -
  have "\<forall>t \<in> set (tasks d). \<not> P t" using assms(2) by (simp add: filter_empty_conv)
  then have "map (\<lambda>t. if P t then f t else t) (tasks d) = tasks d" by (intro map_idI) auto
  with assms show ?thesis by (simp add: sql_update_tasks_def)
qed

lemma sql_delete_no_row:
  assumes "db_up d" and "filter P (tasks d) = []"
  shows "sql_delete_tasks d P = Some (d, 0)"
proof -
  have "\<forall>t \<in> set (tasks d). \<not> P t" using assms(2) by (simp add: filter_empty_conv)
  then have "filter (\<lambda>t. \<not> P t) (tasks d) = tasks d" by simp
  with assms show ?thesis by (simp add: sql_delete_tasks_def)
qed

lemma bind_update_others:
  assumes "Option.bind (task_key tid u) (\<lambda>P. sql_update_tasks d P f) = Some (d', rs)"
    and "\<And>t. task_user_id (f t) = task_user_id t"
  shows "others_tasks u d' = others_tasks u d"
proof -
  obtain P where key: "task_key tid u = Some P" and upd: "sql_update_tasks d P f = Some (d', rs)"
    using assms(1) by (auto simp: bind_eq_Some_conv)
  show ?thesis
    using upd task_key_owner [OF key] assms(2) by (rule sql_update_tasks_others)
qed

lemma bind_delete_others:
  assumes "Option.bind (task_key tid u) (sql_delete_tasks d) = Some (d', n)"
  shows "others_tasks u d' = others_tasks u d"
proof -
  obtain P where key: "task_key tid u = Some P" and del: "sql_delete_tasks d P = Some (d', n)"
    using assms by (auto simp: bind_eq_Some_conv)
  show ?thesis
    using del task_key_owner [OF key] by (rule sql_delete_tasks_others)
qed

text \<open>The state a handler of the shape of \<open>ToggleComplete\<close> leaves.\<close>

lemma row_result_others:
  assumes "\<And>d' rs. x = Some (d', rs) \<Longrightarrow> others_tasks u d' = others_tasks u d"
  shows "others_tasks u (fst (case x of None \<Rightarrow> (d, a) | Some (d', []) \<Rightarrow> (d', b)
           | Some (d', t # _) \<Rightarrow> (d', c t))) = others_tasks u d"
  using assms by (cases x) (auto split: list.split)

lemma update_task_others:
  "others_tasks u (fst (update_task d now u tid body)) = others_tasks u d"
proof (cases body)
  case None
  then show ?thesis by (simp add: update_task_def)
next
  case (Some r)
  show ?thesis
  proof (cases "valid_update_task_request r")
    case True
    have "others_tasks u d' = others_tasks u d"
      if "Option.bind (task_key tid u) (\<lambda>P. sql_update_tasks d P (apply_update r now)) = Some (d', rs)"
      for d' rs
      using that by (rule bind_update_others) simp
    then show ?thesis
      unfolding Some update_task_valid [OF True] by (rule row_result_others)
  next
    case False
    with Some show ?thesis by (simp add: update_task_def)
  qed
qed

lemma toggle_complete_others:
  "others_tasks u (fst (toggle_complete d now u tid)) = others_tasks u d"
proof -
  have "others_tasks u d' = others_tasks u d"
    if "Option.bind (task_key tid u) (\<lambda>P. sql_update_tasks d P (toggle_row now)) = Some (d', rs)"
    for d' rs
    using that by (rule bind_update_others) simp
  then show ?thesis
    unfolding toggle_complete_def by (rule row_result_others)
qed

lemma delete_task_others:
  "others_tasks u (fst (delete_task d u tid)) = others_tasks u d"
proof (cases "Option.bind (task_key tid u) (sql_delete_tasks d)")
  case None
  then show ?thesis by (simp add: delete_task_def)
next
  case (Some r)
  then obtain d' n where r: "r = (d', n)" by (cases r)
  with Some have "others_tasks u d' = others_tasks u d" by (simp add: bind_delete_others)
  with Some r show ?thesis by (simp add: delete_task_def)
qed

lemma create_task_others:
  "others_tasks u (fst (create_task d now u body)) = others_tasks u d"
  by (auto simp: create_task_def dest!: insert_task_row_Some split: option.splits)

text \<open>The row a statement scoped by \<open>task_key\<close> returns belongs to the caller.\<close>

lemma bind_update_owner:
  assumes "Option.bind (task_key tid u) (\<lambda>P. sql_update_tasks d P f) = Some (d', t # rs)"
    and "\<And>t. task_user_id (f t) = task_user_id t"
  shows "task_user_id t = u"
proof -
  obtain P where key: "task_key tid u = Some P" and upd: "sql_update_tasks d P f = Some (d', t # rs)"
    using assms(1) by (auto simp: bind_eq_Some_conv)
  have "t # rs = map f (filter P (tasks d))" using upd by (rule sql_update_tasks_rows)
  then obtain x xs where fx: "filter P (tasks d) = x # xs" and t: "t = f x"
    by (auto simp: Cons_eq_map_conv)
  have "x \<in> set (filter P (tasks d))" using fx by simp
  then have "P x" by simp
  with key t assms(2) show ?thesis by (simp add: task_key_owner)
qed

lemma bind_select_owner:
  assumes "Option.bind (task_key tid u) (sql_select_tasks d) = Some (t # rs)"
  shows "task_user_id t = u"
proof -
  obtain P where key: "task_key tid u = Some P" and sel: "sql_select_tasks d P = Some (t # rs)"
    using assms by (auto simp: bind_eq_Some_conv)
  have f: "filter P (tasks d) = t # rs" using sel by (simp add: sql_select_tasks_def split: if_splits)
  have "t \<in> set (filter P (tasks d))" unfolding f by simp
  with key show ?thesis by (simp add: task_key_owner)
qed

lemma row_result_owner:
  assumes "\<And>d' t rs. x = Some (d', t # rs) \<Longrightarrow> task_user_id t = u"
  shows "list_all (\<lambda>t. task_user_id t = u) (resp_tasks (snd (case x of None \<Rightarrow> (d, ErrorResponse a b)
           | Some (d', []) \<Rightarrow> (d', ErrorResponse c e)
           | Some (d', t # _) \<Rightarrow> (d', SuccessResponse s m (TaskData t)))))"
  using assms by (cases x) (auto split: list.split)

text \<open>Counting rows of the caller: the split by a condition and monotonicity.\<close>

lemma length_filter_split:
  "length (filter (\<lambda>t. A t \<and> B t) ts) + length (filter (\<lambda>t. A t \<and> \<not> B t) ts) = length (filter A ts)"
  by (induction ts) auto

lemma length_filter_mono:
  "(\<And>t. P t \<Longrightarrow> Q t) \<Longrightarrow> length (filter P ts) \<le> length (filter Q ts)"
  by (induction ts) auto

text \<open>\<open>CreateTask\<close> after validation: the defaults make both enumeration texts parse.\<close>

lemma create_task_defaults_keeps [simp]:
  "ctr_title (create_task_defaults req) = ctr_title req"
  "ctr_description (create_task_defaults req) = ctr_description req"
  "ctr_due_date (create_task_defaults req) = ctr_due_date req"
  by (simp_all add: create_task_defaults_def)

lemma create_task_defaults_parse:
  assumes "valid_create_task_request req"
  shows "\<exists>p c. parse_priority (ctr_priority (create_task_defaults req)) = Some p \<and>
           parse_category (ctr_category (create_task_defaults req)) = Some c"
proof -
  have "parse_priority (ctr_priority (create_task_defaults req)) \<noteq> None"
    using assms by (cases "ctr_priority req = []")
      (simp_all add: valid_create_task_request_def create_task_defaults_def parse_priority_def)
  moreover have "parse_category (ctr_category (create_task_defaults req)) \<noteq> None"
    using assms by (cases "ctr_category req = []")
      (simp_all add: valid_create_task_request_def create_task_defaults_def parse_category_def)
  ultimately show ?thesis by auto
qed

text \<open>Well-formed tables stay well-formed under each handler.\<close>

lemma row_result_state:
  assumes "\<And>d' rs. x = Some (d', rs) \<Longrightarrow> Q d'" and "Q d"
  shows "Q (fst (case x of None \<Rightarrow> (d, a) | Some (d', []) \<Rightarrow> (d', b)
           | Some (d', t # _) \<Rightarrow> (d', c t)))"
  using assms by (cases x) (auto split: list.split)

lemma bind_update_wf:
  assumes "db_wf d" and "Option.bind (task_key tid u) (\<lambda>P. sql_update_tasks d P f) = Some (d', rs)"
    and "\<And>t. task_id (f t) = task_id t"
  shows "db_wf d'"
proof -
  obtain P where "sql_update_tasks d P f = Some (d', rs)"
    using assms(2) by (auto simp: bind_eq_Some_conv)
  with assms(1) show ?thesis using assms(3) by (rule sql_update_tasks_wf)
qed

lemma insert_task_row_wf:
  assumes "db_wf d" and "insert_task_row d now u req = Some (d', t)"
  shows "db_wf d'"
  using assms(2) unfolding insert_task_row_def
  by (auto split: option.splits intro: sql_insert_task_wf [OF assms(1)])

lemma create_task_wf: "db_wf d \<Longrightarrow> db_wf (fst (create_task d now u body))"
  by (auto simp: create_task_def split: option.splits intro: insert_task_row_wf)

lemma update_task_wf:
  assumes "db_wf d"
  shows "db_wf (fst (update_task d now u tid body))"
proof (cases body)
  case None
  with assms show ?thesis by (simp add: update_task_def)
next
  case (Some r)
  show ?thesis
  proof (cases "valid_update_task_request r")
    case True
    have "db_wf d'"
      if "Option.bind (task_key tid u) (\<lambda>P. sql_update_tasks d P (apply_update r now)) = Some (d', rs)"
      for d' rs
      using assms that by (rule bind_update_wf) simp
    then show ?thesis
      unfolding Some update_task_valid [OF True] using assms by (rule row_result_state [where Q = db_wf])
  next
    case False
    with Some assms show ?thesis by (simp add: update_task_def)
  qed
qed

lemma toggle_complete_wf:
  assumes "db_wf d"
  shows "db_wf (fst (toggle_complete d now u tid))"
proof -
  have "db_wf d'"
    if "Option.bind (task_key tid u) (\<lambda>P. sql_update_tasks d P (toggle_row now)) = Some (d', rs)"
    for d' rs
    using assms that by (rule bind_update_wf) simp
  then show ?thesis
    unfolding toggle_complete_def using assms by (rule row_result_state [where Q = db_wf])
qed

lemma delete_task_wf:
  assumes "db_wf d"
  shows "db_wf (fst (delete_task d u tid))"
proof (cases "Option.bind (task_key tid u) (sql_delete_tasks d)")
  case None
  with assms show ?thesis by (simp add: delete_task_def)
next
  case (Some r)
  then obtain d' n P where r: "r = (d', n)" and "sql_delete_tasks d P = Some (d', n)"
    by (cases r) (auto simp: bind_eq_Some_conv)
  with assms have "db_wf d'" by (blast intro: sql_delete_tasks_wf)
  with Some r show ?thesis by (simp add: delete_task_def)
qed

text \<open>The one-pass statistics are the five counts.\<close>

lemma stats_of_counts:
  "stats_of now ts =
     \<lparr>total = length ts, completed = length (filter is_completed ts),
      pending = length (filter (\<lambda>t. \<not> is_completed t) ts),
      high_priority = length (filter (\<lambda>t. priority t = PriorityHigh) ts),
      overdue = length (filter (\<lambda>t. \<not> is_completed t \<and> overdue_at now t) ts)\<rparr>"
  by (induction ts) (simp_all add: stats_of_def stats_step_def)

lemma priority_value_high [simp]: "priority_value p = ''high'' \<longleftrightarrow> p = PriorityHigh"
  by (cases p) simp_all

end
