(* ===== verification/Base64.thy ===== *)
theory Base64
  imports Prelude
begin

text \<open>
  \<open>encoding/base64.RawURLEncoding\<close>, the segment encoding of \<open>golang-jwt\<close>
  (\<open>EncodeSegment\<close>/\<open>DecodeSegment\<close>): the URL-safe alphabet, no padding. Three bytes
  become four characters; a final one or two bytes become two or three characters. The
  decoder ignores carriage returns and line feeds, refuses any other character outside
  the alphabet and a final group of one character, and (not being \<open>Strict\<close>) ignores
  the unused low bits of the last character.
\<close>

definition b64_char :: "nat \<Rightarrow> char" where
  "b64_char n =
     (if n < 26 then char_of (65 + n) else if n < 52 then char_of (71 + n)
      else if n < 62 then char_of (n - 4) else if n = 62 then CHR ''-'' else CHR ''_'')"

definition b64_val :: "char \<Rightarrow> nat option" where
  "b64_val c =
     (let k = (of_char c :: nat) in
      if 65 \<le> k \<and> k \<le> 90 then Some (k - 65) else if 97 \<le> k \<and> k \<le> 122 then Some (k - 71)
      else if 48 \<le> k \<and> k \<le> 57 then Some (k + 4) else if k = 45 then Some 62
      else if k = 95 then Some 63 else None)"

text \<open>\<open>encodeQuantum\<close>: the 6-bit values of a group.\<close>

fun b64_sextets :: "string \<Rightarrow> nat list" where
  "b64_sextets (a # b # c # rest) =
     (let x = (of_char a :: nat); y = of_char b; z = of_char c in
      [x div 4, x mod 4 * 16 + y div 16, y mod 16 * 4 + z div 64, z mod 64] @ b64_sextets rest)"
| "b64_sextets [a, b] =
     (let x = (of_char a :: nat); y = of_char b in [x div 4, x mod 4 * 16 + y div 16, y mod 16 * 4])"
| "b64_sextets [a] = (let x = (of_char a :: nat) in [x div 4, x mod 4 * 16])"
| "b64_sextets [] = []"

definition b64_encode :: "string \<Rightarrow> string" where
  "b64_encode s = map b64_char (b64_sextets s)"

fun b64_decode_vals :: "nat list \<Rightarrow> string option" where
  "b64_decode_vals (s0 # s1 # s2 # s3 # rest) =
     map_option ((@) [char_of (s0 * 4 + s1 div 16), char_of (s1 mod 16 * 16 + s2 div 4),
                      char_of (s2 mod 4 * 64 + s3)]) (b64_decode_vals rest)"
| "b64_decode_vals [s0, s1, s2] = Some [char_of (s0 * 4 + s1 div 16), char_of (s1 mod 16 * 16 + s2 div 4)]"
| "b64_decode_vals [s0, s1] = Some [char_of (s0 * 4 + s1 div 16)]"
| "b64_decode_vals [s0] = None"
| "b64_decode_vals [] = Some []"

definition b64_decode :: "string \<Rightarrow> string option" where
  "b64_decode s =
     (let t = filter (\<lambda>c. c \<noteq> CHR 0x0D \<and> c \<noteq> CHR 0x0A) s in
      if list_all (\<lambda>c. b64_val c \<noteq> None) t then b64_decode_vals (map (the \<circ> b64_val) t) else None)"

section \<open>Lemmas\<close>

lemma b64_val_char: "n < 64 \<Longrightarrow> b64_val (b64_char n) = Some n"
  by (auto simp: b64_char_def b64_val_def Let_def)

lemma b64_char_not_newline: "n < 64 \<Longrightarrow> b64_char n \<noteq> CHR 0x0D \<and> b64_char n \<noteq> CHR 0x0A"
  using b64_val_char [of n] by (auto simp: b64_val_def)

lemma b64_char_not_dot: "n < 64 \<Longrightarrow> b64_char n \<noteq> CHR ''.''"
  using b64_val_char [of n] by (auto simp: b64_val_def)

lemma sextet_lt:
  fixes x y :: nat
  assumes "y < 256"
  shows "x mod 4 * 16 + y div 16 < 64" and "x mod 16 * 4 + y div 64 < 64"
proof -
  have "y div 16 < 16" "y div 64 < 4" using assms by (simp_all add: div_less_iff_less_mult)
  moreover have "x mod 4 < 4" "x mod 16 < 16" by simp_all
  ultimately show "x mod 4 * 16 + y div 16 < 64" and "x mod 16 * 4 + y div 64 < 64" by linarith+
qed

lemma sextet_lt_last:
  fixes x :: nat
  assumes "x < 256"
  shows "x div 4 < 64" and "x mod 4 * 16 < 64" and "x mod 16 * 4 < 64"
  using assms by (simp_all add: div_less_iff_less_mult)

lemma b64_sextets_lt: "list_all (\<lambda>n. n < 64) (b64_sextets s)"
  by (induction s rule: b64_sextets.induct) (simp_all add: Let_def sextet_lt sextet_lt_last)

lemma decode_arith:
  fixes x y z :: nat
  assumes "y < 256" and "z < 256"
  shows "x div 4 * 4 + (x mod 4 * 16 + y div 16) div 16 = x"
    and "(x mod 4 * 16 + y div 16) mod 16 * 16 + (y mod 16 * 4 + z div 64) div 4 = y"
    and "(y mod 16 * 4 + z div 64) mod 4 * 64 + z mod 64 = z"
proof -
  have "y div 16 < 16" "z div 64 < 4" using assms by (simp_all add: div_less_iff_less_mult)
  then show "x div 4 * 4 + (x mod 4 * 16 + y div 16) div 16 = x"
    and "(x mod 4 * 16 + y div 16) mod 16 * 16 + (y mod 16 * 4 + z div 64) div 4 = y"
    and "(y mod 16 * 4 + z div 64) mod 4 * 64 + z mod 64 = z"
    by (simp_all add: div_mult2_eq [symmetric])
qed

lemma decode_group3:
  fixes x y z :: nat
  assumes "y < 256" and "z < 256"
  shows "b64_decode_vals (x div 4 # (x mod 4 * 16 + y div 16) # (y mod 16 * 4 + z div 64) # z mod 64 # rest) =
         map_option ((@) [char_of x, char_of y, char_of z]) (b64_decode_vals rest)"
  by (simp only: b64_decode_vals.simps decode_arith [OF assms])

lemma decode_group2:
  fixes x y :: nat
  assumes "y < 256"
  shows "b64_decode_vals [x div 4, x mod 4 * 16 + y div 16, y mod 16 * 4] = Some [char_of x, char_of y]"
proof -
  have "y div 16 < 16" using assms by (simp add: div_less_iff_less_mult)
  then have "x div 4 * 4 + (x mod 4 * 16 + y div 16) div 16 = x"
    and "(x mod 4 * 16 + y div 16) mod 16 * 16 + y mod 16 * 4 div 4 = y"
    by simp_all
  then show ?thesis by (simp only: b64_decode_vals.simps)
qed

lemma decode_group1:
  fixes x :: nat
  shows "b64_decode_vals [x div 4, x mod 4 * 16] = Some [char_of x]"
proof -
  have "x div 4 * 4 + x mod 4 * 16 div 16 = x" by simp
  then show ?thesis by (simp only: b64_decode_vals.simps)
qed

lemma b64_decode_vals_sextets: "b64_decode_vals (b64_sextets s) = Some s"
proof (induction s rule: b64_sextets.induct)
  case (1 a b c rest)
  then show ?case by (simp add: Let_def decode_group3 del: b64_decode_vals.simps)
qed (simp_all add: Let_def decode_group2 decode_group1 del: b64_decode_vals.simps(1-4))

theorem b64_decode_encode: "b64_decode (b64_encode s) = Some s"
proof -
  have lt: "\<forall>n \<in> set (b64_sextets s). n < 64" using b64_sextets_lt [of s] by (simp add: list_all_iff)
  then have "filter (\<lambda>c. c \<noteq> CHR 0x0D \<and> c \<noteq> CHR 0x0A) (b64_encode s) = b64_encode s"
    by (auto simp: b64_encode_def b64_char_not_newline)
  moreover have "list_all (\<lambda>c. b64_val c \<noteq> None) (b64_encode s)"
    using lt by (auto simp: b64_encode_def list_all_iff b64_val_char)
  moreover have "map (the \<circ> b64_val) (b64_encode s) = b64_sextets s"
    using lt by (simp add: b64_encode_def map_idI b64_val_char)
  ultimately show ?thesis by (simp add: b64_decode_def b64_decode_vals_sextets)
qed

lemma b64_encode_alphabet: "c \<in> set (b64_encode s) \<Longrightarrow> b64_val c \<noteq> None"
proof -
  assume "c \<in> set (b64_encode s)"
  then obtain n where "n \<in> set (b64_sextets s)" and c: "c = b64_char n" by (auto simp: b64_encode_def)
  then have "n < 64" using b64_sextets_lt [of s] by (simp add: list_all_iff)
  then show ?thesis by (simp add: c b64_val_char)
qed

lemma b64_encode_no_dot: "CHR ''.'' \<notin> set (b64_encode s)"
  using b64_encode_alphabet by (force simp: b64_val_def)

lemma b64_encode_no_space: "CHR '' '' \<notin> set (b64_encode s)"
  using b64_encode_alphabet by (force simp: b64_val_def)

lemma length_b64_sextets: "length (b64_sextets s) = (4 * length s + 2) div 3"
  by (induction s rule: b64_sextets.induct) (simp_all add: Let_def)

end
