(* ===== verification/Json.thy ===== *)
theory Json
  imports Prelude "HOL-Library.List_Lexorder" "HOL-Library.Char_ord"
begin

text \<open>
  \<open>encoding/json\<close> as \<open>golang-jwt\<close> uses it for \<open>MapClaims\<close> and the token header.
  \<^item> Printing (\<open>json.Marshal\<close> of a \<open>map[string]interface{}\<close>): keys in byte order, no
    spaces, integers in decimal; in strings, quote and backslash are escaped by a
    backslash, the control bytes 8, 12, 10, 13 and 9 as the letters b, f, n, r, t, the other
    control bytes and the characters \<open><\<close>, \<open>>\<close>, \<open>&\<close> as a \<open>u00XX\<close> escape with lower-case hex
    digits, and U+2028 and U+2029 as \<open>u2028\<close> and \<open>u2029\<close> escapes (Go 1.22).
  \<^item> Parsing (\<open>json.Unmarshal\<close> into a \<open>map[string]interface{}\<close>): white space between
    tokens; the escapes the scanner accepts (quote, backslash, slash, b, f, n, r, t and
    \<open>uXXXX\<close>), the last decoded to UTF-8, surrogate pairs combined and a lone surrogate read
    as U+FFFD; a control byte inside a string refused; a later duplicate key overriding an
    earlier one (\<open>json_get\<close>); a top-level \<open>null\<close> read as the empty map.
  Restrictions of the model: strings are taken to be valid UTF-8 (both sides copy bytes
  of 128 and above, where Go would replace an invalid sequence by U+FFFD); numbers are
  integers (a fraction or an exponent, which Go reads as a \<open>float64\<close>, and a nested
  object or array are not read: the parser answers \<open>None\<close>).
\<close>

datatype jval = JStr string | JNum int | JBool bool | JNull

type_synonym jobj = "(string \<times> jval) list"

definition json_get :: "jobj \<Rightarrow> string \<Rightarrow> jval option" where
  "json_get m k = map_of (rev m) k"

section \<open>Printing\<close>

definition hex_char :: "nat \<Rightarrow> char" where
  "hex_char n = (if n < 10 then char_of (48 + n) else char_of (87 + n))"

definition u_escape :: "nat \<Rightarrow> string" where
  "u_escape k = [CHR 0x5C, CHR ''u'', hex_char (k div 4096), hex_char (k div 256 mod 16),
                 hex_char (k div 16 mod 16), hex_char (k mod 16)]"

definition json_escape_char :: "char \<Rightarrow> string" where
  "json_escape_char c =
     (let k = (of_char c :: nat) in
      if c = CHR 0x22 \<or> c = CHR 0x5C then [CHR 0x5C, c]
      else if k = 8 then [CHR 0x5C, CHR ''b''] else if k = 12 then [CHR 0x5C, CHR ''f'']
      else if k = 10 then [CHR 0x5C, CHR ''n''] else if k = 13 then [CHR 0x5C, CHR ''r'']
      else if k = 9 then [CHR 0x5C, CHR ''t'']
      else if k < 32 \<or> c = CHR ''<'' \<or> c = CHR ''>'' \<or> c = CHR ''&'' then u_escape k
      else [c])"

fun json_escape :: "string \<Rightarrow> string" where
  "json_escape [] = []"
| "json_escape (c # s) =
     (if c = CHR 0xE2 \<and> take 2 s = [CHR 0x80, CHR 0xA8] then u_escape 0x2028 @ json_escape (drop 2 s)
      else if c = CHR 0xE2 \<and> take 2 s = [CHR 0x80, CHR 0xA9] then u_escape 0x2029 @ json_escape (drop 2 s)
      else json_escape_char c @ json_escape s)"

definition json_string :: "string \<Rightarrow> string" where
  "json_string s = CHR 0x22 # json_escape s @ [CHR 0x22]"

definition json_int :: "int \<Rightarrow> string" where
  "json_int i = (if i < 0 then CHR ''-'' # go_itoa (nat (- i)) else go_itoa (nat i))"

fun json_val_text :: "jval \<Rightarrow> string" where
  "json_val_text (JStr s) = json_string s"
| "json_val_text (JNum i) = json_int i"
| "json_val_text (JBool b) = (if b then ''true'' else ''false'')"
| "json_val_text JNull = ''null''"

definition json_member_text :: "string \<times> jval \<Rightarrow> string" where
  "json_member_text kv = json_string (fst kv) @ '':'' @ json_val_text (snd kv)"

text \<open>\<open>mapEncoder\<close>: a comma before every member but the first.\<close>

fun json_members_text :: "jobj \<Rightarrow> string" where
  "json_members_text [] = []"
| "json_members_text [kv] = json_member_text kv"
| "json_members_text (kv # kvs) = json_member_text kv @ '','' @ json_members_text kvs"

definition json_obj :: "jobj \<Rightarrow> string" where
  "json_obj m = ''{'' @ json_members_text (sort_key fst m) @ ''}''"

section \<open>Parsing\<close>

definition json_ws :: "char \<Rightarrow> bool" where
  "json_ws c \<longleftrightarrow> c = CHR '' '' \<or> c = CHR 0x09 \<or> c = CHR 0x0A \<or> c = CHR 0x0D"

definition skip_ws :: "string \<Rightarrow> string" where
  "skip_ws s = dropWhile json_ws s"

definition hex_val :: "char \<Rightarrow> nat option" where
  "hex_val c =
     (let k = (of_char c :: nat) in
      if 48 \<le> k \<and> k \<le> 57 then Some (k - 48) else if 97 \<le> k \<and> k \<le> 102 then Some (k - 87)
      else if 65 \<le> k \<and> k \<le> 70 then Some (k - 55) else None)"

definition read_hex4 :: "string \<Rightarrow> (nat \<times> string) option" where
  "read_hex4 s =
     (if 4 \<le> length s \<and> list_all (\<lambda>c. hex_val c \<noteq> None) (take 4 s)
      then Some (foldl (\<lambda>a c. 16 * a + the (hex_val c)) 0 (take 4 s), drop 4 s) else None)"

definition utf8_encode :: "nat \<Rightarrow> string" where
  "utf8_encode cp =
     (if cp < 0x80 then [char_of cp]
      else if cp < 0x800 then [char_of (0xC0 + cp div 64), char_of (0x80 + cp mod 64)]
      else if cp < 0x10000 then
        [char_of (0xE0 + cp div 4096), char_of (0x80 + cp div 64 mod 64), char_of (0x80 + cp mod 64)]
      else [char_of (0xF0 + cp div 262144), char_of (0x80 + cp div 4096 mod 64),
            char_of (0x80 + cp div 64 mod 64), char_of (0x80 + cp mod 64)])"

text \<open>The text after a backslash and \<open>u\<close>: one code unit, or a surrogate pair.\<close>

definition unicode_escape :: "string \<Rightarrow> (string \<times> string) option" where
  "unicode_escape s =
     (case read_hex4 s of
        None \<Rightarrow> None
      | Some (cp, r) \<Rightarrow>
          if cp < 0xD800 \<or> 0xE000 \<le> cp then Some (utf8_encode cp, r)
          else if cp < 0xDC00 \<and> take 2 r = [CHR 0x5C, CHR ''u'']
          then (case read_hex4 (drop 2 r) of
                  Some (cp2, r2) \<Rightarrow>
                    if 0xDC00 \<le> cp2 \<and> cp2 < 0xE000
                    then Some (utf8_encode (0x10000 + (cp - 0xD800) * 1024 + (cp2 - 0xDC00)), r2)
                    else Some (utf8_encode 0xFFFD, r)
                | None \<Rightarrow> Some (utf8_encode 0xFFFD, r))
          else Some (utf8_encode 0xFFFD, r))"

definition simple_escape :: "char \<Rightarrow> char option" where
  "simple_escape e =
     (if e = CHR 0x22 \<or> e = CHR 0x5C \<or> e = CHR ''/'' then Some e
      else if e = CHR ''b'' then Some (CHR 0x08) else if e = CHR ''f'' then Some (CHR 0x0C)
      else if e = CHR ''n'' then Some (CHR 0x0A) else if e = CHR ''r'' then Some (CHR 0x0D)
      else if e = CHR ''t'' then Some (CHR 0x09) else None)"

lemma read_hex4_shorter: "read_hex4 s = Some (n, r) \<Longrightarrow> length r < length s"
  by (auto simp: read_hex4_def split: if_splits)

lemma unicode_escape_shorter: "unicode_escape s = Some (u, r) \<Longrightarrow> length r < length s"
  by (auto simp: unicode_escape_def split: option.splits if_splits prod.splits
      dest!: read_hex4_shorter)

text \<open>The body of a string after its opening quote: the decoded text and the rest after
  the closing quote.\<close>

function json_str_body :: "string \<Rightarrow> (string \<times> string) option" where
  "json_str_body [] = None"
| "json_str_body (c # r) =
     (if c = CHR 0x22 then Some ([], r)
      else if c = CHR 0x5C then
        (case r of
           [] \<Rightarrow> None
         | e # r' \<Rightarrow>
             if e = CHR ''u'' then
               (case unicode_escape r' of
                  None \<Rightarrow> None
                | Some (u, r'') \<Rightarrow> map_option (\<lambda>(x, z). (u @ x, z)) (json_str_body r''))
             else (case simple_escape e of
                     None \<Rightarrow> None
                   | Some d \<Rightarrow> map_option (\<lambda>(x, z). (d # x, z)) (json_str_body r')))
      else if (of_char c :: nat) < 32 then None
      else map_option (\<lambda>(x, z). (c # x, z)) (json_str_body r))"
  by pat_completeness auto
termination
  by (relation "measure length") (auto dest: unicode_escape_shorter)

text \<open>A number: an optional minus sign and digits without a leading zero; a fraction or
  an exponent is outside the model.\<close>

definition json_number :: "string \<Rightarrow> (int \<times> string) option" where
  "json_number s =
     (let neg = (take 1 s = ''-''); t = (if neg then drop 1 s else s);
          ds = takeWhile is_digit t; r = dropWhile is_digit t
      in if ds = [] \<or> (hd ds = CHR ''0'' \<and> 1 < length ds) then None
         else if r \<noteq> [] \<and> (hd r = CHR ''.'' \<or> hd r = CHR ''e'' \<or> hd r = CHR ''E'') then None
         else Some (if neg then - int (digits_val ds) else int (digits_val ds), r))"

definition json_value :: "string \<Rightarrow> (jval \<times> string) option" where
  "json_value s =
     (case s of
        [] \<Rightarrow> None
      | c # r \<Rightarrow>
          if c = CHR 0x22 then map_option (\<lambda>(x, z). (JStr x, z)) (json_str_body r)
          else if c = CHR ''-'' \<or> is_digit c then map_option (\<lambda>(i, z). (JNum i, z)) (json_number s)
          else if prefix ''true'' s then Some (JBool True, drop 4 s)
          else if prefix ''false'' s then Some (JBool False, drop 5 s)
          else if prefix ''null'' s then Some (JNull, drop 4 s)
          else None)"

lemma length_skip_ws: "length (skip_ws s) \<le> length s"
  by (simp add: skip_ws_def length_dropWhile_le)

lemma json_str_body_shorter: "json_str_body s = Some (x, rest) \<Longrightarrow> length rest < length s"
proof (induction s arbitrary: x rest rule: json_str_body.induct)
  case (2 c r)
  show ?case
  proof (cases "c = CHR 0x22 \<or> c \<noteq> CHR 0x5C")
    case True
    with "2.prems" show ?thesis
      by (auto split: if_splits dest: "2.IH"(3))
  next
    case False
    then have c: "c = CHR 0x5C" by simp
    with "2.prems" obtain e r' where r: "r = e # r'" by (cases r) auto
    show ?thesis
    proof (cases "e = CHR ''u''")
      case True
      with "2.prems" c r obtain u r'' y where ue: "unicode_escape r' = Some (u, r'')"
        and b: "json_str_body r'' = Some (y, rest)"
        by (auto split: option.splits)
      have "length rest < length r''" using "2.IH"(1) [OF _ c r True ue refl b] c by simp
      with unicode_escape_shorter [OF ue] r show ?thesis by simp
    next
      case False
      with "2.prems" c r obtain d y where se: "simple_escape e = Some d"
        and b: "json_str_body r' = Some (y, rest)"
        by (auto split: option.splits)
      have "length rest < length r'" using "2.IH"(2) [OF _ c r False se b] c by simp
      with r show ?thesis by simp
    qed
  qed
qed simp

lemma json_number_shorter: "json_number s = Some (i, r) \<Longrightarrow> length r < length s"
proof -
  assume a: "json_number s = Some (i, r)"
  let ?t = "if take 1 s = ''-'' then drop 1 s else s"
  have t: "length ?t \<le> length s" by simp
  from a have ne: "takeWhile is_digit ?t \<noteq> []" and r: "r = dropWhile is_digit ?t"
    by (auto simp: json_number_def Let_def split: if_splits)
  have "length (takeWhile is_digit ?t) + length (dropWhile is_digit ?t) = length ?t"
    by (metis length_append takeWhile_dropWhile_id)
  with ne r t show ?thesis by (cases "takeWhile is_digit ?t") auto
qed

lemma json_value_shorter: "json_value s = Some (v, r) \<Longrightarrow> length r < length s"
  by (auto simp: json_value_def prefix_def split: list.splits if_splits option.splits
      dest!: json_str_body_shorter json_number_shorter)

lemma members_rest_shorter:
  assumes "skip_ws s = c # r" and "json_str_body r = Some (k, r1)" and "skip_ws r1 = d # r2"
    and "json_value (skip_ws r2) = Some (v, r3)" and "skip_ws r3 = e # r4"
  shows "length r4 < length s"
proof -
  have "length (c # r) \<le> length s" using length_skip_ws [of s] assms(1) by simp
  moreover have "length r1 < length r" using assms(2) by (rule json_str_body_shorter)
  moreover have "length (d # r2) \<le> length r1" using length_skip_ws [of r1] assms(3) by simp
  moreover have "length r3 < length (skip_ws r2)" using assms(4) by (rule json_value_shorter)
  moreover have "length (skip_ws r2) \<le> length r2" by (rule length_skip_ws)
  moreover have "length (e # r4) \<le> length r3" using length_skip_ws [of r3] assms(5) by simp
  ultimately show ?thesis by simp
qed

text \<open>The members of an object after its opening brace, up to and including the closing
  brace, which must end the text.\<close>

function json_members :: "string \<Rightarrow> jobj option" where
  "json_members s =
     (case skip_ws s of
        [] \<Rightarrow> None
      | c # r \<Rightarrow>
          if c \<noteq> CHR 0x22 then None
          else (case json_str_body r of
                  None \<Rightarrow> None
                | Some (k, r1) \<Rightarrow>
                    (case skip_ws r1 of
                       [] \<Rightarrow> None
                     | d # r2 \<Rightarrow>
                         if d \<noteq> CHR '':'' then None
                         else (case json_value (skip_ws r2) of
                                 None \<Rightarrow> None
                               | Some (v, r3) \<Rightarrow>
                                   (case skip_ws r3 of
                                      [] \<Rightarrow> None
                                    | e # r4 \<Rightarrow>
                                        if e = CHR '','' then map_option ((#) (k, v)) (json_members r4)
                                        else if e = CHR ''}'' \<and> skip_ws r4 = [] then Some [(k, v)]
                                        else None)))))"
  by pat_completeness auto
termination
  by (relation "measure length") (auto intro: members_rest_shorter)

definition json_parse_obj :: "string \<Rightarrow> jobj option" where
  "json_parse_obj s =
     (if skip_ws s = ''null'' then Some []
      else case skip_ws s of
        [] \<Rightarrow> None
      | c # r \<Rightarrow>
          if c \<noteq> CHR ''{'' then None
          else (case skip_ws r of
                  [] \<Rightarrow> None
                | d # r' \<Rightarrow> if d = CHR ''}'' then (if skip_ws r' = [] then Some [] else None)
                            else json_members r))"

section \<open>Lemmas: reading back what is printed\<close>

lemma hex_val_hex_char: "n < 16 \<Longrightarrow> hex_val (hex_char n) = Some n"
  by (auto simp: hex_char_def hex_val_def Let_def)

lemma hex4_arith:
  fixes k :: nat
  shows "4096 * (k div 4096) + 256 * (k div 256 mod 16) + 16 * (k div 16 mod 16) + k mod 16 = k"
proof -
  have "k mod 256 = 16 * (k div 16 mod 16) + k mod 16" using mod_mult2_eq [of k 16 16] by simp
  moreover have "k mod 4096 = 256 * (k div 256 mod 16) + k mod 256" using mod_mult2_eq [of k 256 16] by simp
  moreover have "4096 * (k div 4096) + k mod 4096 = k" by simp
  ultimately show ?thesis by linarith
qed

lemma read_hex4_u_escape:
  assumes "k < 65536"
  shows "read_hex4 (drop 2 (u_escape k) @ t) = Some (k, t)"
proof -
  have lt: "k div 4096 < 16" using assms by (simp add: div_less_iff_less_mult)
  have "list_all (\<lambda>c. hex_val c \<noteq> None)
          [hex_char (k div 4096), hex_char (k div 256 mod 16), hex_char (k div 16 mod 16), hex_char (k mod 16)]"
    using lt by (simp add: hex_val_hex_char)
  with lt assms show ?thesis
    by (simp add: read_hex4_def u_escape_def hex_val_hex_char hex4_arith)
qed

lemma utf8_encode_ascii: "k < 128 \<Longrightarrow> utf8_encode k = [char_of k]"
  by (simp add: utf8_encode_def)

lemma unicode_escape_u_escape:
  assumes "k < 0xD800"
  shows "unicode_escape (drop 2 (u_escape k) @ t) = Some (utf8_encode k, t)"
  using assms by (simp add: unicode_escape_def read_hex4_u_escape)

lemma u_escape_Cons: "u_escape k = CHR 0x5C # CHR ''u'' # drop 2 (u_escape k)"
  by (simp add: u_escape_def)

lemma json_str_body_u_escape:
  assumes "k < 0xD800"
  shows "json_str_body (u_escape k @ t) = map_option (\<lambda>(x, z). (utf8_encode k @ x, z)) (json_str_body t)"
proof -
  have "json_str_body (u_escape k @ t) = json_str_body (CHR 0x5C # CHR ''u'' # (drop 2 (u_escape k) @ t))"
    by (subst u_escape_Cons) simp
  also have "\<dots> = map_option (\<lambda>(x, z). (utf8_encode k @ x, z)) (json_str_body t)"
    using assms by (simp add: unicode_escape_u_escape)
  finally show ?thesis .
qed

lemma char_of_eq: "(of_char c :: nat) = n \<Longrightarrow> char_of n = c"
  by (metis char_of_char)

lemma utf8_encode_line_separators:
  "utf8_encode 0x2028 = [CHR 0xE2, CHR 0x80, CHR 0xA8]"
  "utf8_encode 0x2029 = [CHR 0xE2, CHR 0x80, CHR 0xA9]"
proof -
  have "char_of (226::nat) = CHR 0xE2" "char_of (128::nat) = CHR 0x80"
    "char_of (168::nat) = CHR 0xA8" "char_of (169::nat) = CHR 0xA9"
    by (rule char_of_eq; simp)+
  then show "utf8_encode 0x2028 = [CHR 0xE2, CHR 0x80, CHR 0xA8]"
    "utf8_encode 0x2029 = [CHR 0xE2, CHR 0x80, CHR 0xA9]"
    by (simp_all add: utf8_encode_def)
qed

lemma prepend_apfst [simp]: "(\<lambda>(x, z). (u @ x, z)) = apfst ((@) u)"
  by (auto simp: fun_eq_iff)

lemma cons_apfst [simp]: "(\<lambda>(x, z). (c # x, z)) = apfst ((#) c)"
  by (auto simp: fun_eq_iff)

lemma map_option_apfst_append:
  "map_option (apfst ((@) a)) (map_option (apfst ((@) b)) y) = map_option (apfst ((@) (a @ b))) y"
  by (cases y) auto

lemma json_str_body_plain:
  assumes "c \<noteq> CHR 0x22" and "c \<noteq> CHR 0x5C" and "32 \<le> (of_char c :: nat)"
  shows "json_str_body (c # t) = map_option (apfst ((#) c)) (json_str_body t)"
  using assms by (simp add: cons_apfst)

lemma json_str_body_simple:
  assumes "simple_escape e = Some d" and "e \<noteq> CHR ''u''"
  shows "json_str_body (CHR 0x5C # e # t) = map_option (apfst ((#) d)) (json_str_body t)"
  using assms by (simp add: cons_apfst)

lemma control_chars:
  "char_of (8::nat) = CHR 0x08" "char_of (9::nat) = CHR 0x09" "char_of (10::nat) = CHR 0x0A"
  "char_of (12::nat) = CHR 0x0C" "char_of (13::nat) = CHR 0x0D"
  by (rule char_of_eq; simp)+

lemma json_str_body_escape_char:
  "json_str_body (json_escape_char c @ t) = map_option (apfst ((#) c)) (json_str_body t)"
proof -
  define k where "k = (of_char c :: nat)"
  have ck: "char_of k = c" by (simp add: k_def)
  have k256: "k < 256" by (simp add: k_def)
  show ?thesis
  proof (cases "c = CHR 0x22 \<or> c = CHR 0x5C")
    case True
    then have "simple_escape c = Some c" by (auto simp: simple_escape_def)
    with True show ?thesis by (auto simp: json_escape_char_def json_str_body_simple cons_apfst)
  next
    case nq: False
    show ?thesis
    proof (cases "k \<in> {8, 9, 10, 12, 13}")
      case True
      then have "\<exists>e. json_escape_char c = [CHR 0x5C, e] \<and> e \<noteq> CHR ''u'' \<and> simple_escape e = Some c"
        using nq ck by (auto simp: json_escape_char_def Let_def k_def [symmetric] simple_escape_def
            control_chars)
      then show ?thesis by (auto simp: json_str_body_simple cons_apfst)
    next
      case nc: False
      show ?thesis
      proof (cases "k < 32 \<or> c = CHR ''<'' \<or> c = CHR ''>'' \<or> c = CHR ''&''")
        case True
        then have "k < 128" by (auto simp: k_def)
        moreover have "json_escape_char c = u_escape k"
          using nq nc True by (auto simp: json_escape_char_def Let_def k_def [symmetric])
        ultimately show ?thesis
          using ck by (simp add: json_str_body_u_escape utf8_encode_ascii prepend_apfst cons_apfst)
      next
        case False
        then have "json_escape_char c = [c]" and "32 \<le> k"
          using nq nc by (auto simp: json_escape_char_def Let_def k_def [symmetric])
        with nq show ?thesis by (simp add: json_str_body_plain k_def)
      qed
    qed
  qed
qed

lemma map_option_apfst_cons:
  "map_option (apfst ((#) c)) (map_option (apfst ((@) a)) y) = map_option (apfst ((@) (c # a))) y"
  by (cases y) auto

lemma json_str_body_separator:
  assumes "k = 0x2028 \<or> k = 0x2029"
  shows "json_str_body (u_escape k @ t) = map_option (apfst ((@) (utf8_encode k))) (json_str_body t)"
  using assms json_str_body_u_escape [of k t] by auto

lemma take2_split: "take 2 s = [a, b] \<Longrightarrow> s = a # b # drop 2 s"
  by (metis append_Cons append_Nil append_take_drop_id)

lemma json_str_body_escape:
  "json_str_body (json_escape s @ t) = map_option (apfst ((@) s)) (json_str_body t)"
proof (induction s rule: json_escape.induct)
  case 1
  show ?case by (cases "json_str_body t") auto
next
  case (2 c s)
  show ?case
  proof (cases "c = CHR 0xE2 \<and> take 2 s = [CHR 0x80, CHR 0xA8]")
    case True
    then have s: "c # s = utf8_encode 0x2028 @ drop 2 s"
      by (auto simp: utf8_encode_line_separators dest: take2_split)
    have "json_str_body (json_escape (c # s) @ t) = json_str_body (u_escape 0x2028 @ (json_escape (drop 2 s) @ t))"
      using True by simp
    also have "\<dots> = map_option (apfst ((@) (utf8_encode 0x2028))) (map_option (apfst ((@) (drop 2 s))) (json_str_body t))"
      using "2.IH"(1) [OF True] by (simp add: json_str_body_separator)
    also have "\<dots> = map_option (apfst ((@) (c # s))) (json_str_body t)"
      by (simp only: map_option_apfst_append s)
    finally show ?thesis .
  next
    case n1: False
    show ?thesis
    proof (cases "c = CHR 0xE2 \<and> take 2 s = [CHR 0x80, CHR 0xA9]")
      case True
      then have s: "c # s = utf8_encode 0x2029 @ drop 2 s"
        by (auto simp: utf8_encode_line_separators dest: take2_split)
      have "json_str_body (json_escape (c # s) @ t) = json_str_body (u_escape 0x2029 @ (json_escape (drop 2 s) @ t))"
        using n1 True by auto
      also have "\<dots> = map_option (apfst ((@) (utf8_encode 0x2029))) (map_option (apfst ((@) (drop 2 s))) (json_str_body t))"
        using "2.IH"(2) [OF n1 True] by (simp add: json_str_body_separator)
      also have "\<dots> = map_option (apfst ((@) (c # s))) (json_str_body t)"
        by (simp only: map_option_apfst_append s)
      finally show ?thesis .
    next
      case n2: False
      have "json_escape (c # s) = json_escape_char c @ json_escape s"
        by (simp only: json_escape.simps n1 n2 if_False)
      then have "json_str_body (json_escape (c # s) @ t) = json_str_body (json_escape_char c @ (json_escape s @ t))"
        by simp
      also have "\<dots> = map_option (apfst ((#) c)) (map_option (apfst ((@) s)) (json_str_body t))"
        using "2.IH"(3) [OF n1 n2] by (simp add: json_str_body_escape_char)
      also have "\<dots> = map_option (apfst ((@) (c # s))) (json_str_body t)"
        by (rule map_option_apfst_cons)
      finally show ?thesis .
    qed
  qed
qed

lemma json_str_body_string:
  "json_str_body (tl (json_string s) @ t) = Some (s, t)"
  using json_str_body_escape [of s "CHR 0x22 # t"] by (simp add: json_string_def)

definition num_stop :: "string \<Rightarrow> bool" where
  "num_stop t \<longleftrightarrow> t = [] \<or> (\<not> is_digit (hd t) \<and> hd t \<noteq> CHR ''.'' \<and> hd t \<noteq> CHR ''e'' \<and> hd t \<noteq> CHR ''E'')"

lemma go_itoa_hd: "n \<noteq> 0 \<Longrightarrow> hd (go_itoa n) \<noteq> CHR ''0''"
proof (induction n rule: go_itoa.induct)
  case (1 n)
  show ?case
  proof (cases "n < 10")
    case True
    have "digit_val (digit_char n) = n" using True by simp
    moreover have "digit_val CHR ''0'' = 0" by (simp add: digit_val_def)
    ultimately have "digit_char n \<noteq> CHR ''0''" using "1.prems" by metis
    with True show ?thesis by (simp add: go_itoa_small)
  next
    case False
    then have "n div 10 \<noteq> 0" by simp
    with "1.IH" False show ?thesis by (subst go_itoa.simps) simp
  qed
qed

lemma go_itoa_zero: "go_itoa 0 = ''0''"
  by (simp add: go_itoa_small)

lemma go_itoa_digits_split:
  assumes "num_stop t"
  shows "takeWhile is_digit (go_itoa n @ t) = go_itoa n" and "dropWhile is_digit (go_itoa n @ t) = t"
proof -
  have all: "\<forall>c \<in> set (go_itoa n). is_digit c" by (auto dest: go_itoa_digits)
  have "takeWhile is_digit t = [] \<and> dropWhile is_digit t = t"
    using assms by (cases t) (auto simp: num_stop_def)
  with all show "takeWhile is_digit (go_itoa n @ t) = go_itoa n" and "dropWhile is_digit (go_itoa n @ t) = t"
    by (simp_all add: takeWhile_append2 dropWhile_append2)
qed

lemma go_itoa_no_leading_zero: "\<not> (hd (go_itoa n) = CHR ''0'' \<and> 1 < length (go_itoa n))"
proof (cases "n = 0")
  case True
  then show ?thesis by (simp add: go_itoa_zero)
next
  case False
  then show ?thesis using go_itoa_hd [OF False] by simp
qed

lemma go_itoa_hd_not_minus: "take 1 (go_itoa n @ t) \<noteq> ''-''"
proof -
  obtain c r where g: "go_itoa n = c # r" by (cases "go_itoa n") auto
  then have "is_digit c" using go_itoa_digits [of c n] by simp
  then have "c \<noteq> CHR ''-''" by (auto simp: is_digit_def)
  with g show ?thesis by simp
qed

lemma json_number_int:
  assumes "num_stop t"
  shows "json_number (json_int i @ t) = Some (i, t)"
proof (cases "i < 0")
  case True
  then show ?thesis
    using assms go_itoa_no_leading_zero [of "nat (- i)"]
    by (auto simp: json_int_def json_number_def Let_def go_itoa_digits_split num_stop_def)
next
  case False
  then show ?thesis
    using assms go_itoa_no_leading_zero [of "nat i"] go_itoa_hd_not_minus [of "nat i" t]
    by (auto simp: json_int_def json_number_def Let_def go_itoa_digits_split num_stop_def)
qed

lemma json_int_first: "\<exists>c r. json_int i = c # r \<and> (c = CHR ''-'' \<or> is_digit c)"
proof -
  have "\<exists>c r. go_itoa m = c # r \<and> is_digit c" for m
  proof (cases "go_itoa m")
    case (Cons c r)
    then show ?thesis using go_itoa_digits [of c m] by simp
  qed simp
  from this [of "nat i"] this [of "nat (- i)"] show ?thesis by (auto simp: json_int_def)
qed

lemma json_value_text:
  assumes "num_stop t"
  shows "json_value (json_val_text v @ t) = Some (v, t)"
proof (cases v)
  case (JStr s)
  then show ?thesis
    using json_str_body_string [of s t] by (simp add: json_value_def json_string_def)
next
  case (JNum i)
  obtain c r where i: "json_int i = c # r" and c: "c = CHR ''-'' \<or> is_digit c"
    using json_int_first by blast
  have "json_value (json_int i @ t) = map_option (\<lambda>(i, z). (JNum i, z)) (json_number (json_int i @ t))"
    using i c by (auto simp: json_value_def is_digit_def)
  with JNum assms show ?thesis by (simp add: json_number_int)
qed (auto simp: json_value_def prefix_def is_digit_def)

lemma json_val_text_start: "\<exists>c r. json_val_text v = c # r \<and> \<not> json_ws c"
proof (cases v)
  case (JNum i)
  then show ?thesis using json_int_first [of i] by (auto simp: json_ws_def is_digit_def)
qed (auto simp: json_string_def json_ws_def)

lemma skip_ws_Cons: "\<not> json_ws c \<Longrightarrow> skip_ws (c # r) = c # r"
  by (simp add: skip_ws_def)

lemma skip_ws_val_text: "skip_ws (json_val_text v @ t) = json_val_text v @ t"
  using json_val_text_start [of v] by (auto simp: skip_ws_Cons)

lemma num_stop_Cons: "\<not> is_digit c \<Longrightarrow> c \<noteq> CHR ''.'' \<Longrightarrow> c \<noteq> CHR ''e'' \<Longrightarrow> c \<noteq> CHR ''E'' \<Longrightarrow> num_stop (c # t)"
  by (simp add: num_stop_def)

lemma member_parse:
  assumes "num_stop t"
  shows "\<exists>r. json_member_text (k, v) = CHR 0x22 # r \<and>
           json_str_body (r @ t) = Some (k, CHR '':'' # json_val_text v @ t)"
  using json_str_body_string [of k "CHR '':'' # json_val_text v @ t"]
  by (simp add: json_member_text_def json_string_def)

lemma json_members_text_parse:
  assumes "kvs \<noteq> []" and "skip_ws t = []"
  shows "json_members (json_members_text kvs @ CHR ''}'' # t) = Some kvs"
  using assms(1)
proof (induction kvs rule: json_members_text.induct)
  case (2 kv)
  obtain k v where kv: "kv = (k, v)" by (cases kv)
  have stop: "num_stop (CHR ''}'' # t)" by (rule num_stop_Cons) (simp_all add: is_digit_def)
  have "json_value (skip_ws (json_val_text v @ CHR ''}'' # t)) = Some (v, CHR ''}'' # t)"
    using json_value_text [OF stop, of v] by (simp add: skip_ws_val_text)
  moreover obtain r where "json_member_text (k, v) = CHR 0x22 # r"
    and "json_str_body (r @ CHR ''}'' # t) = Some (k, CHR '':'' # json_val_text v @ CHR ''}'' # t)"
    using member_parse [OF stop, of k v] by blast
  ultimately show ?case
    using assms(2) kv by (simp add: skip_ws_Cons json_ws_def)
next
  case (3 kv kv' kvs)
  obtain k v where kv: "kv = (k, v)" by (cases kv)
  let ?rest = "json_members_text (kv' # kvs) @ CHR ''}'' # t"
  have stop: "num_stop (CHR '','' # ?rest)" by (rule num_stop_Cons) (simp_all add: is_digit_def)
  have "json_value (skip_ws (json_val_text v @ CHR '','' # ?rest)) = Some (v, CHR '','' # ?rest)"
    using json_value_text [OF stop, of v] by (simp add: skip_ws_val_text)
  moreover obtain r where "json_member_text (k, v) = CHR 0x22 # r"
    and "json_str_body (r @ CHR '','' # ?rest) = Some (k, CHR '':'' # json_val_text v @ CHR '','' # ?rest)"
    using member_parse [OF stop, of k v] by blast
  ultimately show ?case
    using "3.IH" kv by (simp add: skip_ws_Cons json_ws_def)
qed simp

lemma json_members_text_hd: "kvs \<noteq> [] \<Longrightarrow> \<exists>r. json_members_text kvs = CHR 0x22 # r"
  by (induction kvs rule: json_members_text.induct)
    (auto simp: json_member_text_def json_string_def)

theorem json_parse_obj_print: "json_parse_obj (json_obj m) = Some (sort_key fst m)"
proof (cases "sort_key fst m = []")
  case True
  then show ?thesis by (simp add: json_parse_obj_def json_obj_def skip_ws_def json_ws_def)
next
  case False
  then obtain r where r: "json_members_text (sort_key fst m) = CHR 0x22 # r"
    using json_members_text_hd by blast
  have "skip_ws [] = []" by (simp add: skip_ws_def)
  then have "json_members (json_members_text (sort_key fst m) @ [CHR ''}'']) = Some (sort_key fst m)"
    using json_members_text_parse [OF False] by simp
  with r show ?thesis by (simp add: json_parse_obj_def json_obj_def skip_ws_Cons json_ws_def)
qed

lemma json_get_sorted:
  assumes "distinct (map fst m)"
  shows "json_get (sort_key fst m) = map_of m"
proof -
  have "mset (map fst (rev (sort_key fst m))) = mset (map fst m)" by simp
  then have "distinct (map fst (rev (sort_key fst m)))"
    using assms by (metis mset_eq_imp_distinct_iff)
  moreover have "set (rev (sort_key fst m)) = set m" by simp
  ultimately have "map_of (rev (sort_key fst m)) = map_of m"
    using assms map_of_inject_set [of "rev (sort_key fst m)" m] by simp
  then show ?thesis by (simp add: json_get_def [abs_def])
qed

end
