(* ===== verification/Jwt.thy ===== *)
theory Jwt
  imports Base64 Json
begin

text \<open>
  \<open>github.com/golang-jwt/jwt/v5\<close> as the program uses it: \<open>NewWithClaims\<close> with
  \<open>MapClaims\<close> and \<open>SignedString\<close> in \<open>Login\<close>, \<open>Parse\<close> with a key function in
  \<open>AuthMiddleware\<close>. A token is three base64url segments joined by dots: the JSON header
  \<open>{"alg":..,"typ":"JWT"}\<close>, the JSON claims and the MAC of the first two segments. The
  HMAC itself (\<open>crypto/hmac\<close> over SHA-256/384/512) is the argument \<open>mac\<close> of the model:
  hash, key and message to the digest bytes. \<open>Parse\<close> splits the token into exactly three
  segments, decodes header and claims, looks up the algorithm named by \<open>alg\<close> among the
  registered signing methods, decodes the signature, asks the key function for the key,
  verifies the signature and then validates the claims with the default validator:
  \<open>exp\<close> (optional; a zero \<open>exp\<close> counts as absent) must be after the current time,
  \<open>nbf\<close> (optional) not after it, and neither may be anything but a number; \<open>iat\<close>,
  audience, issuer and subject are not checked. Every failure is an invalid token: the
  middleware does not tell them apart.
\<close>

datatype hmac_alg = HS256 | HS384 | HS512

datatype signing_method = MethodHMAC hmac_alg | MethodOther string

type_synonym hmac_fn = "hmac_alg \<Rightarrow> string \<Rightarrow> string \<Rightarrow> string"

type_synonym keyfunc = "signing_method \<Rightarrow> string option"

primrec alg_name :: "hmac_alg \<Rightarrow> string" where
  "alg_name HS256 = ''HS256''"
| "alg_name HS384 = ''HS384''"
| "alg_name HS512 = ''HS512''"

text \<open>The methods the package registers: HMAC, RSA, RSA-PSS, ECDSA, EdDSA and \<open>none\<close>.\<close>

definition get_signing_method :: "string \<Rightarrow> signing_method option" where
  "get_signing_method alg =
     (if alg = ''HS256'' then Some (MethodHMAC HS256)
      else if alg = ''HS384'' then Some (MethodHMAC HS384)
      else if alg = ''HS512'' then Some (MethodHMAC HS512)
      else if alg \<in> set [''RS256'', ''RS384'', ''RS512'', ''PS256'', ''PS384'', ''PS512'',
                         ''ES256'', ''ES384'', ''ES512'', ''EdDSA'', ''none'']
      then Some (MethodOther alg) else None)"

section \<open>Signing\<close>

definition jwt_header :: "hmac_alg \<Rightarrow> jobj" where
  "jwt_header a = [(''alg'', JStr (alg_name a)), (''typ'', JStr ''JWT'')]"

definition signing_string :: "jobj \<Rightarrow> jobj \<Rightarrow> string" where
  "signing_string hdr claims = b64_encode (json_obj hdr) @ ''.'' @ b64_encode (json_obj claims)"

definition jwt_sign :: "hmac_fn \<Rightarrow> hmac_alg \<Rightarrow> string \<Rightarrow> jobj \<Rightarrow> string" where
  "jwt_sign mac a key claims =
     (let s = signing_string (jwt_header a) claims in s @ ''.'' @ b64_encode (mac a key s))"

section \<open>Parsing and validation\<close>

text \<open>\<open>MapClaims.parseNumericDate\<close>: \<open>None\<close> for a claim of the wrong type, \<open>Some None\<close>
  for an absent (or zero) one.\<close>

definition numeric_date :: "jobj \<Rightarrow> string \<Rightarrow> int option option" where
  "numeric_date c k =
     (case json_get c k of
        None \<Rightarrow> Some None
      | Some (JNum n) \<Rightarrow> Some (if n = 0 then None else Some n)
      | Some _ \<Rightarrow> None)"

definition claims_valid :: "timestamp \<Rightarrow> jobj \<Rightarrow> bool" where
  "claims_valid now c \<longleftrightarrow>
     (case numeric_date c ''exp'' of None \<Rightarrow> False | Some None \<Rightarrow> True | Some (Some e) \<Rightarrow> now < e) \<and>
     (case numeric_date c ''nbf'' of None \<Rightarrow> False | Some None \<Rightarrow> True | Some (Some n) \<Rightarrow> n \<le> now)"

definition jwt_split :: "string \<Rightarrow> (string \<times> string \<times> string) option" where
  "jwt_split tok = (case go_split CHR ''.'' tok of [h, c, s] \<Rightarrow> Some (h, c, s) | _ \<Rightarrow> None)"

definition decode_json_segment :: "string \<Rightarrow> jobj option" where
  "decode_json_segment seg = Option.bind (b64_decode seg) json_parse_obj"

text \<open>The verification step of the method: HMAC compares with the digest it recomputes;
  the other methods need key types the HMAC secret is not, and fail.\<close>

definition verify_signature :: "hmac_fn \<Rightarrow> signing_method \<Rightarrow> string \<Rightarrow> string \<Rightarrow> string \<Rightarrow> bool" where
  "verify_signature mac m key text sig \<longleftrightarrow>
     (case m of MethodHMAC a \<Rightarrow> sig = mac a key text | MethodOther _ \<Rightarrow> False)"

definition jwt_parse :: "hmac_fn \<Rightarrow> keyfunc \<Rightarrow> timestamp \<Rightarrow> string \<Rightarrow> jobj option" where
  "jwt_parse mac kf now tok =
     (case jwt_split tok of
        None \<Rightarrow> None
      | Some (h, c, s) \<Rightarrow>
          (case (decode_json_segment h, decode_json_segment c) of
             (Some hdr, Some claims) \<Rightarrow>
               (case json_get hdr ''alg'' of
                  Some (JStr alg) \<Rightarrow>
                    (case (get_signing_method alg, b64_decode s) of
                       (Some m, Some sig) \<Rightarrow>
                         (case kf m of
                            None \<Rightarrow> None
                          | Some key \<Rightarrow>
                              if verify_signature mac m key (h @ ''.'' @ c) sig \<and> claims_valid now claims
                              then Some claims else None)
                     | _ \<Rightarrow> None)
                | _ \<Rightarrow> None)
           | _ \<Rightarrow> None))"

section \<open>Lemmas\<close>

lemma jwt_split_sign:
  "jwt_split (jwt_sign mac a key claims) =
     Some (b64_encode (json_obj (jwt_header a)), b64_encode (json_obj claims),
           b64_encode (mac a key (signing_string (jwt_header a) claims)))"
  by (simp add: jwt_split_def jwt_sign_def signing_string_def b64_encode_no_dot)

lemma decode_json_segment_encode: "decode_json_segment (b64_encode (json_obj m)) = Some (sort_key fst m)"
  by (simp add: decode_json_segment_def b64_decode_encode json_parse_obj_print)

lemma header_alg: "json_get (sort_key fst (jwt_header a)) ''alg'' = Some (JStr (alg_name a))"
  by (simp add: jwt_header_def json_get_def)

lemma get_signing_method_alg: "get_signing_method (alg_name a) = Some (MethodHMAC a)"
  by (cases a) (simp_all add: get_signing_method_def)

lemma jwt_parse_signed:
  assumes "kf (MethodHMAC a) = Some key"
  shows "jwt_parse mac kf now (jwt_sign mac a key claims) =
     (if claims_valid now (sort_key fst claims) then Some (sort_key fst claims) else None)"
  using assms
  by (simp add: jwt_parse_def jwt_split_sign decode_json_segment_encode header_alg
      get_signing_method_alg b64_decode_encode verify_signature_def signing_string_def)

lemma jwt_sign_no_space: "CHR '' '' \<notin> set (jwt_sign mac a key claims)"
  by (simp add: jwt_sign_def signing_string_def b64_encode_no_space)

text \<open>The validation reads the claims through \<open>json_get\<close> only; after a round trip
  through the encoder that is the lookup in the claims as given.\<close>

lemma numeric_date_sorted:
  "distinct (map fst c) \<Longrightarrow> numeric_date (sort_key fst c) k =
     (case map_of c k of None \<Rightarrow> Some None | Some (JNum n) \<Rightarrow> Some (if n = 0 then None else Some n)
      | Some _ \<Rightarrow> None)"
  by (simp add: numeric_date_def json_get_sorted)

lemma jwt_split_Some: "jwt_split tok = Some (h, c, s) \<Longrightarrow> tok = h @ CHR ''.'' # c @ CHR ''.'' # s"
  by (auto simp: jwt_split_def split: list.splits) (metis go_join.simps(2,3) go_join_split)

text \<open>What an accepted token is: three segments, the last the MAC, under a key the key
  function gives for an HMAC method, of the first two; claims that decode from the second
  and pass validation.\<close>

lemma jwt_parse_Some:
  assumes "jwt_parse mac kf now tok = Some claims"
  shows "\<exists>h c s a key. jwt_split tok = Some (h, c, s) \<and> tok = h @ CHR ''.'' # c @ CHR ''.'' # s \<and>
           kf (MethodHMAC a) = Some key \<and> b64_decode s = Some (mac a key (h @ ''.'' @ c)) \<and>
           decode_json_segment c = Some claims \<and> claims_valid now claims"
proof -
  obtain h c s where sp: "jwt_split tok = Some (h, c, s)"
    using assms by (auto simp: jwt_parse_def split: option.splits)
  from assms sp obtain m sig key where
    c: "decode_json_segment c = Some claims" and sig: "b64_decode s = Some sig"
    and key: "kf m = Some key" and ver: "verify_signature mac m key (h @ ''.'' @ c) sig"
    and valid: "claims_valid now claims"
    by (auto simp: jwt_parse_def split: option.splits jval.splits if_splits)
  from ver obtain a where "m = MethodHMAC a" and "sig = mac a key (h @ ''.'' @ c)"
    by (auto simp: verify_signature_def split: signing_method.splits)
  with sp c sig key valid jwt_split_Some [OF sp] show ?thesis
    by (intro exI [of _ h] exI [of _ c] exI [of _ s] exI [of _ a] exI [of _ key]) simp
qed

text \<open>The header names the algorithm: one that is not HMAC never gets to the signature.\<close>

lemma jwt_parse_alg:
  assumes "jwt_parse mac kf now tok = Some claims" and "jwt_split tok = Some (h, c, s)"
  shows "\<exists>hdr a. decode_json_segment h = Some hdr \<and> json_get hdr ''alg'' = Some (JStr (alg_name a))"
proof -
  from assms obtain hdr alg m where hdr: "decode_json_segment h = Some hdr"
    and alg: "json_get hdr ''alg'' = Some (JStr alg)" and m: "get_signing_method alg = Some m"
    and ver: "\<exists>key sig. verify_signature mac m key (h @ ''.'' @ c) sig"
    by (auto simp: jwt_parse_def split: option.splits jval.splits if_splits) blast
  then obtain a where "m = MethodHMAC a"
    by (cases m) (auto simp: verify_signature_def)
  with m have "alg = alg_name a"
    by (cases a) (auto simp: get_signing_method_def split: if_splits)
  with hdr alg show ?thesis by blast
qed

lemma all_hmac_alg: "(\<forall>a. P a) \<longleftrightarrow> P HS256 \<and> P HS384 \<and> P HS512"
  by (metis hmac_alg.exhaust)

lemma jwt_split_parts:
  assumes "CHR ''.'' \<notin> set h" and "CHR ''.'' \<notin> set c" and "CHR ''.'' \<notin> set s"
  shows "jwt_split (h @ ''.'' @ c @ ''.'' @ s) = Some (h, c, s)"
  using assms by (simp add: jwt_split_def)


end
