(* ===== verification/Middleware.thy ===== *)
theory Middleware
  imports Database Jwt
begin

text \<open>
  \<open>src/internal/middleware/auth_middleware.go\<close>: \<open>AuthMiddleware(jwtSecret, db)\<close>, the gate
  in front of the profile route and the task group. It reads the \<open>Authorization\<close> header
  (\<open>c.GetHeader\<close> gives the empty string for a missing header), splits it at spaces,
  requires exactly \<open>Bearer\<close> and one token, parses the token with a key function that
  accepts the HMAC methods only, reads \<open>user_id\<close> with the type assertion
  \<open>claims["user_id"].(float64)\<close> (which panics when the claim is missing or not a number;
  \<open>gin.Default\<close>'s recovery turns the panic into a 500, \<open>Recovered\<close>) and checks that the
  user still exists. The result is the user id stored in the context, or the response
  that aborts the request.
\<close>

datatype gate = GatePass uid | GateReject response

definition mw_keyfunc :: "string \<Rightarrow> keyfunc" where
  "mw_keyfunc jwt_secret m = (case m of MethodHMAC _ \<Rightarrow> Some jwt_secret | MethodOther _ \<Rightarrow> None)"

definition claim_user_id :: "jobj \<Rightarrow> int option" where
  "claim_user_id claims = (case json_get claims ''user_id'' of Some (JNum i) \<Rightarrow> Some i | _ \<Rightarrow> None)"

definition user_exists_query :: "db \<Rightarrow> int \<Rightarrow> bool option" where
  "user_exists_query d uid = (if int4_range uid then sql_exists_users d (\<lambda>u. user_id u = uid) else None)"

definition auth_middleware :: "hmac_fn \<Rightarrow> string \<Rightarrow> db \<Rightarrow> timestamp \<Rightarrow> string \<Rightarrow> gate" where
  "auth_middleware mac jwt_secret d now auth_header =
     (if auth_header = [] then GateReject (ErrorResponse 401 ''Authorization header required'')
      else (case go_split CHR '' '' auth_header of
              [scheme, token_string] \<Rightarrow>
                if scheme \<noteq> ''Bearer'' then GateReject (ErrorResponse 401 ''Invalid authorization format'')
                else (case jwt_parse mac (mw_keyfunc jwt_secret) now token_string of
                        None \<Rightarrow> GateReject (ErrorResponse 401 ''Invalid or expired token'')
                      | Some claims \<Rightarrow>
                          (case claim_user_id claims of
                             None \<Rightarrow> GateReject Recovered
                           | Some uid \<Rightarrow>
                               (case user_exists_query d uid of
                                  Some True \<Rightarrow> GatePass uid
                                | _ \<Rightarrow> GateReject (ErrorResponse 401 ''User not found''))))
            | _ \<Rightarrow> GateReject (ErrorResponse 401 ''Invalid authorization format'')))"

section \<open>Lemmas\<close>

lemma mw_keyfunc_hmac [simp]: "mw_keyfunc s (MethodHMAC a) = Some s"
  by (simp add: mw_keyfunc_def)

lemma user_exists_query_member:
  "int4_range i \<Longrightarrow> db_up d \<Longrightarrow> i \<in> user_id ` set (users d) \<Longrightarrow> user_exists_query d i = Some True"
  by (auto simp: user_exists_query_def sql_simps)

lemma go_split_bearer:
  "go_split CHR '' '' h = [''Bearer'', tok] \<longleftrightarrow> h = ''Bearer '' @ tok \<and> CHR '' '' \<notin> set tok"
  by (auto simp: go_split_eq_two)

lemma auth_middleware_bearer:
  assumes "CHR '' '' \<notin> set tok"
  shows "auth_middleware mac jwt_secret d now (''Bearer '' @ tok) =
     (case jwt_parse mac (mw_keyfunc jwt_secret) now tok of
        None \<Rightarrow> GateReject (ErrorResponse 401 ''Invalid or expired token'')
      | Some claims \<Rightarrow>
          (case claim_user_id claims of
             None \<Rightarrow> GateReject Recovered
           | Some uid \<Rightarrow>
               (case user_exists_query d uid of
                  Some True \<Rightarrow> GatePass uid
                | _ \<Rightarrow> GateReject (ErrorResponse 401 ''User not found''))))"
proof -
  have "go_split CHR '' '' (''Bearer '' @ tok) = [''Bearer'', tok]"
    using assms by (simp add: go_split_bearer)
  then show ?thesis by (simp add: auth_middleware_def)
qed

lemma auth_middleware_pass:
  assumes "auth_middleware mac jwt_secret d now h = GatePass uid"
  shows "\<exists>tok claims. h = ''Bearer '' @ tok \<and> CHR '' '' \<notin> set tok \<and>
           jwt_parse mac (mw_keyfunc jwt_secret) now tok = Some claims \<and>
           json_get claims ''user_id'' = Some (JNum uid) \<and> int4_range uid \<and> db_up d \<and>
           (\<exists>u \<in> set (users d). user_id u = uid)"
proof -
  have "h \<noteq> []" using assms by (auto simp: auth_middleware_def)
  then obtain tok where h: "h = ''Bearer '' @ tok" and sp: "CHR '' '' \<notin> set tok"
    using assms by (auto simp: auth_middleware_def go_split_bearer split: list.splits if_splits)
  show ?thesis
    using assms unfolding h auth_middleware_bearer [OF sp]
    by (auto simp: claim_user_id_def user_exists_query_def sql_exists_users_def sp
        split: option.splits jval.splits if_splits bool.splits)
qed

text \<open>The gate on a token the HMAC signer produced under the configured secret.\<close>

lemma gate_signed:
  "auth_middleware mac s d t (''Bearer '' @ jwt_sign mac a s claims) =
     (if claims_valid t (sort_key fst claims) then
        (case claim_user_id (sort_key fst claims) of
           None \<Rightarrow> GateReject Recovered
         | Some uid \<Rightarrow>
             (case user_exists_query d uid of
                Some True \<Rightarrow> GatePass uid
              | _ \<Rightarrow> GateReject (ErrorResponse 401 ''User not found'')))
      else GateReject (ErrorResponse 401 ''Invalid or expired token''))"
  unfolding auth_middleware_bearer [OF jwt_sign_no_space] by (simp add: jwt_parse_signed)

lemma claim_user_id_sorted:
  "distinct (map fst c) \<Longrightarrow>
   claim_user_id (sort_key fst c) = (case map_of c ''user_id'' of Some (JNum i) \<Rightarrow> Some i | _ \<Rightarrow> None)"
  by (simp add: claim_user_id_def json_get_sorted)

lemma gate_reject_status: "auth_middleware mac s d now h = GateReject r \<Longrightarrow> status_of r \<in> {401, 500}"
  by (auto simp: auth_middleware_def split: if_splits list.splits option.splits bool.splits)

end
