(* ===== verification/Password.thy ===== *)
theory Password
  imports Prelude
begin

text \<open>
  \<open>src/internal/utils/password.go\<close>: \<open>HashPassword\<close> and \<open>CheckPassword\<close>, thin wrappers over
  \<open>golang.org/x/crypto/bcrypt\<close> at \<open>DefaultCost\<close> (10). The library is modelled from its
  documented behaviour: \<open>GenerateFromPassword\<close> refuses a password longer than 72 bytes
  (\<open>ErrPasswordTooLong\<close>) and otherwise encodes version, cost, a fresh 22-character salt and
  the Blowfish digest as \<open>$2a$10$<salt><digest>\<close>; \<open>CompareHashAndPassword\<close> reads the salt
  back from the stored hash and recomputes the digest. The Blowfish key schedule consumes
  the password followed by a zero byte, cyclically, for 72 bytes (\<open>blowfish_key\<close>): this is
  all the digest sees of the password. The expensive core itself is the argument \<open>H\<close>
  (salt and key to digest), and the salt is an argument as well: it is the library's
  random choice.
\<close>

type_synonym bcrypt_core = "string \<Rightarrow> string \<Rightarrow> string"

definition bcrypt_prefix :: string where
  "bcrypt_prefix = ''$2a$10$''"

definition blowfish_key :: "string \<Rightarrow> string" where
  "blowfish_key pw = take 72 (concat (replicate 72 (pw @ [CHR 0x00])))"

definition bcrypt_generate :: "bcrypt_core \<Rightarrow> string \<Rightarrow> string \<Rightarrow> string option" where
  "bcrypt_generate H salt pw =
     (if 72 < length pw then None else Some (bcrypt_prefix @ salt @ H salt (blowfish_key pw)))"

text \<open>\<open>newFromHash\<close> refuses a hash shorter than 59 bytes; the salt is the 22 bytes after the
  version and cost.\<close>

definition bcrypt_compare :: "bcrypt_core \<Rightarrow> string \<Rightarrow> string \<Rightarrow> bool" where
  "bcrypt_compare H h pw \<longleftrightarrow>
     59 \<le> length h \<and> prefix bcrypt_prefix h \<and>
     (let r = drop (length bcrypt_prefix) h in drop 22 r = H (take 22 r) (blowfish_key pw))"

definition hash_password :: "bcrypt_core \<Rightarrow> string \<Rightarrow> string \<Rightarrow> string option" where
  "hash_password H salt password = bcrypt_generate H salt password"

definition check_password :: "bcrypt_core \<Rightarrow> string \<Rightarrow> string \<Rightarrow> bool" where
  "check_password H password hash \<longleftrightarrow> bcrypt_compare H hash password"

text \<open>A salt of the library's length and a digest of its length (31 characters).\<close>

definition bcrypt_params_ok :: "bcrypt_core \<Rightarrow> string \<Rightarrow> bool" where
  "bcrypt_params_ok H salt \<longleftrightarrow> length salt = 22 \<and> (\<forall>k. length (H salt k) = 31)"

section \<open>Lemmas\<close>

lemma length_bcrypt_prefix [simp]: "length bcrypt_prefix = 7"
  by (simp add: bcrypt_prefix_def)

lemma blowfish_key_long:
  assumes "72 \<le> length pw"
  shows "blowfish_key pw = take 72 pw"
proof -
  have "replicate 72 (pw @ [CHR 0x00]) = (pw @ [CHR 0x00]) # replicate 71 (pw @ [CHR 0x00])"
    by (simp add: numeral_eq_Suc)
  with assms show ?thesis by (simp add: blowfish_key_def)
qed

lemma bcrypt_generate_Some:
  "bcrypt_generate H salt pw = Some h \<longleftrightarrow>
     length pw \<le> 72 \<and> h = bcrypt_prefix @ salt @ H salt (blowfish_key pw)"
  by (auto simp: bcrypt_generate_def)

lemma bcrypt_compare_generated:
  assumes "bcrypt_params_ok H salt"
  shows "bcrypt_compare H (bcrypt_prefix @ salt @ H salt k) pw \<longleftrightarrow> H salt k = H salt (blowfish_key pw)"
  using assms by (simp add: bcrypt_compare_def bcrypt_params_ok_def)

lemma check_password_hash:
  "bcrypt_params_ok H salt \<Longrightarrow> hash_password H salt p = Some h \<Longrightarrow> check_password H p h"
  by (auto simp: hash_password_def check_password_def bcrypt_generate_Some bcrypt_compare_generated)

lemma blowfish_key_append: "72 \<le> length p \<Longrightarrow> blowfish_key (p @ q) = blowfish_key p"
  by (simp add: blowfish_key_long)


section \<open>Properties\<close>

text \<open>C32: bcrypt sees only the first 72 bytes of a password: a 72-byte password is hashed,
  and the hash then accepts that password followed by anything.\<close>
theorem password_truncation:
  assumes "bcrypt_params_ok H salt" and "length p = 72"
  shows "\<exists>h. hash_password H salt p = Some h \<and> check_password H (p @ q) h"
proof -
  have "hash_password H salt p = Some (bcrypt_prefix @ salt @ H salt (blowfish_key p))"
    using assms(2) by (simp add: hash_password_def bcrypt_generate_def)
  moreover have "check_password H (p @ q) (bcrypt_prefix @ salt @ H salt (blowfish_key p))"
    using assms by (simp add: check_password_def bcrypt_compare_generated blowfish_key_append)
  ultimately show ?thesis by blast
qed

theorem password_truncation_witness:
  "\<exists>h. hash_password (\<lambda>s k. take 31 (k @ replicate 31 CHR ''x'')) (replicate 22 CHR ''s'')
        (replicate 72 CHR ''a'') = Some h \<and>
     check_password (\<lambda>s k. take 31 (k @ replicate 31 CHR ''x'')) (replicate 72 CHR ''a'' @ ''anything'') h"
  using password_truncation [of "\<lambda>s k. take 31 (k @ replicate 31 CHR ''x'')" "replicate 22 CHR ''s''"
      "replicate 72 CHR ''a''" "''anything''"]
  by (simp add: bcrypt_params_ok_def min_def)

text \<open>C33: a password of at most 72 bytes is hashed to a 60-character digest that accepts
  it, and a digest too short to be a bcrypt hash accepts no password (it is refused, not
  an error).\<close>
theorem hash_then_check:
  assumes "bcrypt_params_ok H salt" and "length p \<le> 72"
  shows "\<exists>h. hash_password H salt p = Some h \<and> length h = 60 \<and> check_password H p h \<and>
           (\<forall>h'. length h' < 59 \<longrightarrow> \<not> check_password H p h')"
proof -
  have "hash_password H salt p = Some (bcrypt_prefix @ salt @ H salt (blowfish_key p))"
    using assms(2) by (simp add: hash_password_def bcrypt_generate_def)
  moreover have "length (bcrypt_prefix @ salt @ H salt (blowfish_key p)) = 60"
    using assms(1) by (simp add: bcrypt_params_ok_def)
  moreover have "\<forall>h'. length h' < 59 \<longrightarrow> \<not> check_password H p h'"
    by (simp add: check_password_def bcrypt_compare_def)
  ultimately show ?thesis using check_password_hash [OF assms(1)] by blast
qed

theorem hash_then_check_witness:
  "\<exists>h. hash_password (\<lambda>s k. take 31 (k @ replicate 31 CHR ''x'')) (replicate 22 CHR ''s'') ''secret1'' = Some h \<and>
     length h = 60 \<and> check_password (\<lambda>s k. take 31 (k @ replicate 31 CHR ''x'')) ''secret1'' h \<and>
     (\<forall>h'. length h' < 59 \<longrightarrow> \<not> check_password (\<lambda>s k. take 31 (k @ replicate 31 CHR ''x'')) ''secret1'' h')"
  using hash_then_check [of "\<lambda>s k. take 31 (k @ replicate 31 CHR ''x'')" "replicate 22 CHR ''s''" "''secret1''"]
  by (simp add: bcrypt_params_ok_def min_def)

end
