(* ===== verification/AuthHandlers.thy ===== *)
theory AuthHandlers
  imports Tasks Middleware Password
begin

text \<open>
  The handlers of \<open>src/internal/handlers/auth_handler.go\<close>: \<open>Register\<close>, \<open>Login\<close> and
  \<open>GetProfile\<close>, with the binding rules of \<open>RegisterRequest\<close> and \<open>LoginRequest\<close>
  (\<open>src/internal/models/user.go\<close>). As for the task handlers, a body that does not decode
  is \<open>None\<close> and the validator's message is \<open>bind_error_message\<close>; the e-mail syntax check
  of the validator is the argument \<open>is_email\<close>. \<open>Register\<close> issues two statements, the
  existence check and the insert; \<open>register_at\<close> takes the state each of them sees, so
  that two registrations racing on one address can be stated, and \<open>register\<close> is the run
  on one state. The user the handlers return never carries the stored hash: the
  \<open>Scan\<close> calls do not read it into \<open>user.Password\<close>, which stays empty.
\<close>

section \<open>Binding\<close>

text \<open>\<open>min=6\<close> on a string counts runes (\<open>utf8.RuneCountInString\<close>); the decoder hands over
  valid UTF-8, where the runes are the bytes that are not continuation bytes.\<close>

definition rune_count :: "string \<Rightarrow> nat" where
  "rune_count s = length (filter (\<lambda>c. \<not> ((128::nat) \<le> of_char c \<and> of_char c < (192::nat))) s)"

definition valid_register_request :: "(string \<Rightarrow> bool) \<Rightarrow> register_request \<Rightarrow> bool" where
  "valid_register_request is_email r \<longleftrightarrow>
     rr_name r \<noteq> [] \<and> rr_email r \<noteq> [] \<and> is_email (rr_email r) \<and>
     rr_password r \<noteq> [] \<and> 6 \<le> rune_count (rr_password r)"

definition valid_login_request :: "(string \<Rightarrow> bool) \<Rightarrow> login_request \<Rightarrow> bool" where
  "valid_login_request is_email r \<longleftrightarrow>
     lr_email r \<noteq> [] \<and> is_email (lr_email r) \<and> lr_password r \<noteq> []"

section \<open>\<open>Register\<close>\<close>

text \<open>The row the \<open>INSERT\<close> creates: the \<open>SERIAL\<close> id, the bound columns and the
  timestamps \<open>CURRENT_TIMESTAMP\<close>.\<close>

definition new_user_row :: "register_request \<Rightarrow> string \<Rightarrow> timestamp \<Rightarrow> int \<Rightarrow> user" where
  "new_user_row req hashed now i =
     \<lparr>user_id = i, user_name = rr_name req, email = rr_email req, password = hashed,
      user_created_at = now, user_updated_at = now\<rparr>"

definition register_at ::
  "bcrypt_core \<Rightarrow> string \<Rightarrow> (string \<Rightarrow> bool) \<Rightarrow> (nat \<Rightarrow> db) \<Rightarrow> timestamp \<Rightarrow>
   register_request option \<Rightarrow> db \<times> response" where
  "register_at H salt is_email ds now body =
     (case body of
        None \<Rightarrow> (ds 1, ErrorResponse 400 bind_error_message)
      | Some req \<Rightarrow>
          if \<not> valid_register_request is_email req then (ds 1, ErrorResponse 400 bind_error_message)
          else (case sql_exists_users (ds 0) (\<lambda>u. email u = rr_email req) of
                  None \<Rightarrow> (ds 1, ErrorResponse 500 ''Database error'')
                | Some True \<Rightarrow> (ds 1, ErrorResponse 409 ''Email already registered'')
                | Some False \<Rightarrow>
                    (case hash_password H salt (rr_password req) of
                       None \<Rightarrow> (ds 1, ErrorResponse 500 ''Failed to hash password'')
                     | Some hashed \<Rightarrow>
                         (case sql_insert_user (ds 1) (new_user_row req hashed now) of
                            None \<Rightarrow> (ds 1, ErrorResponse 500 ''Failed to create user'')
                          | Some (d', u) \<Rightarrow>
                              (d', SuccessResponse 201 ''User registered successfully''
                                     (UserData (u\<lparr>password := []\<rparr>)))))))"

definition register ::
  "bcrypt_core \<Rightarrow> string \<Rightarrow> (string \<Rightarrow> bool) \<Rightarrow> db \<Rightarrow> timestamp \<Rightarrow>
   register_request option \<Rightarrow> db \<times> response" where
  "register H salt is_email d now body = register_at H salt is_email (\<lambda>_. d) now body"

section \<open>\<open>Login\<close>\<close>

text \<open>The claims of the token: the id, the address and the expiry \<open>time.Now().Add(24 *
  time.Hour).Unix()\<close>. \<open>SignedString\<close> with a byte-slice key cannot fail for
  \<open>HS256\<close>, so the handler's \<open>Failed to generate token\<close> branch is never taken.\<close>

definition login_claims :: "user \<Rightarrow> timestamp \<Rightarrow> jobj" where
  "login_claims u now =
     [(''user_id'', JNum (user_id u)), (''email'', JStr (email u)), (''exp'', JNum (now + 86400))]"

definition login ::
  "hmac_fn \<Rightarrow> string \<Rightarrow> bcrypt_core \<Rightarrow> (string \<Rightarrow> bool) \<Rightarrow> db \<Rightarrow> timestamp \<Rightarrow>
   login_request option \<Rightarrow> response" where
  "login mac jwt_secret H is_email d now body =
     (case body of
        None \<Rightarrow> ErrorResponse 400 bind_error_message
      | Some req \<Rightarrow>
          if \<not> valid_login_request is_email req then ErrorResponse 400 bind_error_message
          else (case query_row (sql_select_users d (\<lambda>u. email u = lr_email req)) of
                  ErrNoRows \<Rightarrow> ErrorResponse 401 ''Invalid email or password''
                | QueryError \<Rightarrow> ErrorResponse 500 ''Database error''
                | RowOk u \<Rightarrow>
                    if \<not> check_password H (lr_password req) (password u)
                    then ErrorResponse 401 ''Invalid email or password''
                    else SuccessResponse 200 ''Login successful''
                           (LoginData \<lparr>lresp_token = jwt_sign mac HS256 jwt_secret (login_claims u now),
                                       lresp_user = u\<lparr>password := []\<rparr>\<rparr>)))"

section \<open>\<open>GetProfile\<close>\<close>

text \<open>Every error of the statement, no row and a failed statement alike, is a 404.\<close>

definition get_profile :: "db \<Rightarrow> uid \<Rightarrow> response" where
  "get_profile d uid =
     (case query_row (if int4_range uid then sql_select_users d (\<lambda>u. user_id u = uid) else None) of
        RowOk u \<Rightarrow> SuccessResponse 200 ''Profile retrieved successfully'' (UserData (u\<lparr>password := []\<rparr>))
      | _ \<Rightarrow> ErrorResponse 404 ''User not found'')"

section \<open>Lemmas\<close>

lemma login_row:
  assumes "db_wf d" and "db_up d" and "u \<in> set (users d)"
  shows "query_row (sql_select_users d (\<lambda>v. email v = email u)) = RowOk u"
  using assms filter_key_unique [of email "users d" u] by (simp add: db_wf_def sql_simps)

lemma login_no_row:
  assumes "db_up d" and "e \<notin> email ` set (users d)"
  shows "query_row (sql_select_users d (\<lambda>v. email v = e)) = ErrNoRows"
proof -
  have "filter (\<lambda>v. email v = e) (users d) = []"
    using assms(2) by (force simp: filter_empty_conv)
  with assms(1) show ?thesis by (simp add: sql_simps)
qed

lemma login_claims_distinct: "distinct (map fst (login_claims u now))"
  by (simp add: login_claims_def)

lemma login_claims_valid:
  "claims_valid t (sort_key fst (login_claims u now)) \<longleftrightarrow> now + 86400 = 0 \<or> t < now + 86400"
  by (simp add: claims_valid_def numeric_date_sorted [OF login_claims_distinct]) (simp add: login_claims_def)

lemma claim_user_id_login: "claim_user_id (sort_key fst (login_claims u now)) = Some (user_id u)"
  by (simp add: claim_user_id_sorted [OF login_claims_distinct]) (simp add: login_claims_def)

lemma gate_login_token:
  assumes "db_up d" and "int4_range (user_id u)" and "user_id u \<in> user_id ` set (users d)"
  shows "auth_middleware mac s d t (''Bearer '' @ jwt_sign mac HS256 s (login_claims u now)) =
     (if now + 86400 = 0 \<or> t < now + 86400 then GatePass (user_id u)
      else GateReject (ErrorResponse 401 ''Invalid or expired token''))"
  unfolding gate_signed using assms
  by (simp add: login_claims_valid claim_user_id_login user_exists_query_member)

lemma exists_email_iff: "(\<exists>u \<in> set us. email u = e) \<longleftrightarrow> e \<in> email ` set us"
  by auto

lemma register_at_new:
  assumes "valid_register_request is_email req" and "db_up (ds 0)" and "db_up (ds 1)"
    and "rr_email req \<notin> email ` set (users (ds 0))" and "rr_email req \<notin> email ` set (users (ds 1))"
    and "length (rr_password req) \<le> 72"
  shows "register_at H salt is_email ds now (Some req) =
     (let u = new_user_row req (bcrypt_prefix @ salt @ H salt (blowfish_key (rr_password req))) now
                (user_seq (ds 1))
      in (ds 1\<lparr>users := users (ds 1) @ [u], user_seq := user_seq (ds 1) + 1\<rparr>,
          SuccessResponse 201 ''User registered successfully'' (UserData (u\<lparr>password := []\<rparr>))))"
  using assms
  by (simp add: register_at_def sql_simps exists_email_iff hash_password_def bcrypt_generate_def
      Let_def new_user_row_def)

lemma register_at_taken:
  assumes "valid_register_request is_email req" and "db_up (ds 0)"
    and "rr_email req \<in> email ` set (users (ds 0))"
  shows "register_at H salt is_email ds now (Some req) = (ds 1, ErrorResponse 409 ''Email already registered'')"
  using assms by (simp add: register_at_def sql_simps exists_email_iff)

lemma register_at_long_password:
  assumes "valid_register_request is_email req" and "db_up (ds 0)"
    and "rr_email req \<notin> email ` set (users (ds 0))" and "72 < length (rr_password req)"
  shows "register_at H salt is_email ds now (Some req) = (ds 1, ErrorResponse 500 ''Failed to hash password'')"
  using assms by (simp add: register_at_def sql_simps exists_email_iff hash_password_def bcrypt_generate_def)

lemma register_at_race:
  assumes "valid_register_request is_email req" and "db_up (ds 0)"
    and "rr_email req \<notin> email ` set (users (ds 0))" and "length (rr_password req) \<le> 72"
    and "rr_email req \<in> email ` set (users (ds 1))"
  shows "register_at H salt is_email ds now (Some req) = (ds 1, ErrorResponse 500 ''Failed to create user'')"
  using assms by (simp add: register_at_def sql_simps exists_email_iff hash_password_def
      bcrypt_generate_def new_user_row_def)

lemma register_at_wf: "db_wf (ds 1) \<Longrightarrow> db_wf (fst (register_at H salt is_email ds now body))"
  by (auto simp: register_at_def new_user_row_def intro: sql_insert_user_wf
      split: option.splits bool.splits prod.splits)

lemma login_valid:
  assumes "db_wf d" and "db_up d" and "u \<in> set (users d)"
    and "valid_login_request is_email req" and "lr_email req = email u"
  shows "login mac s H is_email d now (Some req) =
     (if check_password H (lr_password req) (password u)
      then SuccessResponse 200 ''Login successful''
             (LoginData \<lparr>lresp_token = jwt_sign mac HS256 s (login_claims u now), lresp_user = u\<lparr>password := []\<rparr>\<rparr>)
      else ErrorResponse 401 ''Invalid email or password'')"
  using assms by (simp add: login_def login_row)

lemma login_unknown:
  assumes "db_up d" and "valid_login_request is_email req" and "lr_email req \<notin> email ` set (users d)"
  shows "login mac s H is_email d now (Some req) = ErrorResponse 401 ''Invalid email or password''"
  using assms by (simp add: login_def login_no_row)

lemma login_issued:
  assumes "login mac s H is_email d now body = SuccessResponse c m (LoginData \<lparr>lresp_token = tok, lresp_user = v\<rparr>)"
  shows "\<exists>req. body = Some req \<and> (\<exists>u \<in> set (users d). email u = lr_email req \<and>
           tok = jwt_sign mac HS256 s (login_claims u now) \<and> v = u\<lparr>password := []\<rparr>)"
  using assms
  by (auto simp: login_def sql_simps split: option.splits if_splits qrow.splits list.splits
      dest: filter_Cons_mem filter_Cons_sat)

lemma get_profile_row:
  assumes "db_wf d" and "db_up d" and "u \<in> set (users d)" and "int4_range (user_id u)"
  shows "get_profile d (user_id u) =
     SuccessResponse 200 ''Profile retrieved successfully'' (UserData (u\<lparr>password := []\<rparr>))"
  using assms filter_key_unique [of user_id "users d" u] by (simp add: db_wf_def sql_simps get_profile_def)

lemma valid_login_of_register:
  "valid_register_request is_email req \<Longrightarrow>
   valid_login_request is_email \<lparr>lr_email = rr_email req, lr_password = rr_password req\<rparr>"
  by (simp add: valid_register_request_def valid_login_request_def)

end
