(* ===== verification/Service.thy ===== *)
theory Service
  imports AuthHandlers Config
begin

text \<open>
  \<open>src/cmd/api/main.go\<close>: the router. \<open>main\<close> loads the configuration once, builds one
  handler of each kind over the shared connection and the secret, and registers the
  routes: \<open>/health\<close> and the public \<open>/api/v1/auth/register\<close> and \<open>/auth/login\<close>; the
  profile route and the whole \<open>/api/v1/tasks\<close> group behind \<open>AuthMiddleware\<close>. A request
  is its \<open>Authorization\<close> header and the route with its decoded inputs (\<open>route\<close>); gin's
  matching of paths to routes, including \<open>/tasks/stats\<close> before \<open>/tasks/:id\<close>, is the
  choice of the constructor. \<open>serve\<close> runs one request against the table state; the
  gate runs first on a protected route and an aborted request leaves the state as it was.
  \<open>reachable\<close> is the set of table states the service can be driven into from empty
  tables: any sequence of requests, the two statements of a registration interleaved with
  anything else, and the database going down and coming back.
\<close>

datatype route =
    Health
  | RegisterRoute "register_request option"
  | LoginRoute "login_request option"
  | ProfileRoute
  | CreateTaskRoute "create_task_request option"
  | GetTasksRoute list_params
  | GetStatsRoute
  | GetTaskRoute string
  | UpdateTaskRoute string "update_task_request option"
  | DeleteTaskRoute string
  | ToggleCompleteRoute string

record request =
  req_authorization :: string
  req_route :: route

text \<open>The health handler writes a bare JSON object, not the response envelope.\<close>

datatype reply = Envelope response | PlainJSON http_status jobj

definition health_body :: jobj where
  "health_body = [(''status'', JStr ''ok''), (''message'', JStr ''TaskFlow API is running'')]"

text \<open>A handler behind the gate: it runs with the user id the gate stored, or the gate's
  response is the reply and the state is untouched.\<close>

definition protected ::
  "hmac_fn \<Rightarrow> config \<Rightarrow> db \<Rightarrow> timestamp \<Rightarrow> string \<Rightarrow> (uid \<Rightarrow> db \<times> response) \<Rightarrow> db \<times> response" where
  "protected mac cfg d now h k =
     (case auth_middleware mac (cfg_jwt_secret cfg) d now h of
        GatePass uid \<Rightarrow> k uid
      | GateReject r \<Rightarrow> (d, r))"

definition serve ::
  "hmac_fn \<Rightarrow> bcrypt_core \<Rightarrow> (string \<Rightarrow> bool) \<Rightarrow> config \<Rightarrow> string \<Rightarrow> timestamp \<Rightarrow> request \<Rightarrow>
   db \<Rightarrow> db \<times> reply" where
  "serve mac H is_email cfg salt now rq d =
     (let h = req_authorization rq; gate = protected mac cfg d now h in
      case req_route rq of
        Health \<Rightarrow> (d, PlainJSON 200 health_body)
      | RegisterRoute b \<Rightarrow> apsnd Envelope (register H salt is_email d now b)
      | LoginRoute b \<Rightarrow> (d, Envelope (login mac (cfg_jwt_secret cfg) H is_email d now b))
      | ProfileRoute \<Rightarrow> apsnd Envelope (gate (\<lambda>u. (d, get_profile d u)))
      | CreateTaskRoute b \<Rightarrow> apsnd Envelope (gate (\<lambda>u. create_task d now u b))
      | GetTasksRoute f \<Rightarrow> apsnd Envelope (gate (\<lambda>u. (d, get_tasks d u f)))
      | GetStatsRoute \<Rightarrow> apsnd Envelope (gate (\<lambda>u. (d, get_stats d u now)))
      | GetTaskRoute tid \<Rightarrow> apsnd Envelope (gate (\<lambda>u. (d, get_task d u tid)))
      | UpdateTaskRoute tid b \<Rightarrow> apsnd Envelope (gate (\<lambda>u. update_task d now u tid b))
      | DeleteTaskRoute tid \<Rightarrow> apsnd Envelope (gate (\<lambda>u. delete_task d u tid))
      | ToggleCompleteRoute tid \<Rightarrow> apsnd Envelope (gate (\<lambda>u. toggle_complete d now u tid)))"

text \<open>Empty tables: both \<open>SERIAL\<close> sequences start at 1.\<close>

definition initial_db :: db where
  "initial_db = \<lparr>users = [], tasks = [], user_seq = 1, task_seq = 1, db_up = True\<rparr>"

inductive reachable :: "hmac_fn \<Rightarrow> bcrypt_core \<Rightarrow> (string \<Rightarrow> bool) \<Rightarrow> config \<Rightarrow> db \<Rightarrow> bool"
  for mac H is_email cfg where
  start: "reachable mac H is_email cfg initial_db"
| request: "reachable mac H is_email cfg d \<Longrightarrow>
    reachable mac H is_email cfg (fst (serve mac H is_email cfg salt now rq d))"
| register_interleaved: "reachable mac H is_email cfg (ds 1) \<Longrightarrow>
    reachable mac H is_email cfg (fst (register_at H salt is_email ds now b))"
| availability: "reachable mac H is_email cfg d \<Longrightarrow> reachable mac H is_email cfg (d\<lparr>db_up := up\<rparr>)"

text \<open>Every task belongs to a user of the table.\<close>

definition task_owners_ok :: "db \<Rightarrow> bool" where
  "task_owners_ok d \<longleftrightarrow> (\<forall>t \<in> set (tasks d). task_user_id t \<in> user_id ` set (users d))"

definition service_inv :: "db \<Rightarrow> bool" where
  "service_inv d \<longleftrightarrow> db_wf d \<and> task_owners_ok d"

section \<open>Lemmas\<close>

lemma sql_update_tasks_users: "sql_update_tasks d P f = Some (d', rs) \<Longrightarrow> users d' = users d"
  by (auto simp: sql_update_tasks_def split: if_splits)

lemma sql_delete_tasks_users: "sql_delete_tasks d P = Some (d', n) \<Longrightarrow> users d' = users d"
  by (auto simp: sql_delete_tasks_def split: if_splits)

lemma bind_update_users:
  "Option.bind (task_key tid u) (\<lambda>P. sql_update_tasks d P f) = Some (d', rs) \<Longrightarrow> users d' = users d"
  by (auto simp: bind_eq_Some_conv dest: sql_update_tasks_users)

lemma create_task_users: "users (fst (create_task d now u body)) = users d"
  by (auto simp: create_task_def insert_task_row_def sql_insert_task_def split: option.splits)

lemma update_task_users: "users (fst (update_task d now u tid body)) = users d"
proof (cases "\<exists>r. body = Some r \<and> valid_update_task_request r")
  case True
  then obtain r where b: "body = Some r" and v: "valid_update_task_request r" by blast
  show ?thesis
    unfolding b update_task_valid [OF v]
    by (rule row_result_state [where Q = "\<lambda>d'. users d' = users d"]) (auto dest: bind_update_users)
next
  case False
  then show ?thesis by (cases body) (auto simp: update_task_def)
qed

lemma toggle_complete_users: "users (fst (toggle_complete d now u tid)) = users d"
  unfolding toggle_complete_def
  by (rule row_result_state [where Q = "\<lambda>d'. users d' = users d"]) (auto dest: bind_update_users)

lemma delete_task_users: "users (fst (delete_task d u tid)) = users d"
  by (auto simp: delete_task_def bind_eq_Some_conv dest: sql_delete_tasks_users split: option.splits)

lemma owners_step:
  assumes "task_owners_ok d" and "u \<in> user_id ` set (users d)"
    and "others_tasks u d' = others_tasks u d" and "users d' = users d"
  shows "task_owners_ok d'"
  unfolding task_owners_ok_def
proof
  fix t assume t: "t \<in> set (tasks d')"
  show "task_user_id t \<in> user_id ` set (users d')"
  proof (cases "task_user_id t = u")
    case True
    with assms(2,4) show ?thesis by simp
  next
    case False
    with t have "t \<in> set (others_tasks u d')" by (simp add: others_tasks_def)
    then have "t \<in> set (others_tasks u d)" by (simp only: assms(3))
    then have "t \<in> set (tasks d)" by (simp add: others_tasks_def)
    with assms(1,4) show ?thesis by (simp add: task_owners_ok_def)
  qed
qed

lemma protected_cases:
  assumes "\<And>u. u \<in> user_id ` set (users d) \<Longrightarrow> P (k u)"
    and "\<And>r. status_of r \<in> {401, 500} \<Longrightarrow> P (d, r)"
  shows "P (protected mac cfg d now h k)"
proof (cases "auth_middleware mac (cfg_jwt_secret cfg) d now h")
  case (GatePass u)
  then have "u \<in> user_id ` set (users d)" by (auto dest!: auth_middleware_pass)
  with GatePass show ?thesis by (simp add: protected_def assms(1))
next
  case (GateReject r)
  then have "status_of r \<in> {401, 500}" by (rule gate_reject_status)
  with GateReject show ?thesis by (simp add: protected_def assms(2))
qed

lemma protected_readonly: "fst (protected mac cfg d now h (\<lambda>u. (d, f u))) = d"
  by (rule protected_cases [where P = "\<lambda>x. fst x = d"]) simp_all

lemma task_op_inv:
  assumes "service_inv d" and "u \<in> user_id ` set (users d)" and "db_wf d \<Longrightarrow> db_wf d'"
    and "others_tasks u d' = others_tasks u d" and "users d' = users d"
  shows "service_inv d'"
  using assms owners_step [of d u d'] by (simp add: service_inv_def)

lemma register_at_tables:
  "tasks (fst (register_at H salt is_email ds now b)) = tasks (ds 1) \<and>
   set (users (ds 1)) \<subseteq> set (users (fst (register_at H salt is_email ds now b)))"
  by (auto simp: register_at_def sql_insert_user_def split: option.splits bool.splits if_splits)

lemma register_at_inv:
  assumes "service_inv (ds 1)"
  shows "service_inv (fst (register_at H salt is_email ds now b))"
  using assms register_at_wf [of ds] register_at_tables [of H salt is_email ds now b]
  by (fastforce simp: service_inv_def task_owners_ok_def)

lemma serve_inv:
  assumes "service_inv d"
  shows "service_inv (fst (serve mac H is_email cfg salt now rq d))"
proof (cases "req_route rq")
  case (RegisterRoute b)
  then show ?thesis using register_at_inv [of "\<lambda>_. d"] assms by (simp add: serve_def register_def)
next
  case (CreateTaskRoute b)
  then show ?thesis using assms
    by (simp add: serve_def Let_def, intro protected_cases [where P = "\<lambda>x. service_inv (fst x)"])
      (auto intro: task_op_inv create_task_wf create_task_others create_task_users)
next
  case (UpdateTaskRoute tid b)
  then show ?thesis using assms
    by (simp add: serve_def Let_def, intro protected_cases [where P = "\<lambda>x. service_inv (fst x)"])
      (auto intro: task_op_inv update_task_wf update_task_others update_task_users)
next
  case (DeleteTaskRoute tid)
  then show ?thesis using assms
    by (simp add: serve_def Let_def, intro protected_cases [where P = "\<lambda>x. service_inv (fst x)"])
      (auto intro: task_op_inv delete_task_wf delete_task_others delete_task_users)
next
  case (ToggleCompleteRoute tid)
  then show ?thesis using assms
    by (simp add: serve_def Let_def, intro protected_cases [where P = "\<lambda>x. service_inv (fst x)"])
      (auto intro: task_op_inv toggle_complete_wf toggle_complete_others toggle_complete_users)
qed (simp_all add: serve_def Let_def protected_readonly assms)

lemma initial_db_inv: "service_inv initial_db"
  by (simp add: service_inv_def db_wf_def task_owners_ok_def initial_db_def)

section \<open>Properties\<close>

text \<open>C25: every table state the service can reach, through any sequence of requests, with
  registrations interleaved with other requests and with the database going down and
  up, has distinct keys below their sequences, distinct e-mail addresses, and every task
  owned by a user of the table.\<close>
theorem reachable_service_inv:
  assumes "reachable mac H is_email cfg d"
  shows "db_wf d \<and> task_owners_ok d"
  using assms
proof (induction rule: reachable.induct)
  case start
  then show ?case using initial_db_inv by (simp add: service_inv_def)
next
  case (request d salt now rq)
  then have "service_inv d" by (simp add: service_inv_def)
  then show ?case using serve_inv by (simp add: service_inv_def)
next
  case (register_interleaved ds salt now b)
  then have "service_inv (ds 1)" by (simp add: service_inv_def)
  then show ?case using register_at_inv by (simp add: service_inv_def)
next
  case (availability d up)
  then show ?case by (simp add: db_wf_def task_owners_ok_def)
qed

theorem reachable_service_inv_witness:
  "reachable (\<lambda>a k m. k @ m) (\<lambda>s k. take 31 (k @ replicate 31 CHR ''x'')) (\<lambda>_. True) (load_config None (\<lambda>_. None))
     (fst (serve (\<lambda>a k m. k @ m) (\<lambda>s k. take 31 (k @ replicate 31 CHR ''x'')) (\<lambda>_. True) (load_config None (\<lambda>_. None))
        (replicate 22 CHR ''s'') 5 \<lparr>req_authorization = [], req_route = Health\<rparr> initial_db)) \<and>
   db_wf (fst (serve (\<lambda>a k m. k @ m) (\<lambda>s k. take 31 (k @ replicate 31 CHR ''x'')) (\<lambda>_. True) (load_config None (\<lambda>_. None))
        (replicate 22 CHR ''s'') 5 \<lparr>req_authorization = [], req_route = Health\<rparr> initial_db)) \<and>
   task_owners_ok (fst (serve (\<lambda>a k m. k @ m) (\<lambda>s k. take 31 (k @ replicate 31 CHR ''x'')) (\<lambda>_. True) (load_config None (\<lambda>_. None))
        (replicate 22 CHR ''s'') 5 \<lparr>req_authorization = [], req_route = Health\<rparr> initial_db))"
proof -
  have r: "reachable (\<lambda>a k m. k @ m) (\<lambda>s k. take 31 (k @ replicate 31 CHR ''x'')) (\<lambda>_. True) (load_config None (\<lambda>_. None))
     (fst (serve (\<lambda>a k m. k @ m) (\<lambda>s k. take 31 (k @ replicate 31 CHR ''x'')) (\<lambda>_. True) (load_config None (\<lambda>_. None))
        (replicate 22 CHR ''s'') 5 \<lparr>req_authorization = [], req_route = Health\<rparr> initial_db))"
    by (rule reachable.request [OF reachable.start])
  show ?thesis using reachable_service_inv [OF r] r by simp
qed

text \<open>C36: the gate runs before every handler of the profile route and of the task group:
  a request whose header the gate refuses gets exactly the gate's response (401, or 500
  when the claims have no numeric user id) and leaves the tables as they were, whatever
  the route's inputs; only the health and the two auth routes do without it.\<close>
theorem serve_gate_first:
  assumes "auth_middleware mac (cfg_jwt_secret cfg) d now (req_authorization rq) = GateReject r"
    and "case req_route rq of Health \<Rightarrow> False | RegisterRoute _ \<Rightarrow> False | LoginRoute _ \<Rightarrow> False | _ \<Rightarrow> True"
  shows "serve mac H is_email cfg salt now rq d = (d, Envelope r)"
  using assms by (cases "req_route rq") (simp_all add: serve_def protected_def)

theorem serve_gate_first_witness:
  "serve (\<lambda>a k m. k @ m) (\<lambda>s k. k) (\<lambda>_. True) (load_config None (\<lambda>_. None)) [] 5
     \<lparr>req_authorization = [], req_route = DeleteTaskRoute ''1''\<rparr> initial_db =
   (initial_db, Envelope (ErrorResponse 401 ''Authorization header required''))"
  using serve_gate_first [of "\<lambda>a k m. k @ m" "load_config None (\<lambda>_. None)" initial_db 5
      "\<lparr>req_authorization = [], req_route = DeleteTaskRoute ''1''\<rparr>"
      "ErrorResponse 401 ''Authorization header required''" "\<lambda>s k. k" "\<lambda>_. True" "[]"]
  by (simp add: auth_middleware_def)

end
