(* ===== verification/Startup.thy ===== *)
theory Startup
  imports Service
begin

text \<open>
  Start-up: \<open>main\<close> in \<open>src/cmd/api/main.go\<close>, \<open>database.Connect\<close> in
  \<open>src/internal/database/database.go\<close> and the handler constructors \<open>NewAuthHandler\<close> and
  \<open>NewTaskHandler\<close>. \<open>main\<close> loads the configuration, opens the connection pool to
  \<open>DATABASE_URL\<close> and pings it, builds both handlers over that pool (the authentication
  handler with the secret), registers the routes, both \<open>AuthMiddleware\<close> calls with
  \<open>cfg.JWTSecret\<close> (\<open>setup_router\<close>), and runs the router on \<open>":" + PORT\<close>. \<open>log.Fatal\<close> ends the
  process with its message (\<open>Fatal\<close>); the deferred \<open>db.Close\<close> does not run then.
  \<open>sql.Open\<close> with the \<open>postgres\<close> driver, which \<open>lib/pq\<close> registers, does not
  connect, but it parses the URL (\<open>pq.NewConnector\<close>) and fails on one it cannot read;
  whether \<open>lib/pq\<close> reads a URL, whether the server at it answers the ping and whether the
  address can be bound are the arguments \<open>dsn_ok\<close>, \<open>ping\<close> and \<open>listen\<close>. The connection pool is the URL it was opened
  with (\<open>DbConn\<close>); the tables behind it are the state of \<open>serve\<close>. \<open>main_start\<close> also
  returns the lines logged on the way (\<open>Load\<close>'s missing \<open>.env\<close> line, the two
  check-mark lines and the banner before \<open>router.Run\<close>), without \<open>log\<close>'s time prefix.
\<close>

datatype db_conn = DbConn string

datatype 'a startup = Fatal string | Started 'a

definition database_connect :: "(string \<Rightarrow> bool) \<Rightarrow> (string \<Rightarrow> bool) \<Rightarrow> string \<Rightarrow> db_conn startup" where
  "database_connect dsn_ok ping database_url =
     (if \<not> dsn_ok database_url then Fatal ''Failed to connect to database:''
      else let db = DbConn database_url in
           if ping database_url then Started db else Fatal ''Failed to ping database:'')"

record auth_handler =
  ah_db :: db_conn
  ah_jwt_secret :: string

definition new_auth_handler :: "db_conn \<Rightarrow> string \<Rightarrow> auth_handler" where
  "new_auth_handler db jwt_secret = \<lparr>ah_db = db, ah_jwt_secret = jwt_secret\<rparr>"

record task_handler =
  th_db :: db_conn

definition new_task_handler :: "db_conn \<Rightarrow> task_handler" where
  "new_task_handler db = \<lparr>th_db = db\<rparr>"

text \<open>The running server: the configuration, the two handlers, the secret the
  \<open>AuthMiddleware\<close> closures of the profile route and the task group hold, and the
  address the router listens on.\<close>

record server =
  srv_config :: config
  srv_auth :: auth_handler
  srv_tasks :: task_handler
  srv_gate_secret :: string
  srv_addr :: string

text \<open>\<open>gin.Default\<close> and the route registrations of \<open>main\<close>: both
  \<open>AuthMiddleware\<close> calls get \<open>cfg.JWTSecret\<close>; \<open>router.Run\<close> gets \<open>":" + cfg.Port\<close>.\<close>

definition setup_router :: "config \<Rightarrow> auth_handler \<Rightarrow> task_handler \<Rightarrow> server" where
  "setup_router cfg auth_handler task_handler =
     \<lparr>srv_config = cfg, srv_auth = auth_handler, srv_tasks = task_handler,
      srv_gate_secret = cfg_jwt_secret cfg, srv_addr = '':'' @ cfg_port cfg\<rparr>"

text \<open>\<open>router.Run\<close>: it serves until the process ends, unless the address cannot be bound.\<close>

definition router_run :: "(string \<Rightarrow> bool) \<Rightarrow> server \<Rightarrow> server startup" where
  "router_run listen srv = (if listen (srv_addr srv) then Started srv else Fatal ''Failed to start server:'')"

text \<open>The lines \<open>main\<close> and \<open>Connect\<close> log, without \<open>log\<close>'s time prefix; the emoji are
  their UTF-8 bytes: U+2705, U+1F680 and U+1F4DD.\<close>

definition check_mark :: string where
  "check_mark = [CHR 0xE2, CHR 0x9C, CHR 0x85]"

definition rocket :: string where
  "rocket = [CHR 0xF0, CHR 0x9F, CHR 0x9A, CHR 0x80]"

definition memo :: string where
  "memo = [CHR 0xF0, CHR 0x9F, CHR 0x93, CHR 0x9D]"

definition startup_banner :: "string \<Rightarrow> string list" where
  "startup_banner port =
     [replicate 60 CHR ''='',
      rocket @ '' Server starting on port '' @ port,
      memo @ '' API Documentation:'',
      ''   - Health Check: GET http://localhost:'' @ port @ ''/health'',
      ''   - Register:     POST http://localhost:'' @ port @ ''/api/v1/auth/register'',
      ''   - Login:        POST http://localhost:'' @ port @ ''/api/v1/auth/login'',
      ''   - Get Tasks:    GET http://localhost:'' @ port @ ''/api/v1/tasks'',
      replicate 60 CHR ''='']"

text \<open>\<open>main\<close> up to \<open>router.Run\<close>: the lines logged and the outcome.\<close>

definition main_start ::
  "(string \<Rightarrow> string option) option \<Rightarrow> env \<Rightarrow> (string \<Rightarrow> bool) \<Rightarrow> (string \<Rightarrow> bool) \<Rightarrow>
   (string \<Rightarrow> bool) \<Rightarrow> string list \<times> server startup" where
  "main_start dotenv e dsn_ok ping listen =
     (let cfg = load_config dotenv e; log0 = dotenv_log dotenv @ [check_mark @ '' Config loaded''] in
      case database_connect dsn_ok ping (cfg_database_url cfg) of
        Fatal m \<Rightarrow> (log0, Fatal m)
      | Started db \<Rightarrow>
          (log0 @ [check_mark @ '' Database connected successfully''] @ startup_banner (cfg_port cfg),
           router_run listen (setup_router cfg (new_auth_handler db (cfg_jwt_secret cfg))
                                (new_task_handler db))))"

section \<open>Lemmas\<close>

text \<open>When \<open>main\<close> gets to \<open>router.Run\<close>, the server it runs.\<close>

lemma main_start_Started:
  assumes "snd (main_start f e dsn_ok ping listen) = Started srv"
  shows "srv = setup_router (load_config f e)
                 (new_auth_handler (DbConn (cfg_database_url (load_config f e))) (cfg_jwt_secret (load_config f e)))
                 (new_task_handler (DbConn (cfg_database_url (load_config f e))))"
  using assms
  by (simp add: main_start_def database_connect_def router_run_def Let_def split: if_splits)

section \<open>Properties\<close>

text \<open>C39: \<open>main\<close> hands the authentication handler and both \<open>AuthMiddleware\<close> calls
  the same secret, so a token that Login of the running server issues at t0 passes the
  gate of that server at every t before t0 + 86400 while its user exists.\<close>
theorem main_start_login_gate:
  assumes "snd (main_start f e dsn_ok ping listen) = Started srv"
    and "login mac (ah_jwt_secret (srv_auth srv)) H is_email d t0 body =
           SuccessResponse c m (LoginData \<lparr>lresp_token = tok, lresp_user = v\<rparr>)"
    and "t < t0 + 86400" and "db_up d'" and "user_id v \<in> user_id ` set (users d')"
    and "int4_range (user_id v)"
  shows "auth_middleware mac (srv_gate_secret srv) d' t (''Bearer '' @ tok) = GatePass (user_id v)"
proof -
  have key: "srv_gate_secret srv = ah_jwt_secret (srv_auth srv)"
    using main_start_Started [OF assms(1)] by (simp add: setup_router_def new_auth_handler_def)
  obtain u where tok: "tok = jwt_sign mac HS256 (ah_jwt_secret (srv_auth srv)) (login_claims u t0)"
      and v: "v = u\<lparr>password := []\<rparr>"
    using login_issued [OF assms(2)] by blast
  show ?thesis
    using gate_login_token [of d' u mac "ah_jwt_secret (srv_auth srv)" t t0] assms(3-6)
    by (simp add: key tok v)
qed

end
