(* ===== verification/Spec2Isabelle.thy ===== *)
theory Spec2Isabelle
  imports Startup
begin

text \<open>
  \<^bold>\<open>TaskFlow API: a verification development.\<close>

  The program (\<open>src/\<close>) is a Go HTTP service on gin and PostgreSQL: a user registers and
  logs in (\<open>internal/handlers/auth_handler.go\<close>), receives a signed token, and the
  task routes (\<open>internal/handlers/task_handler.go\<close>), behind the token gate
  \<open>internal/middleware/auth_middleware.go\<close>, create, list, filter, read, update,
  delete and toggle that user's tasks and count them (\<open>GetStats\<close>). The routes are
  wired in \<open>cmd/api/main.go\<close>.

  \<^bold>\<open>Theories.\<close>
  \<^item> \<open>Prelude\<close>: the shared collections (\<open>handler_simps\<close>, \<open>sql_simps\<close>), the
    Go library functions the code calls (\<open>strings.Split\<close> as \<open>go_split\<close>,
    \<open>strconv.Itoa\<close> as \<open>go_itoa\<close>) with their round trips, and decimal digits.
  \<^item> \<open>Models\<close>: \<open>internal/models/*.go\<close>: the structs as records, \<open>Priority\<close> and
    \<open>Category\<close> as datatypes, the binding tags as validators; the responses of
    \<open>utils.ErrorResponse\<close>/\<open>utils.SuccessResponse\<close> as a datatype.
  \<^item> \<open>Database\<close>: the two tables as lists with their \<open>SERIAL\<close> sequences and a flag
    for a reachable server; one function per statement kind, \<open>None\<close> when the server fails;
    \<open>QueryRow(...).Scan\<close> as \<open>query_row\<close>; PostgreSQL's reading of a text parameter as an
    \<open>int4\<close> (\<open>pg_int4\<close>), so that a malformed path id is an error of the statement.
  \<^item> \<open>Sql\<close>: the two statements whose text the handlers assemble at run time, as syntax
    (\<open>select_stmt\<close>, \<open>update_stmt\<close>), their rendering to the exact text the Go code
    produces, a parser for that text that checks the placeholder numbering, and their
    execution with bound arguments (\<open>exec_select\<close>, \<open>exec_update\<close>), including
    \<open>ILIKE\<close> with its wildcards. Round trips: \<open>parse_render_select\<close>,
    \<open>parse_render_update\<close>.
  \<^item> \<open>QueryBuilder\<close>: the \<open>(query, args, argCount)\<close> builders of \<open>GetTasks\<close> and
    \<open>UpdateTask\<close>, one definition per \<open>if\<close> block; refinement lemmas to the
    statement syntax and the proof that the server, reading the built text, computes the
    abstract specifications \<open>list_tasks_spec\<close> and \<open>apply_update\<close>.
  \<^item> \<open>Tasks\<close>: the seven handlers of \<open>TaskHandler\<close>, each a function of the table
    state, the clock, the authenticated user id and the request, returning the new state
    and the response; \<open>run_task_op\<close> is the task route group of \<open>main.go\<close>.
    Lemmas: owner isolation of every statement scoped by \<open>task_key\<close>, the effect of
    the single-row statements.
  \<^item> \<open>Base64\<close>, \<open>Json\<close>, \<open>Jwt\<close>: the libraries the token code calls, modelled
    from their documentation: \<open>base64.RawURLEncoding\<close> (round trip
    \<open>b64_decode_encode\<close>); \<open>encoding/json\<close> for the flat objects \<open>MapClaims\<close>
    holds, printing with Go's escapes and sorted keys and parsing back
    (\<open>json_parse_obj_print\<close>; the string and object parsers are \<open>function\<close>s
    terminating by a length measure); \<open>golang-jwt/v5\<close>'s \<open>SignedString\<close> and
    \<open>Parse\<close> with the default validator (\<open>exp\<close>, \<open>nbf\<close>). The HMAC is the
    argument \<open>mac\<close>: nothing is assumed of it, so every property holds for any MAC.
  \<^item> \<open>Password\<close>: \<open>internal/utils/password.go\<close> over bcrypt, whose Blowfish core
    \<open>H\<close> and random salt are arguments; the 72-byte limit and the key schedule on the
    first 72 bytes are written out.
  \<^item> \<open>Config\<close>: \<open>internal/config/config.go\<close>, \<open>Load\<close> and \<open>getEnv\<close> over an
    environment map, \<open>.env\<close> as a map that does not override the environment.
  \<^item> \<open>Middleware\<close>: \<open>AuthMiddleware\<close> as \<open>auth_middleware\<close>: the user id bound to
    the request (\<open>GatePass\<close>) or the response that aborts it; the panic of the
    \<open>user_id\<close> type assertion is \<open>Recovered\<close>, gin's 500.
  \<^item> \<open>AuthHandlers\<close>: \<open>Register\<close> (\<open>register_at\<close> takes the states its two
    statements see), \<open>Login\<close>, \<open>GetProfile\<close>.
  \<^item> \<open>Service\<close>: the router of \<open>main.go\<close> (\<open>serve\<close>: health, auth routes, profile
    and task routes behind \<open>protected\<close>, the gate) and \<open>reachable\<close>, the inductive
    set of table states the running service reaches: requests in any order, the two
    statements of \<open>Register\<close> interleaved with others, outages. Its invariant
    (\<open>reachable_service_inv\<close>, by rule induction) and that the gate answers before
    every protected handler (\<open>serve_gate_first\<close>) are proved there.
  \<^item> \<open>Startup\<close>: \<open>main\<close>'s start-up (\<open>main_start\<close>): \<open>config.Load\<close>,
    \<open>database.Connect\<close> (\<open>database_connect\<close>: whether \<open>lib/pq\<close> reads the URL and
    whether the server answers the ping are arguments), the handler constructors, the
    route registrations (\<open>setup_router\<close>, with the secret both \<open>AuthMiddleware\<close> calls
    get) and \<open>router.Run\<close>; \<open>log.Fatal\<close> is the result \<open>Fatal\<close>, and the lines logged
    before it (\<open>dotenv_log\<close> of \<open>Config\<close>, the check-mark lines and
    \<open>startup_banner\<close>) are returned with it. It shows that a token the started server's
    Login issues passes that server's gate (\<open>main_start_login_gate\<close>), which is why
    \<open>serve\<close> reads both secrets from the one configuration.
  \<^item> \<open>Spec2Isabelle\<close> (this theory): the properties of the program that span components,
    each after the text that states it, with a witness at a concrete input where it has
    hypotheses; \<open>demo_mac\<close>, \<open>demo_bcrypt\<close> and \<open>ann_db\<close> are the sample
    primitives and state the witnesses run on.

  \<^bold>\<open>What is shown.\<close> Task handlers: listing refines the filter specification (C1);
  functional behaviour on every branch (C2, C5, C6, C8, C10); owner isolation (C3, C4);
  the SQL text is independent of the inputs and parses back (C11 to C14); statistics are
  consistent on one state (C15), equal a one-pass reference \<open>stats_of\<close> (C38), count
  as overdue exactly the open tasks due strictly before now (C9), and are not atomic: an
  insert between the counts makes completed plus pending exceed total (C17).
  Authentication: a registered user logs in and the token passes the gate for 24 hours
  exactly (C18, C19); the token Login returns decodes to the HS256 header and exactly the
  requested address, the expiry and the user id (C35); what the gate accepts carries a MAC
  under the secret (C20) and what it refuses (C21, C22, C26); Login does not tell unknown
  addresses from wrong passwords (C23); a hash checks against its password (C33). Router
  and start-up: the gate answers before every protected handler (C36), the invariant
  over every reachable state (C25), a token of the started server's Login passes its gate
  (C39), the specification's scenario run through the router from empty tables (C40).
  Findings: a malformed path id gives 500 (C7), GetStats hides database errors (C16), the
  default secret lets anyone forge tokens (C24), an empty \<open>JWT_SECRET\<close> falls back to
  it (C37), tokens without \<open>exp\<close> never expire (C28), a missing \<open>user_id\<close> gives 500
  (C27), registration races and long passwords give 500 (C30, C31), bcrypt truncates at
  72 bytes (C32), profile errors are 404 (C34).

  \<^bold>\<open>Modelling choices.\<close> Times are integers (seconds); \<open>CURRENT_TIMESTAMP\<close> and
  \<open>time.Now()\<close> are the clock argument \<open>now\<close>. Go \<open>int\<close> ids are \<open>int\<close>; the
  \<open>int4\<close> range matters only where the server parses an id and is written out
  there. Request decoding failures are \<open>None\<close> bodies. There are no loops with unbounded
  iteration in the code (the row loops run over finite result sets), and the recursive
  parsers of the libraries terminate by a length measure, so no fuel is needed and no
  termination property is stated beyond the termination proofs of those functions. JSON numbers are integers: a token whose claims hold a fraction or an
  exponent is refused by the model, and a \<open>user_id\<close> beyond \<open>2^53\<close> (which Go
  rounds through \<open>float64\<close>) is not distinguished from its exact value; both fall outside
  \<open>int4\<close> and are refused either way. The \<open>SERIAL\<close> sequences are unbounded integers
  (an overflow of \<open>nextval\<close> past the \<open>int4\<close> range is not modelled); \<open>ILIKE\<close>
  folds ASCII case byte by byte and its \<open>_\<close> matches one byte, where PostgreSQL folds
  by locale and matches one character; \<open>pg_int4\<close> reads decimal text only, the
  \<open>int4\<close> input of the PostgreSQL versions before 16; \<open>bcrypt_compare\<close> reads the
  \<open>$2a$10$\<close> prefix that \<open>HashPassword\<close> writes, not every version and cost.

  \<^bold>\<open>Not modelled.\<close> The network behind \<open>database.Connect\<close> and \<open>router.Run\<close>
  (whether the server answers and the port binds are arguments; an unreachable server
  while serving is the \<open>db_up\<close> flag), the time prefix \<open>log\<close> puts before each
  line and the request log of \<open>gin.Default\<close>'s middleware, \<open>router.Run\<close>'s socket handling and gin's path matching (the route
  constructor is the match), the parsing of the \<open>.env\<close> file, the cost of bcrypt and
  the constant-time comparison of the spec (time is not modelled), and the server's
  concurrency control (a run of several statements is modelled by the states each
  statement sees).
\<close>

abbreviation sample_task :: task where
  "sample_task \<equiv> \<lparr>task_id = 1, task_user_id = 1, title = ''Write report'', description = '''',
     priority = PriorityHigh, category = CategoryWork, is_completed = False, due_date = None,
     created_at = 0, updated_at = 0\<rparr>"

abbreviation sample_db :: db where
  "sample_db \<equiv> \<lparr>users = [\<lparr>user_id = 1, user_name = ''ann'', email = ''ann@example.com'',
       password = ''$2a$10$hash'', user_created_at = 0, user_updated_at = 0\<rparr>],
     tasks = [sample_task], user_seq = 2, task_seq = 2, db_up = True\<rparr>"

abbreviation no_filters :: list_params where
  "no_filters \<equiv> \<lparr>q_priority = [], q_category = [], q_is_completed = [], q_search = []\<rparr>"

abbreviation rename_request :: update_task_request where
  "rename_request \<equiv> \<lparr>utr_title = Some ''Final report'', utr_description = None, utr_priority = None,
     utr_category = None, utr_is_completed = None, utr_due_date = None\<rparr>"

abbreviation call_request :: create_task_request where
  "call_request \<equiv> \<lparr>ctr_title = ''Call bank'', ctr_description = '''', ctr_priority = '''',
     ctr_category = '''', ctr_due_date = None\<rparr>"

abbreviation demo_mac :: hmac_fn where "demo_mac \<equiv> \<lambda>a k m. k @ m"

abbreviation demo_bcrypt :: bcrypt_core where "demo_bcrypt \<equiv> \<lambda>s k. take 31 (k @ replicate 31 CHR ''x'')"

abbreviation demo_salt :: string where "demo_salt \<equiv> replicate 22 CHR ''s''"

abbreviation ann_register :: register_request where
  "ann_register \<equiv> \<lparr>rr_name = ''Ann'', rr_email = ''ann@x.com'', rr_password = ''secret1''\<rparr>"

abbreviation ann_user :: user where
  "ann_user \<equiv> \<lparr>user_id = 1, user_name = ''Ann'', email = ''ann@x.com'',
     password = bcrypt_prefix @ demo_salt @ demo_bcrypt demo_salt (blowfish_key ''secret1''), user_created_at = 0, user_updated_at = 0\<rparr>"

abbreviation ann_db :: db where
  "ann_db \<equiv> \<lparr>users = [ann_user], tasks = [], user_seq = 2, task_seq = 1, db_up = True\<rparr>"

abbreviation ann_token :: string where
  "ann_token \<equiv> jwt_sign demo_mac HS256 ''k'' (login_claims ann_user 1)"

abbreviation ann_header :: string where
  "ann_header \<equiv> b64_encode (json_obj (jwt_header HS256))"

abbreviation ann_claims :: string where
  "ann_claims \<equiv> b64_encode (json_obj (login_claims ann_user 1))"

abbreviation none_header :: string where
  "none_header \<equiv> b64_encode (json_obj [(''alg'', JStr ''none''), (''typ'', JStr ''JWT'')])"

abbreviation ann_register2 :: register_request where
  "ann_register2 \<equiv> \<lparr>rr_name = ''Ann B'', rr_email = ''ann@x.com'', rr_password = ''secret2''\<rparr>"

abbreviation buy_milk :: create_task_request where
  "buy_milk \<equiv> \<lparr>ctr_title = ''Buy milk'', ctr_description = [], ctr_priority = [], ctr_category = [],
     ctr_due_date = None\<rparr>"

text \<open>C1: on a reachable database, \<open>GetTasks\<close> answers 200 with exactly the caller's tasks that satisfy the present query filters (as a multiset), newest first: the statement text the handler builds, read back and executed by the server, selects what the filter specification says.\<close>
theorem get_tasks_correct:
  assumes "db_up d"
  shows "\<exists>ts. get_tasks d u f = SuccessResponse 200 ''Tasks retrieved successfully'' (TaskListData ts) \<and>
     mset ts = mset (filter (\<lambda>t. task_user_id t = u \<and> matches_filters f t) (tasks d)) \<and>
     sorted_wrt (\<lambda>a b. created_at b \<le> created_at a) ts"
proof (intro exI conjI)
  let ?ts = "order_created_desc (list_tasks_spec d u f)"
  show "get_tasks d u f = SuccessResponse 200 ''Tasks retrieved successfully'' (TaskListData ?ts)"
    using assms by (simp add: get_tasks_exec)
  show "mset ?ts = mset (filter (\<lambda>t. task_user_id t = u \<and> matches_filters f t) (tasks d))"
    by (simp add: mset_order_created_desc list_tasks_spec_def)
  have "sorted (map (\<lambda>t. - created_at t) (sort_key (\<lambda>t. - created_at t) (list_tasks_spec d u f)))"
    by (rule sorted_sort_key)
  then show "sorted_wrt (\<lambda>a b. created_at b \<le> created_at a) ?ts"
    by (simp add: order_created_desc_def sorted_map sorted_wrt_iff_nth_less)
qed

theorem get_tasks_correct_witness:
  "db_up sample_db \<and>
   (\<exists>ts. get_tasks sample_db 1 no_filters = SuccessResponse 200 ''Tasks retrieved successfully'' (TaskListData ts) \<and>
     mset ts = mset (filter (\<lambda>t. task_user_id t = 1 \<and> matches_filters no_filters t) (tasks sample_db)) \<and>
     sorted_wrt (\<lambda>a b. created_at b \<le> created_at a) ts)"
  using get_tasks_correct [of sample_db 1 no_filters] by simp

text \<open>C2: \<open>UpdateTask\<close> on a well-formed database, for a task the caller owns whose id the path parameter spells, with a request that passes validation, rewrites exactly that row by the partial-update specification \<open>apply_update\<close> (present fields overwritten, the others kept, \<open>updated_at\<close> set) and answers 200 with the new row.\<close>
theorem update_task_correct:
  assumes "db_wf d" and "db_up d" and "t \<in> set (tasks d)" and "task_user_id t = u"
    and "pg_int4 tid = Some (task_id t)" and "valid_update_task_request r"
  shows "update_task d now u tid (Some r) =
     (d\<lparr>tasks := map (\<lambda>x. if x = t then apply_update r now x else x) (tasks d)\<rparr>,
      SuccessResponse 200 ''Task updated successfully'' (TaskData (apply_update r now t)))"
proof -
  have key: "task_key tid u = Some (\<lambda>x. task_id x = task_id t \<and> task_user_id x = u)"
    using assms(5) by (simp add: task_key_def)
  have "sql_update_tasks d (\<lambda>x. task_id x = task_id t \<and> task_user_id x = u) (apply_update r now) =
     Some (d\<lparr>tasks := map (\<lambda>x. if x = t then apply_update r now x else x) (tasks d)\<rparr>, [apply_update r now t])"
    using owned_row_update [OF assms(1-3) key] assms(4) by simp
  with key show ?thesis by (simp add: update_task_valid [OF assms(6)])
qed

theorem update_task_correct_witness:
  "update_task sample_db 5 1 ''1'' (Some rename_request) =
     (sample_db\<lparr>tasks := [sample_task\<lparr>title := ''Final report'', updated_at := 5\<rparr>]\<rparr>,
      SuccessResponse 200 ''Task updated successfully'' (TaskData (sample_task\<lparr>title := ''Final report'', updated_at := 5\<rparr>)))"
proof -
  have "pg_int4 ''1'' = Some 1" by code_simp
  then show ?thesis
    using update_task_correct [of sample_db sample_task 1 "''1''" rename_request 5]
    by (simp add: db_wf_def valid_update_task_request_def apply_update_def)
qed

text \<open>C3: no task operation changes a task of another user: the rows not owned by the caller are the same list before and after any of the seven task routes.\<close>
theorem task_ops_isolation: "others_tasks u (fst (run_task_op d now u op)) = others_tasks u d"
  by (cases op) (simp_all add: create_task_others update_task_others delete_task_others
    toggle_complete_others)

text \<open>C4: every task a task route shows in its response belongs to the caller.\<close>
theorem task_ops_show_own:
  "list_all (\<lambda>t. task_user_id t = u) (resp_tasks (snd (run_task_op d now u op)))"
proof (cases op)
  case (OpCreateTask body)
  then show ?thesis
    by (auto simp: create_task_def dest!: insert_task_row_Some split: option.splits)
next
  case (OpGetTasks f)
  then show ?thesis by (simp add: get_tasks_exec list_tasks_spec_def list_all_iff)
next
  case OpGetStats
  then show ?thesis by (simp add: get_stats_def get_stats_at_def)
next
  case (OpGetTask tid)
  then show ?thesis
    by (auto simp: get_task_def query_row_def split: option.split list.split dest: bind_select_owner)
next
  case (OpUpdateTask tid body)
  then show ?thesis
  proof (cases body)
    case (Some r)
    show ?thesis
    proof (cases "valid_update_task_request r")
      case True
      have "task_user_id t = u"
        if "Option.bind (task_key tid u) (\<lambda>P. sql_update_tasks d P (apply_update r now)) = Some (d', t # rs)"
        for d' t rs
        using that by (rule bind_update_owner) simp
      then show ?thesis
        unfolding OpUpdateTask Some run_task_op.simps update_task_valid [OF True]
        by (rule row_result_owner)
    qed (simp add: OpUpdateTask Some update_task_def)
  qed (simp add: update_task_def)
next
  case (OpDeleteTask tid)
  then show ?thesis by (simp add: delete_task_def split: option.split prod.split)
next
  case (OpToggleComplete tid)
  have "task_user_id t = u"
    if "Option.bind (task_key tid u) (\<lambda>P. sql_update_tasks d P (toggle_row now)) = Some (d', t # rs)"
    for d' t rs
    using that by (rule bind_update_owner) simp
  then show ?thesis
    unfolding OpToggleComplete run_task_op.simps toggle_complete_def by (rule row_result_owner)
qed

text \<open>C10: a request that names a task the caller does not own (no row with that id, or a row of another user) gets 404 from GetTask, UpdateTask, DeleteTask and ToggleComplete alike, and leaves the tables unchanged: another user's task is indistinguishable from a missing one.\<close>
theorem not_owned_not_found:
  assumes "db_up d" and "pg_int4 tid = Some i"
    and "\<forall>t \<in> set (tasks d). task_id t = i \<longrightarrow> task_user_id t \<noteq> u"
    and "valid_update_task_request r"
  shows "run_task_op d now u (OpGetTask tid) = (d, ErrorResponse 404 ''Task not found'') \<and>
     run_task_op d now u (OpUpdateTask tid (Some r)) = (d, ErrorResponse 404 ''Task not found'') \<and>
     run_task_op d now u (OpDeleteTask tid) = (d, ErrorResponse 404 ''Task not found'') \<and>
     run_task_op d now u (OpToggleComplete tid) = (d, ErrorResponse 404 ''Task not found'')"
proof -
  let ?P = "\<lambda>t. task_id t = i \<and> task_user_id t = u"
  have key: "task_key tid u = Some ?P" using assms(2) by (simp add: task_key_def)
  have none: "filter ?P (tasks d) = []" using key assms(3,2) by (rule no_owned_row)
  have "sql_update_tasks d ?P (apply_update r now) = Some (d, [])"
    using assms(1) none by (rule sql_update_no_row)
  moreover have "sql_update_tasks d ?P (toggle_row now) = Some (d, [])"
    using assms(1) none by (rule sql_update_no_row)
  moreover have "sql_delete_tasks d ?P = Some (d, 0)"
    using assms(1) none by (rule sql_delete_no_row)
  moreover have "sql_select_tasks d ?P = Some []"
    using assms(1) none by (simp add: sql_select_tasks_def)
  ultimately show ?thesis
    using key by (simp add: get_task_def query_row_def update_task_valid [OF assms(4)]
      delete_task_def toggle_complete_def)
qed

theorem not_owned_not_found_witness:
  "run_task_op sample_db 5 2 (OpGetTask ''1'') = (sample_db, ErrorResponse 404 ''Task not found'') \<and>
   run_task_op sample_db 5 2 (OpUpdateTask ''1'' (Some rename_request)) = (sample_db, ErrorResponse 404 ''Task not found'') \<and>
   run_task_op sample_db 5 2 (OpDeleteTask ''1'') = (sample_db, ErrorResponse 404 ''Task not found'') \<and>
   run_task_op sample_db 5 2 (OpToggleComplete ''1'') = (sample_db, ErrorResponse 404 ''Task not found'')"
proof -
  have "pg_int4 ''1'' = Some 1" by code_simp
  then show ?thesis
    using not_owned_not_found [of sample_db "''1''" 1 2 rename_request 5]
    by (simp add: valid_update_task_request_def)
qed

text \<open>C11: the SQL text GetTasks sends depends only on which filters are present, never on their values or on the user id; user input reaches the server only as bound arguments, so no filter value can change the statement (no SQL injection).\<close>
theorem list_query_text_shape:
  assumes "list_shape f = list_shape g"
  shows "fst (get_tasks_query u f) = fst (get_tasks_query v g)"
  using list_stmt_shape [OF assms] by (simp add: get_tasks_query_render)

theorem list_query_text_shape_witness:
  "list_shape (no_filters\<lparr>q_search := ''report''\<rparr>) = list_shape (no_filters\<lparr>q_search := ''x% OR 1=1 --''\<rparr>) \<and>
   fst (get_tasks_query 1 (no_filters\<lparr>q_search := ''report''\<rparr>)) =
   fst (get_tasks_query 2 (no_filters\<lparr>q_search := ''x% OR 1=1 --''\<rparr>))"
  using list_query_text_shape [of "no_filters\<lparr>q_search := ''report''\<rparr>"
      "no_filters\<lparr>q_search := ''x% OR 1=1 --''\<rparr>" 1 2]
  by (simp add: list_shape_def)

text \<open>C12: the SQL text UpdateTask sends depends only on which request fields are present, never on their values, on the path id or on the user id.\<close>
theorem update_query_text_shape:
  assumes "update_shape r = update_shape r'"
  shows "fst (update_task_query r tid u) = fst (update_task_query r' tid' u')"
  using update_stmt_shape [OF assms] by (simp add: update_task_query_render)

theorem update_query_text_shape_witness:
  "update_shape rename_request = update_shape (rename_request\<lparr>utr_title := Some ''x, user_id = 2 --''\<rparr>) \<and>
   fst (update_task_query rename_request ''1'' 1) =
   fst (update_task_query (rename_request\<lparr>utr_title := Some ''x, user_id = 2 --''\<rparr>) ''1; DROP TABLE tasks'' 2)"
  using update_query_text_shape [of rename_request "rename_request\<lparr>utr_title := Some ''x, user_id = 2 --''\<rparr>"
      "''1''" 1 "''1; DROP TABLE tasks''" 2]
  by (simp add: update_shape_def)

text \<open>C13: the server reads the GetTasks text back as the intended statement (the present filters, numbered from 2), and its placeholders are exactly 1 to the number of bound arguments.\<close>
theorem list_query_roundtrip:
  "parse_select (fst (get_tasks_query u f)) = Some (list_stmt f) \<and>
   params_match (select_params (list_stmt f)) (snd (get_tasks_query u f))"
  by (simp add: get_tasks_query_render parse_render_select list_params_match)

text \<open>C14: the server reads the UpdateTask text back as the intended statement (one assignment per present field, then the id and owner keys), and its placeholders are exactly 1 to the number of bound arguments.\<close>
theorem update_query_roundtrip:
  "parse_update (fst (update_task_query r tid u)) = Some (update_stmt_of r) \<and>
   params_match (update_params (update_stmt_of r)) (snd (update_task_query r tid u))"
  by (simp add: update_task_query_render parse_render_update update_params_match)

text \<open>C15: on one state, GetStats answers 200 with consistent counts: completed plus pending is total, high-priority tasks are at most total, overdue tasks are at most pending.\<close>
theorem get_stats_consistent:
  "\<exists>s. get_stats d u now = SuccessResponse 200 ''Statistics retrieved successfully'' (StatsData s) \<and>
     completed s + pending s = total s \<and> high_priority s \<le> total s \<and> overdue s \<le> pending s"
proof (cases "db_up d")
  case True
  let ?own = "\<lambda>t. task_user_id t = u"
  have "length (filter (\<lambda>t. ?own t \<and> is_completed t) (tasks d)) +
        length (filter (\<lambda>t. ?own t \<and> \<not> is_completed t) (tasks d)) = length (filter ?own (tasks d))"
    by (rule length_filter_split)
  moreover have "length (filter (\<lambda>t. ?own t \<and> priority_value (priority t) = ''high'') (tasks d))
        \<le> length (filter ?own (tasks d))"
    by (rule length_filter_mono) simp
  moreover have "length (filter (\<lambda>t. ?own t \<and> \<not> is_completed t \<and> overdue_at now t) (tasks d))
        \<le> length (filter (\<lambda>t. ?own t \<and> \<not> is_completed t) (tasks d))"
    by (rule length_filter_mono) simp
  ultimately show ?thesis
    using True by (simp add: get_stats_def get_stats_at_def sql_count_tasks_def count_or_zero_def)
next
  case False
  then show ?thesis
    by (simp add: get_stats_def get_stats_at_def sql_count_tasks_def count_or_zero_def)
qed

text \<open>C16: when the database fails, GetStats still answers 200, with every count zero: the errors of the five Scan calls are dropped.\<close>
theorem get_stats_db_down:
  assumes "\<not> db_up d"
  shows "get_stats d u now = SuccessResponse 200 ''Statistics retrieved successfully''
     (StatsData \<lparr>total = 0, completed = 0, pending = 0, high_priority = 0, overdue = 0\<rparr>)"
  using assms by (simp add: get_stats_def get_stats_at_def sql_count_tasks_def count_or_zero_def)

theorem get_stats_db_down_witness:
  "\<not> db_up (sample_db\<lparr>db_up := False\<rparr>) \<and>
   get_stats (sample_db\<lparr>db_up := False\<rparr>) 1 10 = SuccessResponse 200 ''Statistics retrieved successfully''
     (StatsData \<lparr>total = 0, completed = 0, pending = 0, high_priority = 0, overdue = 0\<rparr>)"
  using get_stats_db_down [of "sample_db\<lparr>db_up := False\<rparr>" 1 10] by simp

text \<open>C17: GetStats is not atomic: each of its five statements runs on its own and reads
  the tables as they are when it runs. For every state and every task CreateTask creates
  for the caller, if that insert commits after the first count and before the others, the
  response reports completed plus pending one more than total.\<close>
theorem get_stats_interleaved:
  assumes "create_task d t1 u body = (d', SuccessResponse c m (TaskData t))"
  shows "\<exists>s. get_stats_at (\<lambda>k. if k = 0 then d else d') u now =
           SuccessResponse 200 ''Statistics retrieved successfully'' (StatsData s) \<and>
         completed s + pending s = total s + 1"
proof -
  obtain req where ins: "insert_task_row d t1 u req = Some (d', t)"
    using create_task_inserted [OF assms] by blast
  note row = insert_task_row_Some [OF ins] and up = insert_task_row_up [OF ins]
  let ?own = "\<lambda>x. task_user_id x = u"
  have "length (filter (\<lambda>x. ?own x \<and> is_completed x) (tasks d')) +
        length (filter (\<lambda>x. ?own x \<and> \<not> is_completed x) (tasks d')) = length (filter ?own (tasks d)) + 1"
    using length_filter_split [of ?own is_completed "tasks d'"] row by simp
  then show ?thesis
    using up by (simp add: get_stats_at_def sql_count_tasks_def count_or_zero_def)
qed

theorem get_stats_interleaved_witness:
  "\<exists>s. get_stats_at (\<lambda>k. if k = 0 then sample_db else fst (create_task sample_db 5 1 (Some call_request))) 1 10 =
         SuccessResponse 200 ''Statistics retrieved successfully'' (StatsData s) \<and>
       completed s + pending s = total s + 1 \<and> total s = 1 \<and> pending s = 2"
proof -
  obtain t where ok: "snd (create_task sample_db 5 1 (Some call_request)) =
      SuccessResponse 201 ''Task created successfully'' (TaskData t)"
    by (simp add: create_task_def valid_create_task_request_def create_task_defaults_def
        insert_task_row_def parse_priority_def parse_category_def sql_insert_task_def)
  have "create_task sample_db 5 1 (Some call_request) =
      (fst (create_task sample_db 5 1 (Some call_request)), SuccessResponse 201 ''Task created successfully'' (TaskData t))"
    using ok by (metis prod.collapse)
  from get_stats_interleaved [OF this, where now = 10] show ?thesis
    by (simp add: get_stats_at_def create_task_def valid_create_task_request_def create_task_defaults_def
        insert_task_row_def parse_priority_def parse_category_def sql_insert_task_def sql_count_tasks_def
        count_or_zero_def)
qed

text \<open>C5: CreateTask with a request that passes validation, on a reachable database, appends exactly one row owned by the caller, with the next SERIAL id, the request's fields, priority \<open>medium\<close> and category \<open>personal\<close> where the request leaves them empty, not completed, and both timestamps at the statement's time; it answers 201 with that row.\<close>
theorem create_task_correct:
  assumes "valid_create_task_request req" and "db_up d"
  shows "\<exists>t. create_task d now u (Some req) =
       (d\<lparr>tasks := tasks d @ [t], task_seq := task_seq d + 1\<rparr>,
        SuccessResponse 201 ''Task created successfully'' (TaskData t)) \<and>
     task_id t = task_seq d \<and> task_user_id t = u \<and> title t = ctr_title req \<and>
     description t = ctr_description req \<and>
     priority_value (priority t) = (if ctr_priority req = [] then ''medium'' else ctr_priority req) \<and>
     category_value (category t) = (if ctr_category req = [] then ''personal'' else ctr_category req) \<and>
     \<not> is_completed t \<and> due_date t = ctr_due_date req \<and> created_at t = now \<and> updated_at t = now"
proof -
  obtain p c where p: "parse_priority (ctr_priority (create_task_defaults req)) = Some p"
    and c: "parse_category (ctr_category (create_task_defaults req)) = Some c"
    using create_task_defaults_parse [OF assms(1)] by blast
  let ?t = "\<lparr>task_id = task_seq d, task_user_id = u, title = ctr_title req,
     description = ctr_description req, priority = p, category = c, is_completed = False,
     due_date = ctr_due_date req, created_at = now, updated_at = now\<rparr>"
  have run: "create_task d now u (Some req) =
       (d\<lparr>tasks := tasks d @ [?t], task_seq := task_seq d + 1\<rparr>,
        SuccessResponse 201 ''Task created successfully'' (TaskData ?t))"
    using assms p c by (simp add: create_task_def insert_task_row_def sql_insert_task_def)
  have "priority_value p = (if ctr_priority req = [] then ''medium'' else ctr_priority req)"
    using p by (simp add: parse_priority_Some create_task_defaults_def)
  moreover have "category_value c = (if ctr_category req = [] then ''personal'' else ctr_category req)"
    using c by (simp add: parse_category_Some create_task_defaults_def)
  ultimately show ?thesis using run by auto
qed

theorem create_task_correct_witness:
  "\<exists>t. create_task sample_db 5 1 (Some call_request) =
       (sample_db\<lparr>tasks := tasks sample_db @ [t], task_seq := task_seq sample_db + 1\<rparr>,
        SuccessResponse 201 ''Task created successfully'' (TaskData t)) \<and>
     task_id t = 2 \<and> task_user_id t = 1 \<and> title t = ''Call bank'' \<and> description t = [] \<and>
     priority_value (priority t) = ''medium'' \<and> category_value (category t) = ''personal'' \<and>
     \<not> is_completed t \<and> due_date t = None \<and> created_at t = 5 \<and> updated_at t = 5"
  using create_task_correct [of call_request sample_db 5 1]
  by (simp add: valid_create_task_request_def)

text \<open>C6: GetTask, given the decimal text of the id of a task the caller owns (within the \<open>int4\<close> range), answers 200 with exactly that row.\<close>
theorem get_task_by_id:
  assumes "db_wf d" and "db_up d" and "t \<in> set (tasks d)" and "task_user_id t = u"
    and "0 \<le> task_id t" and "task_id t < 2 ^ 31"
  shows "get_task d u (go_itoa (nat (task_id t))) =
     SuccessResponse 200 ''Task retrieved successfully'' (TaskData t)"
proof -
  let ?P = "\<lambda>x. task_id x = task_id t \<and> task_user_id x = u"
  have key: "task_key (go_itoa (nat (task_id t))) u = Some ?P"
    using pg_int4_go_itoa [OF assms(5,6)] by (simp add: task_key_def)
  have "distinct (map task_id (tasks d))" using assms(1) by (simp add: db_wf_def)
  then have "filter ?P (tasks d) = [t]"
    by (rule filter_unique_row [of "tasks d" t ?P]) (simp_all add: assms(3,4))
  with key assms(2) show ?thesis
    by (simp add: get_task_def query_row_def sql_select_tasks_def)
qed

theorem get_task_by_id_witness:
  "get_task sample_db 1 ''1'' = SuccessResponse 200 ''Task retrieved successfully'' (TaskData sample_task)"
  using get_task_by_id [of sample_db sample_task 1]
  by (simp add: db_wf_def go_itoa_small)

text \<open>C7: a path id that PostgreSQL cannot read as an \<open>int4\<close> makes GetTask, UpdateTask, DeleteTask and ToggleComplete fail with 500 (an internal error), not with 400 or 404, and leaves the tables unchanged.\<close>
theorem malformed_id_internal_error:
  assumes "pg_int4 tid = None" and "valid_update_task_request r"
  shows "get_task d u tid = ErrorResponse 500 ''Failed to fetch task'' \<and>
     update_task d now u tid (Some r) = (d, ErrorResponse 500 ''Failed to update task'') \<and>
     delete_task d u tid = (d, ErrorResponse 500 ''Failed to delete task'') \<and>
     toggle_complete d now u tid = (d, ErrorResponse 500 ''Failed to toggle task'')"
proof -
  have "task_key tid u = None" using assms(1) by (simp add: task_key_def)
  then show ?thesis
    by (simp add: get_task_def query_row_def update_task_valid [OF assms(2)] delete_task_def
        toggle_complete_def)
qed

theorem malformed_id_internal_error_witness:
  "get_task sample_db 1 ''abc'' = ErrorResponse 500 ''Failed to fetch task'' \<and>
   update_task sample_db 5 1 ''abc'' (Some rename_request) = (sample_db, ErrorResponse 500 ''Failed to update task'') \<and>
   delete_task sample_db 1 ''abc'' = (sample_db, ErrorResponse 500 ''Failed to delete task'') \<and>
   toggle_complete sample_db 5 1 ''abc'' = (sample_db, ErrorResponse 500 ''Failed to toggle task'')"
proof -
  have "pg_int4 ''abc'' = None" by code_simp
  then show ?thesis
    using malformed_id_internal_error [of "''abc''" rename_request sample_db 1 5]
    by (simp add: valid_update_task_request_def)
qed

text \<open>C8: ToggleComplete on a task the caller owns flips its completion flag and sets \<open>updated_at\<close>, in one statement, changes no other row, and answers 200 with the new row.\<close>
theorem toggle_complete_correct:
  assumes "db_wf d" and "db_up d" and "t \<in> set (tasks d)" and "task_user_id t = u"
    and "pg_int4 tid = Some (task_id t)"
  shows "toggle_complete d now u tid =
     (d\<lparr>tasks := map (\<lambda>x. if x = t then x\<lparr>is_completed := \<not> is_completed x, updated_at := now\<rparr> else x)
          (tasks d)\<rparr>,
      SuccessResponse 200 ''Task toggled successfully''
        (TaskData (t\<lparr>is_completed := \<not> is_completed t, updated_at := now\<rparr>)))"
proof -
  have key: "task_key tid u = Some (\<lambda>x. task_id x = task_id t \<and> task_user_id x = u)"
    using assms(5) by (simp add: task_key_def)
  have "sql_update_tasks d (\<lambda>x. task_id x = task_id t \<and> task_user_id x = u) (toggle_row now) =
     Some (d\<lparr>tasks := map (\<lambda>x. if x = t then toggle_row now x else x) (tasks d)\<rparr>, [toggle_row now t])"
    using owned_row_update [OF assms(1-3) key] assms(4) by simp
  with key show ?thesis by (simp add: toggle_complete_def toggle_row_def)
qed

theorem toggle_complete_correct_witness:
  "toggle_complete sample_db 5 1 ''1'' =
     (sample_db\<lparr>tasks := [sample_task\<lparr>is_completed := True, updated_at := 5\<rparr>]\<rparr>,
      SuccessResponse 200 ''Task toggled successfully'' (TaskData (sample_task\<lparr>is_completed := True, updated_at := 5\<rparr>)))"
proof -
  have "pg_int4 ''1'' = Some 1" by code_simp
  then show ?thesis
    using toggle_complete_correct [of sample_db sample_task 1 "''1''" 5] by (simp add: db_wf_def)
qed

text \<open>C18: A registration of a new address answers 201 with the new user; a login with the same address and password then answers 200 with a token and that user, and the gate lets the token through for the new user id during the 24 hours after the login.\<close>
theorem register_login_gate:
  assumes "db_wf d" and "db_up d" and "bcrypt_params_ok H salt"
    and "valid_register_request is_email req" and "rr_email req \<notin> email ` set (users d)"
    and "length (rr_password req) \<le> 72" and "int4_range (user_seq d)"
    and "0 < t1" and "t2 < t1 + 86400"
  shows "\<exists>d' u tok.
     register H salt is_email d t0 (Some req) =
       (d', SuccessResponse 201 ''User registered successfully'' (UserData u)) \<and>
     login mac s H is_email d' t1 (Some \<lparr>lr_email = rr_email req, lr_password = rr_password req\<rparr>) =
       SuccessResponse 200 ''Login successful'' (LoginData \<lparr>lresp_token = tok, lresp_user = u\<rparr>) \<and>
     auth_middleware mac s d' t2 (''Bearer '' @ tok) = GatePass (user_id u)"
proof -
  define hashed where "hashed = bcrypt_prefix @ salt @ H salt (blowfish_key (rr_password req))"
  define u where "u = new_user_row req hashed t0 (user_seq d)"
  define d' where "d' = d\<lparr>users := users d @ [u], user_seq := user_seq d + 1\<rparr>"
  have reg: "register H salt is_email d t0 (Some req) =
      (d', SuccessResponse 201 ''User registered successfully'' (UserData (u\<lparr>password := []\<rparr>)))"
    using register_at_new [of is_email req "\<lambda>_. d"] assms(2,4,5,6)
    by (simp add: register_def d'_def u_def hashed_def Let_def)
  have wf: "db_wf d'"
    using register_at_wf [of "\<lambda>_. d" H salt is_email t0 "Some req"] assms(1) reg by (simp add: register_def)
  have mem: "u \<in> set (users d')" by (simp add: d'_def)
  have "hash_password H salt (rr_password req) = Some hashed"
    using assms(6) by (simp add: hash_password_def bcrypt_generate_def hashed_def)
  then have chk: "check_password H (rr_password req) (password u)"
    using assms(3) by (simp add: u_def new_user_row_def check_password_hash)
  have login: "login mac s H is_email d' t1 (Some \<lparr>lr_email = rr_email req, lr_password = rr_password req\<rparr>) =
      SuccessResponse 200 ''Login successful''
        (LoginData \<lparr>lresp_token = jwt_sign mac HS256 s (login_claims u t1), lresp_user = u\<lparr>password := []\<rparr>\<rparr>)"
    using login_valid [OF wf _ mem valid_login_of_register [OF assms(4)]] assms(2) chk
    by (simp add: d'_def u_def new_user_row_def)
  have gate: "auth_middleware mac s d' t2 (''Bearer '' @ jwt_sign mac HS256 s (login_claims u t1)) =
      GatePass (user_id u)"
    using gate_login_token [of d' u] assms(2,7,8,9) mem by (simp add: d'_def u_def new_user_row_def)
  show ?thesis using reg login gate by fastforce
qed

theorem register_login_gate_witness:
  "\<exists>d' u tok.
     register demo_bcrypt demo_salt (\<lambda>_. True) initial_db 0 (Some ann_register) =
       (d', SuccessResponse 201 ''User registered successfully'' (UserData u)) \<and>
     login demo_mac ''k'' demo_bcrypt (\<lambda>_. True) d' 1 (Some \<lparr>lr_email = ''ann@x.com'', lr_password = ''secret1''\<rparr>) =
       SuccessResponse 200 ''Login successful'' (LoginData \<lparr>lresp_token = tok, lresp_user = u\<rparr>) \<and>
     auth_middleware demo_mac ''k'' d' 2 (''Bearer '' @ tok) = GatePass (user_id u)"
proof -
  have "valid_register_request (\<lambda>_. True) ann_register"
    by (simp add: valid_register_request_def rune_count_def)
  moreover have "bcrypt_params_ok demo_bcrypt demo_salt" by (simp add: bcrypt_params_ok_def min_def)
  ultimately show ?thesis
    using register_login_gate [of initial_db demo_bcrypt demo_salt "\<lambda>_. True" ann_register 1 2 0 demo_mac "''k''"]
    by (simp add: initial_db_def db_wf_def int4_range_def)
qed

text \<open>Ann logs in with her password on the sample state, under any secret.\<close>

lemma ann_login:
  "login demo_mac s demo_bcrypt (\<lambda>_. True) ann_db 1
      (Some \<lparr>lr_email = ''ann@x.com'', lr_password = ''secret1''\<rparr>) =
    SuccessResponse 200 ''Login successful''
      (LoginData \<lparr>lresp_token = jwt_sign demo_mac HS256 s (login_claims ann_user 1), lresp_user = ann_user\<lparr>password := []\<rparr>\<rparr>)"
proof -
  have "check_password demo_bcrypt ''secret1'' (password ann_user)" by code_simp
  then show ?thesis by (simp add: login_def valid_login_request_def sql_simps)
qed

text \<open>C19: A token issued by Login at a positive time t0 passes the gate, while its user exists, exactly at the instants before t0 + 86400, and is refused as invalid or expired from then on.\<close>
theorem login_token_lifetime:
  assumes "login mac s H is_email d t0 body = SuccessResponse c m (LoginData \<lparr>lresp_token = tok, lresp_user = v\<rparr>)"
    and "0 < t0" and "db_up d'" and "user_id v \<in> user_id ` set (users d')" and "int4_range (user_id v)"
  shows "auth_middleware mac s d' t (''Bearer '' @ tok) =
     (if t < t0 + 86400 then GatePass (user_id v)
      else GateReject (ErrorResponse 401 ''Invalid or expired token''))"
proof -
  obtain u where tok: "tok = jwt_sign mac HS256 s (login_claims u t0)" and v: "v = u\<lparr>password := []\<rparr>"
    using login_issued [OF assms(1)] by blast
  show ?thesis
    using gate_login_token [of d' u mac s t t0] assms(2-5) by (simp add: tok v)
qed

theorem login_token_lifetime_witness:
  "auth_middleware demo_mac ''k'' ann_db 86400
     (''Bearer '' @ jwt_sign demo_mac HS256 ''k'' (login_claims ann_user 1)) = GatePass 1 \<and>
   auth_middleware demo_mac ''k'' ann_db 86401
     (''Bearer '' @ jwt_sign demo_mac HS256 ''k'' (login_claims ann_user 1)) =
     GateReject (ErrorResponse 401 ''Invalid or expired token'')"
  using login_token_lifetime [OF ann_login [of "''k''"], where d' = ann_db and t = 86400]
    login_token_lifetime [OF ann_login [of "''k''"], where d' = ann_db and t = 86401]
  by (simp_all add: int4_range_def)

text \<open>C20: A request the gate lets through carries the header Bearer h.c.s where s decodes to the HMAC, under the configured secret, of h.c; c decodes to claims that pass validation, whose user_id is the id bound to the request, and that id is a user of the table.\<close>
theorem gate_pass_authentic:
  assumes "auth_middleware mac s d now h = GatePass uid"
  shows "\<exists>hs c sg a claims. h = ''Bearer '' @ hs @ ''.'' @ c @ ''.'' @ sg \<and>
           b64_decode sg = Some (mac a s (hs @ ''.'' @ c)) \<and> decode_json_segment c = Some claims \<and>
           claims_valid now claims \<and> json_get claims ''user_id'' = Some (JNum uid) \<and>
           uid \<in> user_id ` set (users d)"
proof -
  obtain tok claims where h: "h = ''Bearer '' @ tok"
    and p: "jwt_parse mac (mw_keyfunc s) now tok = Some claims"
    and uid: "json_get claims ''user_id'' = Some (JNum uid)" and mem: "\<exists>u \<in> set (users d). user_id u = uid"
    using auth_middleware_pass [OF assms] by blast
  obtain hs c sg a key where tok: "tok = hs @ CHR ''.'' # c @ CHR ''.'' # sg"
    and key: "mw_keyfunc s (MethodHMAC a) = Some key" and sig: "b64_decode sg = Some (mac a key (hs @ ''.'' @ c))"
    and c: "decode_json_segment c = Some claims" and v: "claims_valid now claims"
    using jwt_parse_Some [OF p] by blast
  have "key = s" using key by simp
  then show ?thesis using h tok sig c v uid mem
    by (intro exI [of _ hs] exI [of _ c] exI [of _ sg] exI [of _ a] exI [of _ claims]) auto
qed

theorem gate_pass_authentic_witness:
  "\<exists>hs c sg a claims. ''Bearer '' @ ann_token = ''Bearer '' @ hs @ ''.'' @ c @ ''.'' @ sg \<and>
     b64_decode sg = Some (demo_mac a ''k'' (hs @ ''.'' @ c)) \<and> decode_json_segment c = Some claims \<and>
     claims_valid 5 claims \<and> json_get claims ''user_id'' = Some (JNum 1) \<and> (1::int) \<in> user_id ` set (users ann_db)"
proof -
  have "auth_middleware demo_mac ''k'' ann_db 5 (''Bearer '' @ ann_token) = GatePass 1"
    using gate_login_token [of ann_db ann_user demo_mac "''k''" 5 1] by (simp add: int4_range_def)
  then show ?thesis using gate_pass_authentic [of demo_mac "''k''" ann_db 5 "''Bearer '' @ ann_token" 1]
    by blast
qed

text \<open>C21: A token whose signature segment does not decode to the HMAC of its first two segments under the secret, for every HMAC algorithm, is refused as an invalid token.\<close>
theorem gate_tampered_signature:
  assumes "jwt_split tok = Some (hs, c, sg)" and "CHR '' '' \<notin> set tok"
    and "\<forall>a. b64_decode sg \<noteq> Some (mac a s (hs @ ''.'' @ c))"
  shows "auth_middleware mac s d now (''Bearer '' @ tok) =
     GateReject (ErrorResponse 401 ''Invalid or expired token'')"
proof -
  have "jwt_parse mac (mw_keyfunc s) now tok = None"
  proof (rule ccontr)
    assume "jwt_parse mac (mw_keyfunc s) now tok \<noteq> None"
    then obtain claims where "jwt_parse mac (mw_keyfunc s) now tok = Some claims" by blast
    from jwt_parse_Some [OF this] assms(1) assms(3) show False by auto
  qed
  then show ?thesis unfolding auth_middleware_bearer [OF assms(2)] by simp
qed

theorem gate_tampered_signature_witness:
  "auth_middleware demo_mac ''k'' ann_db 5
     (''Bearer '' @ ann_header @ ''.'' @ ann_claims @ ''.'' @ b64_encode ''forged'') =
   GateReject (ErrorResponse 401 ''Invalid or expired token'')"
proof -
  have sp: "jwt_split (ann_header @ ''.'' @ ann_claims @ ''.'' @ b64_encode ''forged'') =
      Some (ann_header, ann_claims, b64_encode ''forged'')"
    by (rule jwt_split_parts) (simp_all add: b64_encode_no_dot)
  have "CHR '' '' \<notin> set (ann_header @ ''.'' @ ann_claims @ ''.'' @ b64_encode ''forged'')"
    by (simp add: b64_encode_no_space)
  moreover have "\<forall>a. b64_decode (b64_encode ''forged'') \<noteq> Some (demo_mac a ''k'' (ann_header @ ''.'' @ ann_claims))"
    by (simp add: b64_decode_encode)
  ultimately show ?thesis
    using gate_tampered_signature [OF sp, where mac = demo_mac and s = "''k''" and d = ann_db and now = 5]
    by blast
qed

text \<open>C22: A token whose header names an algorithm other than HS256, HS384 and HS512 (none, RS256, an unknown name) is refused as an invalid token, whatever its signature.\<close>
theorem gate_rejects_non_hmac:
  assumes "jwt_split tok = Some (hs, cs, ss)" and "CHR '' '' \<notin> set tok"
    and "decode_json_segment hs = Some hdr" and "\<forall>a. json_get hdr ''alg'' \<noteq> Some (JStr (alg_name a))"
  shows "auth_middleware mac s d now (''Bearer '' @ tok) =
     GateReject (ErrorResponse 401 ''Invalid or expired token'')"
proof -
  have "jwt_parse mac (mw_keyfunc s) now tok = None"
  proof (rule ccontr)
    assume "jwt_parse mac (mw_keyfunc s) now tok \<noteq> None"
    then obtain claims where "jwt_parse mac (mw_keyfunc s) now tok = Some claims" by blast
    from jwt_parse_alg [OF this assms(1)] assms(3,4) show False by auto
  qed
  then show ?thesis unfolding auth_middleware_bearer [OF assms(2)] by simp
qed

theorem gate_rejects_non_hmac_witness:
  "auth_middleware demo_mac ''k'' ann_db 5 (''Bearer '' @ none_header @ ''.'' @ ann_claims @ ''.'') =
   GateReject (ErrorResponse 401 ''Invalid or expired token'')"
proof -
  have sp: "jwt_split (none_header @ ''.'' @ ann_claims @ ''.'' @ []) = Some (none_header, ann_claims, [])"
    by (rule jwt_split_parts) (simp_all add: b64_encode_no_dot)
  have "CHR '' '' \<notin> set (none_header @ ''.'' @ ann_claims @ ''.'' @ [])"
    by (simp add: b64_encode_no_space)
  moreover have "decode_json_segment none_header =
      Some (sort_key fst [(''alg'', JStr ''none''), (''typ'', JStr ''JWT'')])"
    by (rule decode_json_segment_encode)
  moreover have "json_get (sort_key fst [(''alg'', JStr ''none''), (''typ'', JStr ''JWT'')]) ''alg'' =
      Some (JStr ''none'')"
    by (simp add: json_get_sorted) (simp add: json_get_def)
  moreover have "\<forall>a. Some (JStr ''none'') \<noteq> Some (JStr (alg_name a))"
    by (simp add: all_hmac_alg)
  ultimately show ?thesis
    using gate_rejects_non_hmac [OF sp, where mac = demo_mac and s = "''k''" and d = ann_db and now = 5]
    by simp
qed

text \<open>C23: Login answers the same 401 Invalid email or password to a wrong password for an existing address and to an address no user has.\<close>
theorem login_failure_uniform:
  assumes "db_wf d" and "db_up d"
    and "valid_login_request is_email req" and "u \<in> set (users d)" and "email u = lr_email req"
    and "\<not> check_password H (lr_password req) (password u)"
    and "valid_login_request is_email req'" and "lr_email req' \<notin> email ` set (users d)"
  shows "login mac s H is_email d now (Some req) = ErrorResponse 401 ''Invalid email or password'' \<and>
         login mac s H is_email d now (Some req') = ErrorResponse 401 ''Invalid email or password''"
  using login_valid [OF assms(1,2,4,3) assms(5) [symmetric]] login_unknown [OF assms(2,7,8)] assms(6)
  by simp

theorem login_failure_uniform_witness:
  "login demo_mac ''k'' demo_bcrypt (\<lambda>_. True) ann_db 1
      (Some \<lparr>lr_email = ''ann@x.com'', lr_password = ''wrong''\<rparr>) =
     ErrorResponse 401 ''Invalid email or password'' \<and>
   login demo_mac ''k'' demo_bcrypt (\<lambda>_. True) ann_db 1
      (Some \<lparr>lr_email = ''bob@x.com'', lr_password = ''secret1''\<rparr>) =
     ErrorResponse 401 ''Invalid email or password''"
proof -
  have "\<not> check_password demo_bcrypt ''wrong'' (password ann_user)" by code_simp
  then show ?thesis
    using login_failure_uniform [of ann_db "\<lambda>_. True" "\<lparr>lr_email = ''ann@x.com'', lr_password = ''wrong''\<rparr>"
        ann_user demo_bcrypt "\<lparr>lr_email = ''bob@x.com'', lr_password = ''secret1''\<rparr>" demo_mac "''k''" 1]
    by (simp add: db_wf_def valid_login_request_def)
qed

text \<open>C24: When JWT_SECRET is neither in the environment nor in .env, the secret is the default written in config.go, and a token anyone signs with it carrying only a user_id reads that user profile, at any time: the token has no expiry.\<close>
theorem default_secret_forgery:
  assumes "os_getenv (dotenv_load f e) ''JWT_SECRET'' = []"
    and "db_wf d" and "db_up d" and "u \<in> set (users d)" and "int4_range (user_id u)"
  shows "serve mac H is_email (load_config f e) salt now
     \<lparr>req_authorization = ''Bearer '' @
        jwt_sign mac HS256 ''your-secret-key-change-in-production'' [(''user_id'', JNum (user_id u))],
      req_route = ProfileRoute\<rparr> d =
     (d, Envelope (SuccessResponse 200 ''Profile retrieved successfully'' (UserData (u\<lparr>password := []\<rparr>))))"
proof -
  have sec: "cfg_jwt_secret (load_config f e) = ''your-secret-key-change-in-production''"
    using load_config_default_secret [OF assms(1)] by (simp add: default_jwt_secret_def)
  have "claims_valid now (sort_key fst [(''user_id'', JNum (user_id u))])"
    by (simp add: claims_valid_def numeric_date_def json_get_def)
  moreover have "claim_user_id (sort_key fst [(''user_id'', JNum (user_id u))]) = Some (user_id u)"
    by (simp add: claim_user_id_def json_get_def)
  moreover have "user_exists_query d (user_id u) = Some True"
    using assms(3-5) by (simp add: user_exists_query_member)
  ultimately have "auth_middleware mac ''your-secret-key-change-in-production'' d now
      (''Bearer '' @ jwt_sign mac HS256 ''your-secret-key-change-in-production'' [(''user_id'', JNum (user_id u))]) =
      GatePass (user_id u)"
    unfolding gate_signed by simp
  then show ?thesis
    using get_profile_row [OF assms(2-5)] by (simp add: serve_def protected_def sec)
qed

theorem default_secret_forgery_witness:
  "serve demo_mac demo_bcrypt (\<lambda>_. True) (load_config None (\<lambda>_. None)) demo_salt 5
     \<lparr>req_authorization = ''Bearer '' @
        jwt_sign demo_mac HS256 ''your-secret-key-change-in-production'' [(''user_id'', JNum 1)],
      req_route = ProfileRoute\<rparr> ann_db =
     (ann_db, Envelope (SuccessResponse 200 ''Profile retrieved successfully'' (UserData (ann_user\<lparr>password := []\<rparr>))))"
  using default_secret_forgery [of None "\<lambda>_. None" ann_db ann_user demo_mac demo_bcrypt "\<lambda>_. True" demo_salt 5]
  by (simp add: os_getenv_def dotenv_load_def db_wf_def int4_range_def)

text \<open>C26: An Authorization header that is not Bearer followed by one space and a token without spaces is refused with 401 before the token is looked at: empty as missing, anything else as malformed.\<close>
theorem gate_header_format:
  assumes "\<not> (\<exists>tok. h = ''Bearer '' @ tok \<and> CHR '' '' \<notin> set tok)"
  shows "auth_middleware mac s d now h = GateReject (ErrorResponse 401
     (if h = [] then ''Authorization header required'' else ''Invalid authorization format''))"
proof (cases "h = []")
  case False
  have "go_split CHR '' '' h \<noteq> [''Bearer'', tok]" for tok
    using assms by (simp add: go_split_bearer)
  with False show ?thesis by (auto simp: auth_middleware_def split: list.splits)
qed (simp add: auth_middleware_def)

theorem gate_header_format_witness:
  "auth_middleware demo_mac ''k'' ann_db 5 (''Bearer  '' @ ann_token) =
     GateReject (ErrorResponse 401 ''Invalid authorization format'')"
proof -
  have "\<not> (\<exists>tok. ''Bearer  '' @ ann_token = ''Bearer '' @ tok \<and> CHR '' '' \<notin> set tok)" by simp
  then show ?thesis using gate_header_format [of "''Bearer  '' @ ann_token" demo_mac "''k''" ann_db 5] by simp
qed

text \<open>C27: A correctly signed and unexpired token whose claims have no numeric user_id makes the gate panic: the request ends in gin recovery 500, not in the 401 of an invalid credential.\<close>
theorem gate_missing_user_id:
  assumes "distinct (map fst claims)" and "claims_valid now (sort_key fst claims)"
    and "\<forall>i. map_of claims ''user_id'' \<noteq> Some (JNum i)"
  shows "auth_middleware mac s d now (''Bearer '' @ jwt_sign mac a s claims) = GateReject Recovered"
proof -
  have "claim_user_id (sort_key fst claims) = None"
    using assms(3) by (simp add: claim_user_id_sorted [OF assms(1)] split: option.splits jval.splits)
  then show ?thesis unfolding gate_signed using assms(2) by simp
qed

theorem gate_missing_user_id_witness:
  "auth_middleware demo_mac ''k'' ann_db 5
     (''Bearer '' @ jwt_sign demo_mac HS256 ''k'' [(''email'', JStr ''ann@x.com'')]) = GateReject Recovered"
proof -
  have "claims_valid 5 (sort_key fst [(''email'', JStr ''ann@x.com'')])"
    by (simp add: claims_valid_def numeric_date_def json_get_def)
  then show ?thesis
    using gate_missing_user_id [of "[(''email'', JStr ''ann@x.com'')]" 5 demo_mac "''k''" ann_db HS256] by simp
qed

text \<open>C28: A correctly signed token with no exp and no nbf claim and the user_id of an existing user passes the gate at every instant: the gate does not require an expiry.\<close>
theorem token_without_expiry:
  assumes "distinct (map fst claims)" and "map_of claims ''exp'' = None" and "map_of claims ''nbf'' = None"
    and "map_of claims ''user_id'' = Some (JNum uid)" and "int4_range uid" and "db_up d"
    and "uid \<in> user_id ` set (users d)"
  shows "auth_middleware mac s d t (''Bearer '' @ jwt_sign mac a s claims) = GatePass uid"
proof -
  have "claims_valid t (sort_key fst claims)"
    using assms(2,3) by (simp add: claims_valid_def numeric_date_sorted [OF assms(1)])
  moreover have "claim_user_id (sort_key fst claims) = Some uid"
    using assms(4) by (simp add: claim_user_id_sorted [OF assms(1)])
  ultimately show ?thesis unfolding gate_signed using assms(5-7) by (simp add: user_exists_query_member)
qed

theorem token_without_expiry_witness:
  "auth_middleware demo_mac ''k'' ann_db (10 ^ 12)
     (''Bearer '' @ jwt_sign demo_mac HS256 ''k'' [(''user_id'', JNum 1)]) = GatePass 1"
  using token_without_expiry [of "[(''user_id'', JNum 1)]" 1 ann_db demo_mac "''k''" "10 ^ 12" HS256]
  by (simp add: int4_range_def)

text \<open>C29: Register of an address that a user already has answers 409 Email already registered and leaves the tables unchanged.\<close>
theorem register_duplicate_conflict:
  assumes "valid_register_request is_email req" and "db_up d" and "rr_email req \<in> email ` set (users d)"
  shows "register H salt is_email d now (Some req) = (d, ErrorResponse 409 ''Email already registered'')"
  using register_at_taken [of is_email req "\<lambda>_. d"] assms by (simp add: register_def)

theorem register_duplicate_conflict_witness:
  "register demo_bcrypt demo_salt (\<lambda>_. True) ann_db 5 (Some ann_register) =
     (ann_db, ErrorResponse 409 ''Email already registered'')"
proof -
  have "valid_register_request (\<lambda>_. True) ann_register"
    by (simp add: valid_register_request_def rune_count_def)
  then show ?thesis using register_duplicate_conflict [of "\<lambda>_. True" ann_register ann_db demo_bcrypt demo_salt 5]
    by simp
qed

text \<open>C30: Two registrations of one address whose existence checks both run before either insert: the first creates the user and the second answers 500 Failed to create user (the unique index refuses the insert), not 409.\<close>
theorem register_race:
  assumes "valid_register_request is_email req1" and "valid_register_request is_email req2"
    and "rr_email req1 = rr_email req2" and "db_up d" and "rr_email req1 \<notin> email ` set (users d)"
    and "length (rr_password req1) \<le> 72" and "length (rr_password req2) \<le> 72"
  shows "register_at H salt is_email (\<lambda>i. if i = 0 then d else fst (register H salt is_email d now (Some req1)))
           now (Some req2) =
         (fst (register H salt is_email d now (Some req1)), ErrorResponse 500 ''Failed to create user'')"
proof -
  have "rr_email req2 \<in> email ` set (users (fst (register H salt is_email d now (Some req1))))"
    using register_at_new [of is_email req1 "\<lambda>_. d"] assms(1,3-6)
    by (simp add: register_def Let_def new_user_row_def)
  then show ?thesis using register_at_race [of is_email req2] assms(2-5,7) by simp
qed

theorem register_race_witness:
  "register_at demo_bcrypt demo_salt (\<lambda>_. True)
     (\<lambda>i. if i = 0 then initial_db else fst (register demo_bcrypt demo_salt (\<lambda>_. True) initial_db 5 (Some ann_register)))
     5 (Some ann_register2) =
   (fst (register demo_bcrypt demo_salt (\<lambda>_. True) initial_db 5 (Some ann_register)),
    ErrorResponse 500 ''Failed to create user'')"
proof -
  have "valid_register_request (\<lambda>_. True) ann_register" "valid_register_request (\<lambda>_. True) ann_register2"
    by (simp_all add: valid_register_request_def rune_count_def)
  then show ?thesis
    using register_race [of "\<lambda>_. True" ann_register ann_register2 initial_db demo_bcrypt demo_salt 5]
    by (simp add: initial_db_def)
qed

text \<open>C31: Register of a valid request whose password is longer than 72 bytes answers 500 Failed to hash password: the validator admits it and bcrypt refuses it.\<close>
theorem register_long_password:
  assumes "valid_register_request is_email req" and "db_up d"
    and "rr_email req \<notin> email ` set (users d)" and "72 < length (rr_password req)"
  shows "register H salt is_email d now (Some req) = (d, ErrorResponse 500 ''Failed to hash password'')"
  using register_at_long_password [of is_email req "\<lambda>_. d"] assms by (simp add: register_def)

theorem register_long_password_witness:
  "register demo_bcrypt demo_salt (\<lambda>_. True) initial_db 5
     (Some \<lparr>rr_name = ''Ann'', rr_email = ''ann@x.com'', rr_password = replicate 73 CHR ''a''\<rparr>) =
   (initial_db, ErrorResponse 500 ''Failed to hash password'')"
proof -
  have "valid_register_request (\<lambda>_. True) \<lparr>rr_name = ''Ann'', rr_email = ''ann@x.com'', rr_password = replicate 73 CHR ''a''\<rparr>"
    by (simp add: valid_register_request_def rune_count_def)
  then show ?thesis
    using register_long_password [of "\<lambda>_. True" "\<lparr>rr_name = ''Ann'', rr_email = ''ann@x.com'', rr_password = replicate 73 CHR ''a''\<rparr>"
        initial_db demo_bcrypt demo_salt 5]
    by (simp add: initial_db_def)
qed

text \<open>C34: GetProfile answers 404 User not found when the statement fails, as for a user that does not exist.\<close>
theorem get_profile_db_error:
  assumes "\<not> db_up d"
  shows "get_profile d uid = ErrorResponse 404 ''User not found''"
  using assms by (simp add: get_profile_def sql_simps)

theorem get_profile_db_error_witness:
  "get_profile (ann_db\<lparr>db_up := False\<rparr>) 1 = ErrorResponse 404 ''User not found''"
  using get_profile_db_error [of "ann_db\<lparr>db_up := False\<rparr>" 1] by simp

text \<open>C35: the token a successful Login returns is three base64url segments separated by
  dots, written in the URL-safe alphabet, for the user whose address the request names:
  the first decodes to the header alg HS256, typ JWT; the second to exactly the claims
  email (the requested address), exp (the login time plus 86400) and user_id (the user's
  id), in key order; and the third to the HMAC of the first two under the secret.\<close>
theorem login_token_roundtrip:
  assumes "login mac s H is_email d now body =
             SuccessResponse c m (LoginData \<lparr>lresp_token = tok, lresp_user = v\<rparr>)"
  shows "\<exists>req u hs cs ss. body = Some req \<and> u \<in> set (users d) \<and> email u = lr_email req \<and>
     v = u\<lparr>password := []\<rparr> \<and> tok = hs @ ''.'' @ cs @ ''.'' @ ss \<and> jwt_split tok = Some (hs, cs, ss) \<and>
     decode_json_segment hs = Some [(''alg'', JStr ''HS256''), (''typ'', JStr ''JWT'')] \<and>
     decode_json_segment cs =
       Some [(''email'', JStr (lr_email req)), (''exp'', JNum (now + 86400)), (''user_id'', JNum (user_id u))] \<and>
     b64_decode ss = Some (mac HS256 s (hs @ ''.'' @ cs)) \<and>
     list_all (\<lambda>x. b64_val x \<noteq> None) (hs @ cs @ ss)"
proof -
  obtain req u where body: "body = Some req" and u: "u \<in> set (users d)" and e: "email u = lr_email req"
      and tok: "tok = jwt_sign mac HS256 s (login_claims u now)" and v: "v = u\<lparr>password := []\<rparr>"
    using login_issued [OF assms] by blast
  let ?h = "b64_encode (json_obj (jwt_header HS256))"
  let ?c = "b64_encode (json_obj (login_claims u now))"
  let ?s = "b64_encode (mac HS256 s (?h @ ''.'' @ ?c))"
  have parts: "tok = ?h @ ''.'' @ ?c @ ''.'' @ ?s"
    by (simp add: tok jwt_sign_def signing_string_def)
  have "list_all (\<lambda>x. b64_val x \<noteq> None) (?h @ ?c @ ?s)"
    unfolding list_all_iff using b64_encode_alphabet by auto
  moreover have "decode_json_segment ?h = Some [(''alg'', JStr ''HS256''), (''typ'', JStr ''JWT'')]"
    by (simp add: decode_json_segment_encode jwt_header_def)
  moreover have "decode_json_segment ?c =
      Some [(''email'', JStr (lr_email req)), (''exp'', JNum (now + 86400)), (''user_id'', JNum (user_id u))]"
    by (simp add: decode_json_segment_encode login_claims_def e)
  ultimately show ?thesis
    using body u e v parts tok jwt_split_sign [of mac HS256 s "login_claims u now"]
    by (intro exI [of _ req] exI [of _ u] exI [of _ ?h] exI [of _ ?c] exI [of _ ?s])
      (simp add: b64_decode_encode signing_string_def)
qed

theorem login_token_roundtrip_witness:
  "\<exists>hs cs ss. ann_token = hs @ ''.'' @ cs @ ''.'' @ ss \<and>
     decode_json_segment cs = Some [(''email'', JStr ''ann@x.com''), (''exp'', JNum 86401), (''user_id'', JNum 1)]"
  using login_token_roundtrip [OF ann_login [of "''k''"]] by auto

text \<open>C38: GetStats, five COUNT statements on one state, equals the one-pass reference
  \<open>stats_of\<close> over the caller's tasks: the same total, completed, pending,
  high-priority and overdue counts.\<close>
theorem get_stats_one_pass:
  assumes "db_up d"
  shows "get_stats d u now = SuccessResponse 200 ''Statistics retrieved successfully''
     (StatsData (stats_of now (filter (\<lambda>t. task_user_id t = u) (tasks d))))"
  using assms by (simp add: get_stats_def get_stats_at_def sql_count_tasks_def count_or_zero_def
      stats_of_counts filter_filter conj_commute)

theorem get_stats_one_pass_witness:
  "db_up sample_db \<and>
   get_stats sample_db 1 10 = SuccessResponse 200 ''Statistics retrieved successfully''
     (StatsData (stats_of 10 [sample_task])) \<and>
   stats_of 10 [sample_task] = \<lparr>total = 1, completed = 0, pending = 1, high_priority = 1, overdue = 0\<rparr>"
  using get_stats_one_pass [of sample_db 1 10]
  by (simp add: stats_of_def stats_step_def overdue_at_def)

text \<open>C9: GetStats counts as overdue exactly the caller's tasks that are not completed
  and whose due date is strictly before the time of the request: a task due at that very
  instant, or with no due date, is not overdue.\<close>
theorem get_stats_overdue:
  assumes "db_up d"
  shows "\<exists>s. get_stats d u now = SuccessResponse 200 ''Statistics retrieved successfully'' (StatsData s) \<and>
           overdue s = length (filter (\<lambda>t. task_user_id t = u \<and> \<not> is_completed t \<and>
                                          (\<exists>dd. due_date t = Some dd \<and> dd < now)) (tasks d))"
proof -
  have due: "overdue_at now t \<longleftrightarrow> (\<exists>dd. due_date t = Some dd \<and> dd < now)" for t
    by (simp add: overdue_at_def split: option.split)
  show ?thesis
    using assms by (simp add: get_stats_def get_stats_at_def sql_count_tasks_def count_or_zero_def due)
qed

theorem get_stats_overdue_witness:
  "\<exists>s. get_stats (sample_db\<lparr>tasks := [sample_task\<lparr>due_date := Some 9\<rparr>,
                                        sample_task\<lparr>task_id := 2, due_date := Some 10\<rparr>]\<rparr>) 1 10 =
         SuccessResponse 200 ''Statistics retrieved successfully'' (StatsData s) \<and> overdue s = 1"
  using get_stats_overdue [of "sample_db\<lparr>tasks := [sample_task\<lparr>due_date := Some 9\<rparr>,
                                        sample_task\<lparr>task_id := 2, due_date := Some 10\<rparr>]\<rparr>" 1 10]
  by simp

text \<open>C40: the scenario of the specification through the router, from empty tables:
  Register of Ann answers 201; Login answers 200 with a token; CreateTask of Buy milk
  with the token answers 201 with priority medium, category personal, not completed;
  GetStats counts one pending task; ToggleComplete flips it to completed; GetStats then
  counts one completed task. The requests after Login fall within the token's 24 hours.\<close>
theorem spec_scenario:
  assumes "bcrypt_params_ok H salt" and "is_email ''ann@x.com''"
    and "0 < t1" and "t2 < t1 + 86400" and "t3 < t1 + 86400" and "t4 < t1 + 86400" and "t5 < t1 + 86400"
  shows "\<exists>d1 d2 d3 u tok t t'.
    serve mac H is_email cfg salt t0
      \<lparr>req_authorization = [], req_route = RegisterRoute (Some ann_register)\<rparr> initial_db =
      (d1, Envelope (SuccessResponse 201 ''User registered successfully'' (UserData u))) \<and>
    serve mac H is_email cfg salt t1
      \<lparr>req_authorization = [], req_route = LoginRoute (Some \<lparr>lr_email = ''ann@x.com'', lr_password = ''secret1''\<rparr>)\<rparr> d1 =
      (d1, Envelope (SuccessResponse 200 ''Login successful'' (LoginData \<lparr>lresp_token = tok, lresp_user = u\<rparr>))) \<and>
    serve mac H is_email cfg salt t2
      \<lparr>req_authorization = ''Bearer '' @ tok, req_route = CreateTaskRoute (Some buy_milk)\<rparr> d1 =
      (d2, Envelope (SuccessResponse 201 ''Task created successfully'' (TaskData t))) \<and>
    priority t = PriorityMedium \<and> category t = CategoryPersonal \<and> \<not> is_completed t \<and>
    serve mac H is_email cfg salt t3 \<lparr>req_authorization = ''Bearer '' @ tok, req_route = GetStatsRoute\<rparr> d2 =
      (d2, Envelope (SuccessResponse 200 ''Statistics retrieved successfully''
        (StatsData \<lparr>total = 1, completed = 0, pending = 1, high_priority = 0, overdue = 0\<rparr>))) \<and>
    serve mac H is_email cfg salt t4
      \<lparr>req_authorization = ''Bearer '' @ tok, req_route = ToggleCompleteRoute ''1''\<rparr> d2 =
      (d3, Envelope (SuccessResponse 200 ''Task toggled successfully'' (TaskData t'))) \<and>
    is_completed t' \<and>
    serve mac H is_email cfg salt t5 \<lparr>req_authorization = ''Bearer '' @ tok, req_route = GetStatsRoute\<rparr> d3 =
      (d3, Envelope (SuccessResponse 200 ''Statistics retrieved successfully''
        (StatsData \<lparr>total = 1, completed = 1, pending = 0, high_priority = 0, overdue = 0\<rparr>)))"
proof -
  define hashed where "hashed = bcrypt_prefix @ salt @ H salt (blowfish_key ''secret1'')"
  define u0 where "u0 = new_user_row ann_register hashed t0 1"
  define d1 where "d1 = initial_db\<lparr>users := [u0], user_seq := 2\<rparr>"
  define tok where "tok = jwt_sign mac HS256 (cfg_jwt_secret cfg) (login_claims u0 t1)"
  define t where "t = \<lparr>task_id = 1, task_user_id = 1, title = ''Buy milk'', description = [],
    priority = PriorityMedium, category = CategoryPersonal, is_completed = False, due_date = None,
    created_at = t2, updated_at = t2\<rparr>"
  define d2 where "d2 = d1\<lparr>tasks := [t], task_seq := 2\<rparr>"
  define t' where "t' = t\<lparr>is_completed := True, updated_at := t4\<rparr>"
  define d3 where "d3 = d2\<lparr>tasks := [t']\<rparr>"
  have valid: "valid_register_request is_email ann_register"
    using assms(2) by (simp add: valid_register_request_def rune_count_def)
  have reg: "serve mac H is_email cfg salt t0
      \<lparr>req_authorization = [], req_route = RegisterRoute (Some ann_register)\<rparr> initial_db =
      (d1, Envelope (SuccessResponse 201 ''User registered successfully'' (UserData (u0\<lparr>password := []\<rparr>))))"
    using register_at_new [of is_email ann_register "\<lambda>_. initial_db" H salt t0] valid
    by (simp add: serve_def register_def initial_db_def d1_def u0_def hashed_def Let_def)
  have wf1: "db_wf d1" by (simp add: d1_def u0_def new_user_row_def initial_db_def db_wf_def)
  have "hash_password H salt ''secret1'' = Some hashed"
    by (simp add: hash_password_def bcrypt_generate_def hashed_def)
  then have chk: "check_password H ''secret1'' (password u0)"
    using assms(1) by (simp add: u0_def new_user_row_def check_password_hash)
  have login: "serve mac H is_email cfg salt t1
      \<lparr>req_authorization = [], req_route = LoginRoute (Some \<lparr>lr_email = ''ann@x.com'', lr_password = ''secret1''\<rparr>)\<rparr> d1 =
      (d1, Envelope (SuccessResponse 200 ''Login successful'' (LoginData \<lparr>lresp_token = tok, lresp_user = u0\<lparr>password := []\<rparr>\<rparr>)))"
    using login_valid [OF wf1 _ _ valid_login_of_register [OF valid], of u0] chk
    by (simp add: serve_def d1_def initial_db_def u0_def new_user_row_def tok_def)
  have gate: "auth_middleware mac (cfg_jwt_secret cfg) d t (''Bearer '' @ tok) = GatePass 1"
    if "users d = [u0]" and "db_up d" and "t < t1 + 86400" for d t
    using gate_login_token [of d u0 mac "cfg_jwt_secret cfg" t t1] that assms(3)
    by (simp add: tok_def u0_def new_user_row_def int4_range_def)
  have create: "serve mac H is_email cfg salt t2
      \<lparr>req_authorization = ''Bearer '' @ tok, req_route = CreateTaskRoute (Some buy_milk)\<rparr> d1 =
      (d2, Envelope (SuccessResponse 201 ''Task created successfully'' (TaskData t)))"
    using gate [of d1 t2] assms(4)
    by (simp add: serve_def protected_def d1_def d2_def initial_db_def t_def create_task_def
        insert_task_row_def create_task_defaults_def valid_create_task_request_def parse_priority_def
        parse_category_def sql_insert_task_def)
  have stats1: "serve mac H is_email cfg salt t3 \<lparr>req_authorization = ''Bearer '' @ tok, req_route = GetStatsRoute\<rparr> d2 =
      (d2, Envelope (SuccessResponse 200 ''Statistics retrieved successfully''
        (StatsData \<lparr>total = 1, completed = 0, pending = 1, high_priority = 0, overdue = 0\<rparr>)))"
    using gate [of d2 t3] assms(5)
    by (simp add: serve_def protected_def d1_def d2_def initial_db_def t_def get_stats_def get_stats_at_def
        sql_count_tasks_def count_or_zero_def overdue_at_def)
  have one: "pg_int4 ''1'' = Some 1" by code_simp
  have toggle: "serve mac H is_email cfg salt t4
      \<lparr>req_authorization = ''Bearer '' @ tok, req_route = ToggleCompleteRoute ''1''\<rparr> d2 =
      (d3, Envelope (SuccessResponse 200 ''Task toggled successfully'' (TaskData t')))"
    using gate [of d2 t4] assms(6) one
    by (simp add: serve_def protected_def d1_def d2_def d3_def initial_db_def t_def t'_def
        toggle_complete_def task_key_def sql_update_tasks_def toggle_row_def)
  have stats2: "serve mac H is_email cfg salt t5 \<lparr>req_authorization = ''Bearer '' @ tok, req_route = GetStatsRoute\<rparr> d3 =
      (d3, Envelope (SuccessResponse 200 ''Statistics retrieved successfully''
        (StatsData \<lparr>total = 1, completed = 1, pending = 0, high_priority = 0, overdue = 0\<rparr>)))"
    using gate [of d3 t5] assms(7)
    by (simp add: serve_def protected_def d1_def d2_def d3_def initial_db_def t_def t'_def get_stats_def
        get_stats_at_def sql_count_tasks_def count_or_zero_def overdue_at_def)
  have "priority t = PriorityMedium \<and> category t = CategoryPersonal \<and> \<not> is_completed t \<and> is_completed t'"
    by (simp add: t_def t'_def)
  with reg login create stats1 toggle stats2 show ?thesis by blast
qed

theorem spec_scenario_witness:
  "\<exists>d1 d2 d3 u tok t t'.
    serve demo_mac demo_bcrypt (\<lambda>_. True) (load_config None (\<lambda>_. None)) demo_salt 1
      \<lparr>req_authorization = [], req_route = RegisterRoute (Some ann_register)\<rparr> initial_db =
      (d1, Envelope (SuccessResponse 201 ''User registered successfully'' (UserData u))) \<and>
    serve demo_mac demo_bcrypt (\<lambda>_. True) (load_config None (\<lambda>_. None)) demo_salt 2
      \<lparr>req_authorization = [], req_route = LoginRoute (Some \<lparr>lr_email = ''ann@x.com'', lr_password = ''secret1''\<rparr>)\<rparr> d1 =
      (d1, Envelope (SuccessResponse 200 ''Login successful'' (LoginData \<lparr>lresp_token = tok, lresp_user = u\<rparr>))) \<and>
    serve demo_mac demo_bcrypt (\<lambda>_. True) (load_config None (\<lambda>_. None)) demo_salt 3
      \<lparr>req_authorization = ''Bearer '' @ tok, req_route = CreateTaskRoute (Some buy_milk)\<rparr> d1 =
      (d2, Envelope (SuccessResponse 201 ''Task created successfully'' (TaskData t))) \<and>
    priority t = PriorityMedium \<and> category t = CategoryPersonal \<and> \<not> is_completed t \<and>
    serve demo_mac demo_bcrypt (\<lambda>_. True) (load_config None (\<lambda>_. None)) demo_salt 4
      \<lparr>req_authorization = ''Bearer '' @ tok, req_route = GetStatsRoute\<rparr> d2 =
      (d2, Envelope (SuccessResponse 200 ''Statistics retrieved successfully''
        (StatsData \<lparr>total = 1, completed = 0, pending = 1, high_priority = 0, overdue = 0\<rparr>))) \<and>
    serve demo_mac demo_bcrypt (\<lambda>_. True) (load_config None (\<lambda>_. None)) demo_salt 5
      \<lparr>req_authorization = ''Bearer '' @ tok, req_route = ToggleCompleteRoute ''1''\<rparr> d2 =
      (d3, Envelope (SuccessResponse 200 ''Task toggled successfully'' (TaskData t'))) \<and>
    is_completed t' \<and>
    serve demo_mac demo_bcrypt (\<lambda>_. True) (load_config None (\<lambda>_. None)) demo_salt 6
      \<lparr>req_authorization = ''Bearer '' @ tok, req_route = GetStatsRoute\<rparr> d3 =
      (d3, Envelope (SuccessResponse 200 ''Statistics retrieved successfully''
        (StatsData \<lparr>total = 1, completed = 1, pending = 0, high_priority = 0, overdue = 0\<rparr>)))"
proof -
  have "bcrypt_params_ok demo_bcrypt demo_salt" by (simp add: bcrypt_params_ok_def min_def)
  then show ?thesis
    using spec_scenario [of demo_bcrypt demo_salt "\<lambda>_. True" 2 3 4 5 6 demo_mac
        "load_config None (\<lambda>_. None)" 1]
    by simp
qed

theorem main_start_login_gate_witness:
  "snd (main_start None (\<lambda>_. None) (\<lambda>_. True) (\<lambda>_. True) (\<lambda>_. True)) =
     Started (setup_router (load_config None (\<lambda>_. None))
       (new_auth_handler (DbConn (cfg_database_url (load_config None (\<lambda>_. None)))) default_jwt_secret)
       (new_task_handler (DbConn (cfg_database_url (load_config None (\<lambda>_. None)))))) \<and>
   auth_middleware demo_mac default_jwt_secret ann_db 86400
     (''Bearer '' @ jwt_sign demo_mac HS256 default_jwt_secret (login_claims ann_user 1)) = GatePass 1"
proof -
  let ?cfg = "load_config None (\<lambda>_. None)"
  let ?srv = "setup_router ?cfg (new_auth_handler (DbConn (cfg_database_url ?cfg)) default_jwt_secret)
                (new_task_handler (DbConn (cfg_database_url ?cfg)))"
  have run: "snd (main_start None (\<lambda>_. None) (\<lambda>_. True) (\<lambda>_. True) (\<lambda>_. True)) = Started ?srv"
    by (simp add: main_start_def database_connect_def router_run_def load_config_defaults default_jwt_secret_def Let_def)
  have secrets: "ah_jwt_secret (srv_auth ?srv) = default_jwt_secret" "srv_gate_secret ?srv = default_jwt_secret"
    by (simp_all add: setup_router_def new_auth_handler_def load_config_defaults default_jwt_secret_def)
  show ?thesis
    using run Startup.main_start_login_gate [OF run, of demo_mac demo_bcrypt "\<lambda>_. True" ann_db 1]
      ann_login [of default_jwt_secret]
    by (simp add: secrets int4_range_def)
qed

end
